theory Spec2Isabelle
  imports Main "HOL-Library.Sublist" "HOL-Library.Multiset"
begin

section \<open>Domain types (internal/domain/types.go)\<close>

text \<open>
  Go strings are byte sequences; they are modelled as \<open>string\<close> (a list of 8-bit
  characters), so \<open>length\<close> is Go's \<open>len\<close>, \<open>take\<close>/\<open>drop\<close> are slicing and
  \<open>@\<close> is concatenation. A Go \<open>error\<close> carries a message; a run-time panic is
  kept apart from the errors a function returns.
\<close>

datatype error = Error string | Panic string

record SessionKey =
  Platform :: string
  ChatID :: string
  ThreadID :: string

text \<open>\<open>func (k SessionKey) String() string\<close>\<close>

definition SessionKey_String :: "SessionKey \<Rightarrow> string" where
  "SessionKey_String k =
     (if ThreadID k = [] then Platform k @ '':'' @ ChatID k
      else Platform k @ '':'' @ ChatID k @ '':'' @ ThreadID k)"

definition colon_free :: "string \<Rightarrow> bool" where
  "colon_free s = (CHR '':'' \<notin> set s)"

record OutboundMessage =
  om_SessionKey :: SessionKey
  om_Text :: string
  om_Format :: string
  om_Meta :: "string \<rightharpoonup> string"

text \<open>
  \<open>StreamEvent\<close>. \<open>ev_TS\<close> is an abstract instant, \<open>ev_ExitCode\<close> is Go's \<open>*int\<close>
  (\<open>None\<close> is nil). The field \<open>Format\<close> is the one the adapters assign
  (\<open>ev.Format = format\<close> in codex.go); its zero value is the empty string.
\<close>

record StreamEvent =
  ev_JobID :: string
  ev_Seq :: int
  ev_Chunk :: string
  ev_IsFinal :: bool
  ev_TS :: nat
  ev_Stream :: string
  ev_ExitCode :: "int option"
  ev_Format :: string

section \<open>Transports as senders\<close>

text \<open>
  A \<open>Sender\<close> (\<open>Send(ctx, OutboundMessage) error\<close>) is an effect on the outside world.
  Its state is the log of the messages handed to it, in order; \<open>fault n\<close> is the
  outcome of the send call number \<open>n\<close> (counted from 0), \<open>None\<close> for a nil error.
\<close>

record Sender =
  sent :: "OutboundMessage list"
  fault :: "nat \<Rightarrow> error option"

definition Send :: "Sender \<Rightarrow> OutboundMessage \<Rightarrow> error option \<times> Sender" where
  "Send s m = (fault s (length (sent s)), s\<lparr>sent := sent s @ [m]\<rparr>)"

section \<open>Stream batcher (internal/stream/batcher.go)\<close>

text \<open>
  \<open>b_interval\<close> is a \<open>time.Duration\<close> in nanoseconds. The sender and the mutex are not
  fields of the model: the sender's state is passed in and out, and \<open>sendLocked\<close> runs
  under the lock, so one \<open>OnEvent\<close> is one atomic step.
\<close>

record Batcher =
  b_interval :: int
  b_maxChunk :: int
  b_key :: SessionKey

definition NewBatcher :: "int \<Rightarrow> int \<Rightarrow> SessionKey \<Rightarrow> Batcher" where
  "NewBatcher interval maxChunk key =
     (let interval = (if interval < 300 * 1000000 then 300 * 1000000 else interval);
          interval = (if interval > 500 * 1000000 then 500 * 1000000 else interval);
          maxChunk = (if maxChunk \<le> 0 then 3500 else maxChunk)
      in \<lparr>b_interval = interval, b_maxChunk = maxChunk, b_key = key\<rparr>)"

text \<open>\<open>domain.OutboundMessage{SessionKey: b.key, Text: msg}\<close>: the other fields are zero.\<close>

definition text_message :: "SessionKey \<Rightarrow> string \<Rightarrow> OutboundMessage" where
  "text_message key msg =
     \<lparr>om_SessionKey = key, om_Text = msg, om_Format = [], om_Meta = Map.empty\<rparr>"

text \<open>
  The \<open>for len(msg) > b.maxChunk\<close> loop of \<open>sendLocked\<close> with what follows it. The loop
  is reached only with \<open>maxChunk > 0\<close> (the guard before it returns otherwise), which is
  the \<open>0 < mc\<close> of the loop condition here.
\<close>

function send_loop :: "int \<Rightarrow> SessionKey \<Rightarrow> string \<Rightarrow> Sender \<Rightarrow> error option \<times> Sender" where
  "send_loop mc key msg s =
     (if 0 < mc \<and> mc < int (length msg) then
        (case Send s (text_message key (take (nat mc) msg)) of
           (Some e, s') \<Rightarrow> (Some e, s')
         | (None, s') \<Rightarrow> send_loop mc key (drop (nat mc) msg) s')
      else if msg \<noteq> [] then Send s (text_message key msg)
      else (None, s))"
  by pat_completeness auto
termination
  by (relation "measure (\<lambda>(mc, key, msg, s). length msg)") auto

declare send_loop.simps [simp del]

definition sendLocked :: "Batcher \<Rightarrow> string \<Rightarrow> Sender \<Rightarrow> error option \<times> Sender" where
  "sendLocked b msg s =
     (if b_maxChunk b \<le> 0 \<or> int (length msg) \<le> b_maxChunk b
      then Send s (text_message (b_key b) msg)
      else send_loop (b_maxChunk b) (b_key b) msg s)"

definition Batcher_OnEvent :: "Batcher \<Rightarrow> StreamEvent \<Rightarrow> Sender \<Rightarrow> error option \<times> Sender" where
  "Batcher_OnEvent b ev s =
     (if ev_Chunk ev = [] then (None, s) else sendLocked b (ev_Chunk ev) s)"

definition Batcher_Flush :: "Batcher \<Rightarrow> Sender \<Rightarrow> error option \<times> Sender" where
  "Batcher_Flush b s = (None, s)"

text \<open>What a call handed to the sender: the log after it, without the log before it.\<close>

definition sent_since :: "Sender \<Rightarrow> Sender \<Rightarrow> OutboundMessage list" where
  "sent_since s s' = drop (length (sent s)) (sent s')"

section \<open>Telegram transport: the sendMessage payload (internal/transport/telegram)\<close>

text \<open>
  \<open>strconv.ParseInt(s, 10, 64)\<close>: an optional sign, then one or more decimal digits,
  and the value must fit a signed 64-bit integer.
\<close>

definition byte :: "char \<Rightarrow> nat" where
  "byte c = of_char c"

definition is_digit :: "char \<Rightarrow> bool" where
  "is_digit c = (48 \<le> byte c \<and> byte c \<le> 57)"

definition digit_val :: "char \<Rightarrow> int" where
  "digit_val c = int (byte c) - 48"

definition ParseInt10_64 :: "string \<Rightarrow> int option" where
  "ParseInt10_64 s =
     (let neg = (s \<noteq> [] \<and> hd s = CHR ''-'');
          ds = (if s \<noteq> [] \<and> (hd s = CHR ''+'' \<or> hd s = CHR ''-'') then tl s else s)
      in if ds = [] \<or> \<not> list_all is_digit ds then None
         else let n = foldl (\<lambda>a c. 10 * a + digit_val c) 0 ds;
                  v = (if neg then - n else n)
              in if v < - (2 ^ 63) \<or> 2 ^ 63 \<le> v then None else Some v)"

datatype payload_value = PString string | PInt int

definition buildSendPayload :: "OutboundMessage \<Rightarrow> (string \<rightharpoonup> payload_value)" where
  "buildSendPayload msg =
     (let payload = [''chat_id'' \<mapsto> PString (ChatID (om_SessionKey msg)),
                     ''text'' \<mapsto> PString (om_Text msg)]
      in if ThreadID (om_SessionKey msg) \<noteq> [] then
           (case ParseInt10_64 (ThreadID (om_SessionKey msg)) of
              Some threadID \<Rightarrow> payload(''message_thread_id'' \<mapsto> PInt threadID)
            | None \<Rightarrow> payload)
         else payload)"

text \<open>The JSON body \<open>Bot.Send\<close> posts to \<open>sendMessage\<close>, before it is marshalled.\<close>

definition Bot_Send_payload :: "OutboundMessage \<Rightarrow> (string \<rightharpoonup> payload_value)" where
  "Bot_Send_payload msg =
     (let payload = buildSendPayload msg
      in if om_Format msg = ''html'' then payload(''parse_mode'' \<mapsto> PString ''HTML'')
         else payload)"

section \<open>Go library functions on strings and paths\<close>

text \<open>
  \<open>strings.Split(s, sep)\<close> for a one-byte separator and \<open>strings.Join(elems, sep)\<close>.
  Splitting the empty string gives one empty element, as in Go.
\<close>

fun split_on :: "char \<Rightarrow> string \<Rightarrow> string list" where
  "split_on c [] = [[]]"
| "split_on c (x # xs) =
     (if x = c then [] # split_on c xs
      else (case split_on c xs of w # ws \<Rightarrow> (x # w) # ws | [] \<Rightarrow> [[x]]))"

fun join_with :: "string \<Rightarrow> string list \<Rightarrow> string" where
  "join_with sep [] = []"
| "join_with sep [x] = x"
| "join_with sep (x # y # ys) = x @ sep @ join_with sep (y # ys)"

text \<open>
  \<open>strings.TrimSpace\<close> removes leading and trailing white space as \<open>unicode.IsSpace\<close>
  defines it. On UTF-8 bytes these are the six ASCII characters, U+0085 and U+00A0
  (two bytes each) and the three-byte White_Space characters U+1680, U+2000..U+200A,
  U+2028, U+2029, U+202F, U+205F and U+3000.
\<close>

text \<open>The character with a given byte value, bit by bit (lowest bit first).\<close>

definition chr_of_byte :: "nat \<Rightarrow> char" where
  "chr_of_byte n =
     Char (odd n) (odd (n div 2)) (odd (n div 4)) (odd (n div 8))
          (odd (n div 16)) (odd (n div 32)) (odd (n div 64)) (odd (n div 128))"

definition bytes :: "nat list \<Rightarrow> string" where
  "bytes ns = map chr_of_byte ns"

text \<open>
  The number of bytes of the white-space character at the head of a text (0 if there is
  none), and of the one at the end of a text, given the text reversed.
\<close>

definition space_len :: "string \<Rightarrow> nat" where
  "space_len s =
     (case s of
        [] \<Rightarrow> 0
      | c # cs \<Rightarrow>
          (if (9 \<le> byte c \<and> byte c \<le> 13) \<or> byte c = 32 then Suc 0
           else if byte c = 194 then
             (if map byte (take 1 cs) = [133] \<or> map byte (take 1 cs) = [160] then Suc (Suc 0) else 0)
           else if byte c = 225 then
             (if map byte (take 2 cs) = [154, 128] then Suc (Suc (Suc 0)) else 0)
           else if byte c = 226 then
             (case map byte (take 2 cs) of
                [a, b] \<Rightarrow>
                  (if (a = 128 \<and> ((128 \<le> b \<and> b \<le> 138) \<or> b = 168 \<or> b = 169 \<or> b = 175))
                      \<or> (a = 129 \<and> b = 159)
                   then Suc (Suc (Suc 0)) else 0)
              | _ \<Rightarrow> 0)
           else if byte c = 227 then
             (if map byte (take 2 cs) = [128, 128] then Suc (Suc (Suc 0)) else 0)
           else 0))"

definition space_len_back :: "string \<Rightarrow> nat" where
  "space_len_back r =
     (case r of
        [] \<Rightarrow> 0
      | c # cs \<Rightarrow>
          (if byte c < 128 then space_len [c]
           else if space_len (rev (take 3 r)) = Suc (Suc (Suc 0)) then Suc (Suc (Suc 0))
           else if space_len (rev (take 2 r)) = Suc (Suc 0) then Suc (Suc 0)
           else 0))"

fun trim_front :: "(string \<Rightarrow> nat) \<Rightarrow> string \<Rightarrow> string" where
  "trim_front f [] = []"
| "trim_front f (c # cs) =
     (case f (c # cs) of
        0 \<Rightarrow> c # cs
      | Suc n \<Rightarrow> trim_front f (drop n cs))"

definition TrimSpace :: "string \<Rightarrow> string" where
  "TrimSpace s = rev (trim_front space_len_back (rev (trim_front space_len s)))"

text \<open>
  \<open>strconv.Quote\<close>, which \<open>%q\<close> applies: the text in double quotes, with \<open>"\<close> and
  \<open>\\<close> escaped, the control characters written as Go escapes, and bytes from 128 on
  copied (Go copies printable UTF-8 text; it escapes invalid or unprintable sequences,
  which the model does not tell apart).
\<close>

definition hex_digit :: "nat \<Rightarrow> char" where
  "hex_digit n = (''0123456789abcdef'' ! (n mod 16))"

definition quote_byte :: "char \<Rightarrow> string" where
  "quote_byte c =
     (let n = byte c in
      if n = 34 then [CHR 0x5C, c]
      else if n = 92 then [c, c]
      else if n = 7 then CHR 0x5C # ''a''
      else if n = 8 then CHR 0x5C # ''b''
      else if n = 12 then CHR 0x5C # ''f''
      else if n = 10 then CHR 0x5C # ''n''
      else if n = 13 then CHR 0x5C # ''r''
      else if n = 9 then CHR 0x5C # ''t''
      else if n = 11 then CHR 0x5C # ''v''
      else if n < 32 \<or> n = 127 then CHR 0x5C # CHR ''x'' # [hex_digit (n div 16), hex_digit n]
      else [c])"

definition Quote :: "string \<Rightarrow> string" where
  "Quote s = CHR 0x22 # concat (map quote_byte s) @ [CHR 0x22]"

text \<open>
  \<open>filepath.Clean\<close> on a Unix path, by its documented rules: separators are collapsed,
  \<open>.\<close> elements are dropped, an inner \<open>..\<close> is dropped with the element before it,
  a \<open>..\<close> that begins a rooted path is dropped, and the empty result is \<open>.\<close>.
  \<open>out\<close> is the list of elements written so far.
\<close>

definition clean_elem :: "bool \<Rightarrow> string list \<Rightarrow> string \<Rightarrow> string list" where
  "clean_elem rooted out e =
     (if e = [] \<or> e = ''.'' then out
      else if e = ''..'' then
        (if out \<noteq> [] \<and> last out \<noteq> ''..'' then butlast out
         else if rooted then out
         else out @ [''..''])
      else out @ [e])"

definition Clean :: "string \<Rightarrow> string" where
  "Clean path =
     (if path = [] then ''.''
      else let rooted = (hd path = CHR ''/'');
               out = foldl (clean_elem rooted) [] (split_on CHR ''/'' path);
               body = join_with ''/'' out
           in if rooted then CHR ''/'' # body
              else if body = [] then ''.'' else body)"

section \<open>Go's encoding/json, as far as the program uses it\<close>

text \<open>
  A JSON text is parsed into a tree. A number keeps its literal; each member of an object
  also keeps the raw text of its value, which is what a \<open>json.RawMessage\<close> field
  receives. Strings are decoded to bytes: escapes are resolved and \<open>\uXXXX\<close> is written
  in UTF-8 (a surrogate pair as one code point, a lone surrogate as U+FFFD). Bytes from
  128 on are copied as they are; Go replaces those that are not valid UTF-8 by U+FFFD,
  which the model does not do.
\<close>

datatype json =
    JNull
  | JBool bool
  | JNumber string
  | JString string
  | JArray "json list"
  | JObject "(string \<times> string \<times> json) list"

definition is_ws :: "char \<Rightarrow> bool" where
  "is_ws c = (byte c = 32 \<or> byte c = 9 \<or> byte c = 13 \<or> byte c = 10)"

definition skip_ws :: "string \<Rightarrow> string" where
  "skip_ws s = dropWhile is_ws s"

definition hex_val :: "char \<Rightarrow> nat option" where
  "hex_val c =
     (let n = byte c in
      if 48 \<le> n \<and> n \<le> 57 then Some (n - 48)
      else if 97 \<le> n \<and> n \<le> 102 then Some (n - 87)
      else if 65 \<le> n \<and> n \<le> 70 then Some (n - 55)
      else None)"

text \<open>\<open>getu4\<close>: the code unit of \<open>uXXXX\<close> at the head of the text (after the backslash).\<close>

definition getu4 :: "string \<Rightarrow> nat option" where
  "getu4 s =
     (case s of
        u # a # b # c # d # _ \<Rightarrow>
          (if u \<noteq> CHR ''u'' then None
           else (case (hex_val a, hex_val b, hex_val c, hex_val d) of
                   (Some x, Some y, Some z, Some w) \<Rightarrow> Some (((x * 16 + y) * 16 + z) * 16 + w)
                 | _ \<Rightarrow> None))
      | _ \<Rightarrow> None)"

definition utf8_encode :: "nat \<Rightarrow> string" where
  "utf8_encode cp =
     (if cp < 128 then bytes [cp]
      else if cp < 2048 then bytes [192 + cp div 64, 128 + cp mod 64]
      else if cp < 65536 then bytes [224 + cp div 4096, 128 + cp div 64 mod 64, 128 + cp mod 64]
      else bytes [240 + cp div 262144, 128 + cp div 4096 mod 64,
                  128 + cp div 64 mod 64, 128 + cp mod 64])"

definition is_surrogate :: "nat \<Rightarrow> bool" where
  "is_surrogate u = (55296 \<le> u \<and> u < 57344)"

definition unescape :: "char \<Rightarrow> char option" where
  "unescape e =
     (if e = CHR 0x22 \<or> e = CHR 0x5C \<or> e = CHR ''/'' then Some e
      else if e = CHR ''b'' then Some (CHR 0x08)
      else if e = CHR ''f'' then Some (CHR 0x0C)
      else if e = CHR ''n'' then Some (CHR 0x0A)
      else if e = CHR ''r'' then Some (CHR 0x0D)
      else if e = CHR ''t'' then Some (CHR 0x09)
      else None)"

text \<open>
  The body of a string literal, after its opening quote: the decoded bytes and the text
  after the closing quote. A control character or an unknown escape is a syntax error.
\<close>

fun string_body :: "string \<Rightarrow> (string \<times> string) option" where
  "string_body [] = None"
| "string_body (c # cs) =
     (if c = CHR 0x22 then Some ([], cs)
      else if byte c < 32 then None
      else if c = CHR 0x5C then
        (case cs of
           [] \<Rightarrow> None
         | e # es \<Rightarrow>
             (if e = CHR ''u'' then
                (case getu4 cs of
                   None \<Rightarrow> None
                 | Some u \<Rightarrow>
                     (if is_surrogate u then
                        (case (if take 1 (drop 4 es) = [CHR 0x5C] then getu4 (drop 5 es) else None) of
                           Some v \<Rightarrow>
                             (if u < 56320 \<and> 56320 \<le> v \<and> v < 57344 then
                                map_option (\<lambda>(s, r). (utf8_encode (65536 + (u - 55296) * 1024 + (v - 56320)) @ s, r))
                                  (string_body (drop 10 es))
                              else map_option (\<lambda>(s, r). (utf8_encode 65533 @ s, r))
                                     (string_body (drop 4 es)))
                         | None \<Rightarrow> map_option (\<lambda>(s, r). (utf8_encode 65533 @ s, r))
                                     (string_body (drop 4 es)))
                      else map_option (\<lambda>(s, r). (utf8_encode u @ s, r)) (string_body (drop 4 es))))
              else (case unescape e of
                      None \<Rightarrow> None
                    | Some d \<Rightarrow> map_option (\<lambda>(s, r). (d # s, r)) (string_body es))))
      else map_option (\<lambda>(s, r). (c # s, r)) (string_body cs))"

text \<open>
  A number literal: \<open>-? (0 | [1-9][0-9]*) (. [0-9]+)? ([eE] [+-]? [0-9]+)?\<close>, the
  longest one at the head of the text.
\<close>

definition number_lit :: "string \<Rightarrow> (string \<times> string) option" where
  "number_lit s =
     (let sign = (if take 1 s = ''-'' then ''-'' else []);
          s1 = drop (length sign) s;
          ip = (if take 1 s1 = ''0'' then ''0'' else takeWhile is_digit s1);
          s2 = drop (length ip) s1;
          fd = (if take 1 s2 = ''.'' then takeWhile is_digit (drop 1 s2) else []);
          fp = (if take 1 s2 = ''.'' then CHR ''.'' # fd else []);
          s3 = drop (length fp) s2;
          hasexp = (take 1 s3 = ''e'' \<or> take 1 s3 = ''E'');
          es = (if hasexp \<and> (take 1 (drop 1 s3) = ''+'' \<or> take 1 (drop 1 s3) = ''-'')
                then take 1 (drop 1 s3) else []);
          ed = (if hasexp then takeWhile is_digit (drop (1 + length es) s3) else []);
          ep = (if hasexp then take 1 s3 @ es @ ed else []);
          s4 = drop (length ep) s3
      in if ip = [] \<or> (take 1 s2 = ''.'' \<and> fd = []) \<or> (hasexp \<and> ed = []) then None
         else Some (sign @ ip @ fp @ ep, s4))"

text \<open>
  Values, array elements and object members. \<open>fuel\<close> bounds the number of nested
  calls; every call consumes at least one byte, so the length of the text is enough.
\<close>

fun parse_value :: "nat \<Rightarrow> string \<Rightarrow> (json \<times> string) option"
  and parse_elems :: "nat \<Rightarrow> string \<Rightarrow> (json list \<times> string) option"
  and parse_members :: "nat \<Rightarrow> string \<Rightarrow> ((string \<times> string \<times> json) list \<times> string) option"
where
  "parse_value 0 s = None"
| "parse_value (Suc n) s =
     (case s of
        [] \<Rightarrow> None
      | c # cs \<Rightarrow>
          (if c = CHR ''{'' then
             (if take 1 (skip_ws cs) = ''}'' then Some (JObject [], drop 1 (skip_ws cs))
              else map_option (\<lambda>(ms, r). (JObject ms, r)) (parse_members n (skip_ws cs)))
           else if c = CHR ''['' then
             (if take 1 (skip_ws cs) = '']'' then Some (JArray [], drop 1 (skip_ws cs))
              else map_option (\<lambda>(vs, r). (JArray vs, r)) (parse_elems n (skip_ws cs)))
           else if c = CHR 0x22 then map_option (\<lambda>(t, r). (JString t, r)) (string_body cs)
           else if take 4 s = ''true'' then Some (JBool True, drop 4 s)
           else if take 5 s = ''false'' then Some (JBool False, drop 5 s)
           else if take 4 s = ''null'' then Some (JNull, drop 4 s)
           else map_option (\<lambda>(t, r). (JNumber t, r)) (number_lit s)))"
| "parse_elems 0 s = None"
| "parse_elems (Suc n) s =
     (case parse_value n s of
        None \<Rightarrow> None
      | Some (v, r) \<Rightarrow>
          (let r1 = skip_ws r in
           if take 1 r1 = '','' then
             map_option (\<lambda>(vs, r2). (v # vs, r2)) (parse_elems n (skip_ws (drop 1 r1)))
           else if take 1 r1 = '']'' then Some ([v], drop 1 r1)
           else None))"
| "parse_members 0 s = None"
| "parse_members (Suc n) s =
     (if take 1 s \<noteq> [CHR 0x22] then None
      else (case string_body (drop 1 s) of
              None \<Rightarrow> None
            | Some (k, r) \<Rightarrow>
                (if take 1 (skip_ws r) \<noteq> '':'' then None
                 else (let s1 = skip_ws (drop 1 (skip_ws r)) in
                       case parse_value n s1 of
                         None \<Rightarrow> None
                       | Some (v, r1) \<Rightarrow>
                           (let raw = take (length s1 - length r1) s1; r2 = skip_ws r1 in
                            if take 1 r2 = '','' then
                              map_option (\<lambda>(ms, r3). ((k, raw, v) # ms, r3))
                                (parse_members n (skip_ws (drop 1 r2)))
                            else if take 1 r2 = ''}'' then Some ([(k, raw, v)], drop 1 r2)
                            else None)))))"

text \<open>The whole text is one value between optional white space, or the text is invalid.\<close>

definition parse_json :: "string \<Rightarrow> json option" where
  "parse_json s =
     (case parse_value (Suc (length s)) (skip_ws s) of
        None \<Rightarrow> None
      | Some (v, r) \<Rightarrow> (if skip_ws r = [] then Some v else None))"

text \<open>
  Decoding an object into a Go struct. A key selects the field whose name it equals
  under Unicode case folding; the field names here are lower-case ASCII, so a key is
  folded by lowering its ASCII letters and by reading U+017F as \<open>s\<close> and U+212A as
  \<open>k\<close>. Members are decoded in order, a later duplicate overwriting an earlier one. A
  value of the wrong kind makes \<open>Unmarshal\<close> return an error (\<open>None\<close>); \<open>null\<close> leaves
  a string field as it is.
\<close>

fun fold_key :: "string \<Rightarrow> string" where
  "fold_key [] = []"
| "fold_key (c # cs) =
     (if 65 \<le> byte c \<and> byte c \<le> 90 then chr_of_byte (byte c + 32) # fold_key cs
      else if map byte (take 2 (c # cs)) = [197, 191] then CHR ''s'' # fold_key (drop 1 cs)
      else if map byte (take 3 (c # cs)) = [226, 132, 170] then CHR ''k'' # fold_key (drop 2 cs)
      else c # fold_key cs)"

fun decode_fields ::
  "(string \<Rightarrow> string \<Rightarrow> json \<Rightarrow> 'a \<Rightarrow> 'a option) \<Rightarrow> (string \<times> string \<times> json) list \<Rightarrow> 'a \<Rightarrow> 'a option"
where
  "decode_fields f [] a = Some a"
| "decode_fields f ((k, raw, v) # ms) a =
     (case f (fold_key k) raw v a of
        None \<Rightarrow> None
      | Some a' \<Rightarrow> decode_fields f ms a')"

definition dec_string :: "json \<Rightarrow> string \<Rightarrow> string option" where
  "dec_string v old = (case v of JString t \<Rightarrow> Some t | JNull \<Rightarrow> Some old | _ \<Rightarrow> None)"

text \<open>
  A field of type pointer to struct: \<open>null\<close> sets it to nil, an object is decoded into
  the struct it points to (a new zero struct if it was nil).
\<close>

definition dec_struct_ptr ::
  "'a \<Rightarrow> ((string \<times> string \<times> json) list \<Rightarrow> 'a \<Rightarrow> 'a option) \<Rightarrow> json \<Rightarrow> 'a option \<Rightarrow> 'a option option"
where
  "dec_struct_ptr zero dec v old =
     (case v of
        JNull \<Rightarrow> Some None
      | JObject ms \<Rightarrow> map_option Some (dec ms (case old of None \<Rightarrow> zero | Some x \<Rightarrow> x))
      | _ \<Rightarrow> None)"

text \<open>All elements decoded, or \<open>None\<close> if one of them fails.\<close>

fun all_some :: "'a option list \<Rightarrow> 'a list option" where
  "all_some [] = Some []"
| "all_some (x # xs) =
     (case x of
        None \<Rightarrow> None
      | Some y \<Rightarrow> map_option (\<lambda>ys. y # ys) (all_some xs))"

text \<open>\<open>html.EscapeString\<close>\<close>

definition EscapeString :: "string \<Rightarrow> string" where
  "EscapeString s =
     concat (map (\<lambda>c. if c = CHR ''&'' then ''&amp;''
                        else if c = CHR 0x27 then ''&#39;''
                        else if c = CHR ''<'' then ''&lt;''
                        else if c = CHR ''>'' then ''&gt;''
                        else if c = CHR 0x22 then ''&#34;''
                        else [c]) s)"

definition HasPrefix :: "string \<Rightarrow> string \<Rightarrow> bool" where
  "HasPrefix s p = prefix p s"

definition HasSuffix :: "string \<Rightarrow> string \<Rightarrow> bool" where
  "HasSuffix s p = (length p \<le> length s \<and> drop (length s - length p) s = p)"

section \<open>Executor adapters (internal/executor)\<close>

subsection \<open>Session ids by regular expression (session_regex.go)\<close>

text \<open>
  \<open>re.FindAllStringSubmatch(chunk, -1)\<close> yields the successive leftmost matches. A
  matcher gives, for a text, the group of the match that starts at its head and the text
  after that match. The regular expressions of the program match no empty text.
\<close>

function all_matches :: "(string \<Rightarrow> (string \<times> string) option) \<Rightarrow> string \<Rightarrow> string list" where
  "all_matches m s =
     (case m s of
        Some (g, rest) \<Rightarrow>
          (if length rest < length s then g # all_matches m rest else [g])
      | None \<Rightarrow> (case s of [] \<Rightarrow> [] | _ # t \<Rightarrow> all_matches m t))"
  by pat_completeness auto
termination
  by (relation "measure (\<lambda>(m, s). length s)") auto

declare all_matches.simps [simp del]

definition extractSessionIDByRegex :: "string \<Rightarrow> (string \<Rightarrow> (string \<times> string) option) \<Rightarrow> string" where
  "extractSessionIDByRegex chunk re =
     (if chunk = [] then []
      else (case all_matches re chunk of
              [] \<Rightarrow> []
            | ms \<Rightarrow> TrimSpace (last ms)))"

definition lower_ascii :: "char \<Rightarrow> char" where
  "lower_ascii c = (if 65 \<le> byte c \<and> byte c \<le> 90 then chr_of_byte (byte c + 32) else c)"

definition is_id_char :: "char \<Rightarrow> bool" where
  "is_id_char c =
     (is_digit c \<or> (97 \<le> byte (lower_ascii c) \<and> byte (lower_ascii c) \<le> 102) \<or> c = CHR ''-'')"

definition re_space :: "char \<Rightarrow> bool" where
  "re_space c = (byte c = 9 \<or> byte c = 10 \<or> byte c = 12 \<or> byte c = 13 \<or> byte c = 32)"

text \<open>\<open>(?i)thread[_ ]id:\s*([0-9a-f-]{36})\<close> at the head of a text: group 1 and the rest.\<close>

definition codexThreadIDRegex :: "string \<Rightarrow> (string \<times> string) option" where
  "codexThreadIDRegex s =
     (if map lower_ascii (take 6 s) = ''thread''
         \<and> (take 1 (drop 6 s) = ''_'' \<or> take 1 (drop 6 s) = '' '')
         \<and> map lower_ascii (take 3 (drop 7 s)) = ''id:''
      then (let s1 = dropWhile re_space (drop 10 s); g = take 36 s1
            in if length g = 36 \<and> list_all is_id_char g then Some (g, drop 36 s1) else None)
      else None)"

subsection \<open>Display helpers (codex.go)\<close>

definition commandTruncateLimit :: nat where
  "commandTruncateLimit = 800"

definition truncateCommandForDisplay :: "string \<Rightarrow> string" where
  "truncateCommandForDisplay cmd =
     (if length cmd \<le> commandTruncateLimit then cmd
      else let lines = split_on (CHR 0x0A) cmd
           in if length lines \<le> 6 then cmd
              else let head = join_with [CHR 0x0A] (take 3 lines);
                       tail = join_with [CHR 0x0A] (drop (length lines - 3) lines)
                   in head @ [CHR 0x0A] @ '' ...... [truncated] ...... '' @ [CHR 0x0A, CHR 0x0A] @ tail)"

definition formatCommandExecutionHTML :: "string \<Rightarrow> string \<Rightarrow> string" where
  "formatCommandExecutionHTML cmd0 out0 =
     (let cmd = TrimSpace cmd0;
          out = TrimSpace out0;
          cmd = truncateCommandForDisplay cmd
      in if cmd = [] \<and> out = [] then []
         else ''<b>command_execution</b>''
              @ (if cmd \<noteq> [] then [CHR 0x0A] @ ''<code>'' @ EscapeString cmd @ ''</code>'' else [])
              @ (if out \<noteq> [] then [CHR 0x0A] @ ''<pre>'' @ EscapeString out @ ''</pre>'' @ [CHR 0x0A]
                 else []))"

subsection \<open>Codex adapter (codex.go)\<close>

record codexJSONError =
  cxe_Message :: string

record codexJSONSession =
  cxs_ID :: string

record codexJSONItem =
  item_ID :: string
  item_Type :: string
  item_Text :: string
  item_Command :: string
  item_AggregatedOutput :: string

record codexJSONEvent =
  cx_Type :: string
  cx_ThreadID :: string
  cx_SessionID :: string
  cx_Message :: string
  cx_Error :: "codexJSONError option"
  cx_Item :: "codexJSONItem option"
  cx_Session :: "codexJSONSession option"

definition decode_codexJSONError :: "(string \<times> string \<times> json) list \<Rightarrow> codexJSONError \<Rightarrow> codexJSONError option" where
  "decode_codexJSONError = decode_fields (\<lambda>k raw v e.
     if k = ''message'' then map_option (\<lambda>t. e\<lparr>cxe_Message := t\<rparr>) (dec_string v (cxe_Message e))
     else Some e)"

definition decode_codexJSONSession :: "(string \<times> string \<times> json) list \<Rightarrow> codexJSONSession \<Rightarrow> codexJSONSession option" where
  "decode_codexJSONSession = decode_fields (\<lambda>k raw v e.
     if k = ''id'' then map_option (\<lambda>t. e\<lparr>cxs_ID := t\<rparr>) (dec_string v (cxs_ID e))
     else Some e)"

definition decode_codexJSONItem :: "(string \<times> string \<times> json) list \<Rightarrow> codexJSONItem \<Rightarrow> codexJSONItem option" where
  "decode_codexJSONItem = decode_fields (\<lambda>k raw v e.
     if k = ''id'' then map_option (\<lambda>t. e\<lparr>item_ID := t\<rparr>) (dec_string v (item_ID e))
     else if k = ''type'' then map_option (\<lambda>t. e\<lparr>item_Type := t\<rparr>) (dec_string v (item_Type e))
     else if k = ''text'' then map_option (\<lambda>t. e\<lparr>item_Text := t\<rparr>) (dec_string v (item_Text e))
     else if k = ''command'' then map_option (\<lambda>t. e\<lparr>item_Command := t\<rparr>) (dec_string v (item_Command e))
     else if k = ''aggregated_output'' then
       map_option (\<lambda>t. e\<lparr>item_AggregatedOutput := t\<rparr>) (dec_string v (item_AggregatedOutput e))
     else Some e)"

definition zero_codexJSONEvent :: codexJSONEvent where
  "zero_codexJSONEvent =
     \<lparr>cx_Type = [], cx_ThreadID = [], cx_SessionID = [], cx_Message = [],
      cx_Error = None, cx_Item = None, cx_Session = None\<rparr>"

definition decode_codexJSONEvent :: "(string \<times> string \<times> json) list \<Rightarrow> codexJSONEvent \<Rightarrow> codexJSONEvent option" where
  "decode_codexJSONEvent = decode_fields (\<lambda>k raw v e.
     if k = ''type'' then map_option (\<lambda>t. e\<lparr>cx_Type := t\<rparr>) (dec_string v (cx_Type e))
     else if k = ''thread_id'' then map_option (\<lambda>t. e\<lparr>cx_ThreadID := t\<rparr>) (dec_string v (cx_ThreadID e))
     else if k = ''session_id'' then map_option (\<lambda>t. e\<lparr>cx_SessionID := t\<rparr>) (dec_string v (cx_SessionID e))
     else if k = ''message'' then map_option (\<lambda>t. e\<lparr>cx_Message := t\<rparr>) (dec_string v (cx_Message e))
     else if k = ''error'' then
       map_option (\<lambda>p. e\<lparr>cx_Error := p\<rparr>)
         (dec_struct_ptr \<lparr>cxe_Message = []\<rparr> decode_codexJSONError v (cx_Error e))
     else if k = ''item'' then
       map_option (\<lambda>p. e\<lparr>cx_Item := p\<rparr>)
         (dec_struct_ptr \<lparr>item_ID = [], item_Type = [], item_Text = [], item_Command = [],
                          item_AggregatedOutput = []\<rparr> decode_codexJSONItem v (cx_Item e))
     else if k = ''session'' then
       map_option (\<lambda>p. e\<lparr>cx_Session := p\<rparr>)
         (dec_struct_ptr \<lparr>cxs_ID = []\<rparr> decode_codexJSONSession v (cx_Session e))
     else Some e)"

text \<open>\<open>json.Unmarshal([]byte(line), &ev)\<close> for a \<open>codexJSONEvent\<close>; \<open>None\<close> is an error.\<close>

definition Unmarshal_codexJSONEvent :: "string \<Rightarrow> codexJSONEvent option" where
  "Unmarshal_codexJSONEvent line =
     (case parse_json line of
        Some (JObject ms) \<Rightarrow> decode_codexJSONEvent ms zero_codexJSONEvent
      | Some JNull \<Rightarrow> Some zero_codexJSONEvent
      | _ \<Rightarrow> None)"

definition extractCodexSessionID :: "codexJSONEvent \<Rightarrow> string" where
  "extractCodexSessionID ev =
     (if TrimSpace (cx_ThreadID ev) \<noteq> [] then TrimSpace (cx_ThreadID ev)
      else if TrimSpace (cx_SessionID ev) \<noteq> [] then TrimSpace (cx_SessionID ev)
      else (case cx_Session ev of
              Some se \<Rightarrow> (if TrimSpace (cxs_ID se) \<noteq> [] then TrimSpace (cxs_ID se) else [])
            | None \<Rightarrow> []))"

definition extractCodexEventText :: "codexJSONEvent \<Rightarrow> string \<times> string" where
  "extractCodexEventText ev =
     (let fallthrough = (if cx_Message ev \<noteq> [] then (cx_Message ev, []) else ([], []))
      in if cx_Type ev = ''error'' then (cx_Message ev, [])
         else if cx_Type ev = ''turn.failed'' then
           (case cx_Error ev of
              Some er \<Rightarrow> (if cxe_Message er \<noteq> [] then (cxe_Message er, []) else (cx_Message ev, []))
            | None \<Rightarrow> (cx_Message ev, []))
         else if cx_Type ev = ''item.completed'' then
           (case cx_Item ev of
              None \<Rightarrow> ([], [])
            | Some it \<Rightarrow>
                (if item_Type it = ''agent_message'' \<or> item_Type it = ''reasoning''
                 then (item_Text it, [])
                 else if item_Type it = ''command_execution''
                 then (formatCommandExecutionHTML (item_Command it) (item_AggregatedOutput it), ''html'')
                 else fallthrough))
         else fallthrough)"

text \<open>\<open>parseCodexJSONEvent\<close>: \<open>None\<close> is \<open>ok = false\<close>.\<close>

definition parseCodexJSONEvent :: "string \<Rightarrow> (string \<times> string \<times> string) option" where
  "parseCodexJSONEvent chunk =
     (let line = TrimSpace chunk
      in if \<not> HasPrefix line ''{'' then None
         else (case Unmarshal_codexJSONEvent line of
                 None \<Rightarrow> None
               | Some ev \<Rightarrow>
                   (let sessionID = extractCodexSessionID ev;
                        (text, format) = extractCodexEventText ev;
                        text = (if text \<noteq> [] \<and> \<not> HasSuffix text [CHR 0x0A] then text @ [CHR 0x0A] else text)
                    in Some (sessionID, text, format))))"

text \<open>\<open>HandleEvent\<close> mutates the event through its pointer: the model returns the new event.\<close>

definition Codex_HandleEvent :: "StreamEvent \<Rightarrow> string \<times> StreamEvent" where
  "Codex_HandleEvent ev =
     (case parseCodexJSONEvent (ev_Chunk ev) of
        None \<Rightarrow> ([], ev\<lparr>ev_Chunk := []\<rparr>)
      | Some (sessionID, text, format) \<Rightarrow>
          (let ev' = ev\<lparr>ev_Chunk := text, ev_Format := format\<rparr>
           in if sessionID \<noteq> [] then (sessionID, ev')
              else (extractSessionIDByRegex (ev_Chunk ev') codexThreadIDRegex, ev')))"

section \<open>Jobs (internal/domain/types.go)\<close>

datatype JobStatus = JobPending | JobRunning | JobDone | JobFailed | JobStopped

text \<open>
  \<open>Job\<close>. Instants are abstract; \<open>StartedAt\<close> and \<open>FinishedAt\<close> are Go's
  \<open>*time.Time\<close>. \<open>PermissionMode\<close> is the field the orchestrator and the Codex
  adapter use (\<open>job.PermissionMode\<close>).
\<close>

record Job =
  job_ID :: string
  job_SessionKey :: SessionKey
  job_Executor :: string
  job_Session :: string
  job_Prompt :: string
  job_Workdir :: string
  job_PermissionMode :: string
  job_Status :: JobStatus
  job_CreatedAt :: nat
  job_StartedAt :: "nat option"
  job_FinishedAt :: "nat option"
  job_ErrorMessage :: string

section \<open>Runner: pumping the child's output (internal/executor/runner.go)\<close>

text \<open>
  After \<open>cmd.Start\<close>, \<open>RunJob\<close> runs two reader goroutines and waits for them. The
  model is a machine whose steps are the atomic actions of the goroutines, so that a run
  of \<open>RunJob\<close> is a list of actions (a schedule):
  \<^item> \<open>Scan r t\<close>: reader \<open>r\<close> calls \<open>scanner.Scan()\<close>. With a line left it takes the
    next sequence number (\<open>atomic.AddInt64(&seq, 1)\<close>) and builds the event, read at
    instant \<open>t\<close>; at end of input the loop ends and the reader is done (\<open>wg.Done()\<close>).
  \<^item> \<open>Deliver r\<close>: reader \<open>r\<close> hands the event it built to \<open>sink.OnEvent\<close>.
  \<^item> \<open>Stop r\<close>: \<open>scanner.Scan()\<close> returns false before the end of the input (a line
    over the 1 MiB buffer, or a failed read); the lines left are never read.
  \<^item> \<open>Finish t\<close>: after \<open>wg.Wait()\<close> the main goroutine takes the next sequence
    number and hands the terminal event to the sink.
  The lines of a stream are the tokens the scanner returns. \<open>seq\<close> is Go's \<open>int64\<close>,
  modelled as an unbounded integer: it counts the lines of one job.
\<close>

datatype stream_id = Stdout | Stderr

definition stream_name :: "stream_id \<Rightarrow> string" where
  "stream_name r = (case r of Stdout \<Rightarrow> ''stdout'' | Stderr \<Rightarrow> ''stderr'')"

record reader =
  rd_rest :: "string list"
  rd_pending :: "StreamEvent option"
  rd_done :: bool

record run_state =
  rs_seq :: int
  rs_out :: reader
  rs_err :: reader
  rs_sink :: "StreamEvent list"
  rs_final :: bool

datatype action = Scan stream_id nat | Deliver stream_id | Stop stream_id | Finish nat

definition get_reader :: "stream_id \<Rightarrow> run_state \<Rightarrow> reader" where
  "get_reader r s = (case r of Stdout \<Rightarrow> rs_out s | Stderr \<Rightarrow> rs_err s)"

definition set_reader :: "stream_id \<Rightarrow> reader \<Rightarrow> run_state \<Rightarrow> run_state" where
  "set_reader r rd s = (case r of Stdout \<Rightarrow> s\<lparr>rs_out := rd\<rparr> | Stderr \<Rightarrow> s\<lparr>rs_err := rd\<rparr>)"

definition line_event :: "string \<Rightarrow> int \<Rightarrow> string \<Rightarrow> stream_id \<Rightarrow> nat \<Rightarrow> StreamEvent" where
  "line_event jobID next line r t =
     \<lparr>ev_JobID = jobID, ev_Seq = next, ev_Chunk = line @ [CHR 0x0A], ev_IsFinal = False,
      ev_TS = t, ev_Stream = stream_name r, ev_ExitCode = None, ev_Format = []\<rparr>"

definition final_event :: "string \<Rightarrow> int \<Rightarrow> bool \<Rightarrow> nat \<Rightarrow> StreamEvent" where
  "final_event jobID next waitOK t =
     \<lparr>ev_JobID = jobID, ev_Seq = next, ev_Chunk = [], ev_IsFinal = True,
      ev_TS = t, ev_Stream = ''meta'', ev_ExitCode = Some (if waitOK then 0 else 1),
      ev_Format = []\<rparr>"

text \<open>One action; \<open>None\<close> when the action is not enabled in the state.\<close>

definition step :: "string \<Rightarrow> bool \<Rightarrow> action \<Rightarrow> run_state \<Rightarrow> run_state option" where
  "step jobID waitOK a s =
     (case a of
        Scan r t \<Rightarrow>
          (let rd = get_reader r s in
           if rd_done rd \<or> rd_pending rd \<noteq> None \<or> rs_final s then None
           else (case rd_rest rd of
                   [] \<Rightarrow> Some (set_reader r (rd\<lparr>rd_done := True\<rparr>) s)
                 | line # rest \<Rightarrow>
                     (let next = rs_seq s + 1 in
                      Some (set_reader r
                              (rd\<lparr>rd_rest := rest,
                                  rd_pending := Some (line_event jobID next line r t)\<rparr>)
                              (s\<lparr>rs_seq := next\<rparr>)))))
      | Deliver r \<Rightarrow>
          (let rd = get_reader r s in
           case rd_pending rd of
             None \<Rightarrow> None
           | Some ev \<Rightarrow>
               Some (set_reader r (rd\<lparr>rd_pending := None\<rparr>) (s\<lparr>rs_sink := rs_sink s @ [ev]\<rparr>)))
      | Stop r \<Rightarrow>
          (let rd = get_reader r s in
           if rd_done rd \<or> rd_pending rd \<noteq> None \<or> rs_final s then None
           else Some (set_reader r (rd\<lparr>rd_rest := [], rd_done := True\<rparr>) s))
      | Finish t \<Rightarrow>
          (if rd_done (rs_out s) \<and> rd_done (rs_err s) \<and> \<not> rs_final s then
             (let next = rs_seq s + 1 in
              Some (s\<lparr>rs_seq := next,
                      rs_sink := rs_sink s @ [final_event jobID next waitOK t],
                      rs_final := True\<rparr>))
           else None))"

fun run :: "string \<Rightarrow> bool \<Rightarrow> action list \<Rightarrow> run_state \<Rightarrow> run_state option" where
  "run jobID waitOK [] s = Some s"
| "run jobID waitOK (a # as) s =
     (case step jobID waitOK a s of
        None \<Rightarrow> None
      | Some s' \<Rightarrow> run jobID waitOK as s')"

text \<open>The state after \<open>cmd.Start\<close> succeeded: \<open>var seq int64\<close>, nothing read yet.\<close>

definition started :: "string list \<Rightarrow> string list \<Rightarrow> run_state" where
  "started outs errs =
     \<lparr>rs_seq = 0,
      rs_out = \<lparr>rd_rest = outs, rd_pending = None, rd_done = False\<rparr>,
      rs_err = \<lparr>rd_rest = errs, rd_pending = None, rd_done = False\<rparr>,
      rs_sink = [], rs_final = False\<rparr>"

section \<open>Permission modes (internal/domain)\<close>

text \<open>
  Modelled from the spec: the constants \<open>domain.PermissionModeSandbox\<close>,
  \<open>domain.PermissionModeFullAccess\<close> and the function \<open>domain.NormalizePermissionMode\<close>
  are used by the store, the session manager and the adapters, and their declarations
  are not among the sources. The spec gives the two modes \<open>sandbox\<close> and
  \<open>full-access\<close>, with \<open>sandbox\<close> the mode of a session that has none.
\<close>

definition PermissionModeSandbox :: string where
  "PermissionModeSandbox = ''sandbox''"

definition PermissionModeFullAccess :: string where
  "PermissionModeFullAccess = ''full-access''"

definition NormalizePermissionMode :: "string \<Rightarrow> string" where
  "NormalizePermissionMode mode =
     (if mode = PermissionModeFullAccess then PermissionModeFullAccess else PermissionModeSandbox)"

section \<open>Marshalling a decoded JSON object\<close>

text \<open>
  \<open>json.Unmarshal\<close> into a \<open>map[string]any\<close> and \<open>json.Marshal\<close> of that map. A Go map
  holds one value per key and is marshalled with its keys in byte order, so the decoded
  object is kept as a list sorted by key without repeated keys; nested objects are decoded
  the same way. Strings are written with Go's escapes (\<open>"\<close>, \<open>\\<close>, control
  characters, the HTML characters \<open><\<close>, \<open>>\<close>, \<open>&\<close>, and U+2028, U+2029). A number is
  written with the literal it was read from (Go reads it into a \<open>float64\<close> and prints
  that, which can change the literal but not the value of any other member).
\<close>

fun str_less :: "string \<Rightarrow> string \<Rightarrow> bool" where
  "str_less [] [] = False"
| "str_less [] (y # ys) = True"
| "str_less (x # xs) [] = False"
| "str_less (x # xs) (y # ys) = (byte x < byte y \<or> (x = y \<and> str_less xs ys))"

fun map_put :: "string \<Rightarrow> 'v \<Rightarrow> (string \<times> 'v) list \<Rightarrow> (string \<times> 'v) list" where
  "map_put k v [] = [(k, v)]"
| "map_put k v ((k', v') # rest) =
     (if k = k' then (k, v) # rest
      else if str_less k k' then (k, v) # (k', v') # rest
      else (k', v') # map_put k v rest)"

primrec to_any :: "json \<Rightarrow> json" where
  "to_any JNull = JNull"
| "to_any (JBool b) = JBool b"
| "to_any (JNumber t) = JNumber t"
| "to_any (JString t) = JString t"
| "to_any (JArray vs) = JArray (map to_any vs)"
| "to_any (JObject ms) =
     JObject (foldl (\<lambda>acc (k, rv). map_put k ([], snd rv) acc) []
                (map (map_prod id (map_prod id to_any)) ms))"

fun marshal_chars :: "string \<Rightarrow> string" where
  "marshal_chars [] = []"
| "marshal_chars (c # cs) =
     (if c = CHR 0x22 then CHR 0x5C # CHR 0x22 # marshal_chars cs
      else if c = CHR 0x5C then CHR 0x5C # CHR 0x5C # marshal_chars cs
      else if c = CHR 0x0A then CHR 0x5C # CHR ''n'' # marshal_chars cs
      else if c = CHR 0x0D then CHR 0x5C # CHR ''r'' # marshal_chars cs
      else if c = CHR 0x09 then CHR 0x5C # CHR ''t'' # marshal_chars cs
      else if byte c < 32 \<or> c = CHR ''<'' \<or> c = CHR ''>'' \<or> c = CHR ''&'' then
        CHR 0x5C # ''u00'' @ [hex_digit (byte c div 16), hex_digit (byte c)] @ marshal_chars cs
      else if map byte (take 3 (c # cs)) = [226, 128, 168] then
        CHR 0x5C # ''u2028'' @ marshal_chars (drop 2 cs)
      else if map byte (take 3 (c # cs)) = [226, 128, 169] then
        CHR 0x5C # ''u2029'' @ marshal_chars (drop 2 cs)
      else c # marshal_chars cs)"

definition marshal_string :: "string \<Rightarrow> string" where
  "marshal_string s = CHR 0x22 # marshal_chars s @ [CHR 0x22]"

primrec Marshal :: "json \<Rightarrow> string" where
  "Marshal JNull = ''null''"
| "Marshal (JBool b) = (if b then ''true'' else ''false'')"
| "Marshal (JNumber t) = t"
| "Marshal (JString t) = marshal_string t"
| "Marshal (JArray vs) = ''['' @ join_with '','' (map Marshal vs) @ '']''"
| "Marshal (JObject ms) =
     ''{'' @ join_with '',''
               (map (\<lambda>(k, r, t). marshal_string k @ '':'' @ t)
                  (map (map_prod id (map_prod id Marshal)) ms)) @ ''}''"

section \<open>Store (internal/store/sqlite.go)\<close>

text \<open>
  The database is modelled by its tables: \<open>sessions\<close> by its primary key
  \<open>session_key\<close>, \<open>jobs\<close> by \<open>id\<close>, \<open>events\<close> as the list of inserted rows, and
  \<open>executor_sessions\<close> by its five-column key. \<open>st_down\<close> says that the driver fails
  every statement; it is the only source of the errors the driver itself reports.
  Timestamps are abstract instants passed in by the caller.
\<close>

record SessionRow =
  sr_platform :: string
  sr_chat_id :: string
  sr_thread_id :: string
  sr_workdir :: string
  sr_context_json :: string
  sr_updated_at :: nat
  sr_expires_at :: "nat option"

record JobRow =
  jr_session_key :: string
  jr_executor :: string
  jr_prompt :: string
  jr_workdir :: string
  jr_status :: JobStatus
  jr_created_at :: nat
  jr_started_at :: "nat option"
  jr_finished_at :: "nat option"
  jr_error_message :: string

record Store =
  st_sessions :: "string \<rightharpoonup> SessionRow"
  st_jobs :: "string \<rightharpoonup> JobRow"
  st_events :: "StreamEvent list"
  st_executor_sessions :: "(string \<times> string \<times> string \<times> string \<times> string) \<rightharpoonup> (string \<times> nat)"
  st_down :: bool

definition NewSQLiteStore :: Store where
  "NewSQLiteStore =
     \<lparr>st_sessions = Map.empty, st_jobs = Map.empty, st_events = [],
      st_executor_sessions = Map.empty, st_down = False\<rparr>"

definition UpsertSession :: "Store \<Rightarrow> SessionKey \<Rightarrow> string \<Rightarrow> nat \<Rightarrow> nat \<Rightarrow> error option \<times> Store" where
  "UpsertSession st key workdir expiresAt now =
     (if st_down st then (Some (Error ''upsert session''), st)
      else (case st_sessions st (SessionKey_String key) of
              None \<Rightarrow>
                (None, st\<lparr>st_sessions := (st_sessions st)(SessionKey_String key \<mapsto>
                   \<lparr>sr_platform = Platform key, sr_chat_id = ChatID key, sr_thread_id = ThreadID key,
                    sr_workdir = workdir, sr_context_json = ''{}'', sr_updated_at = now,
                    sr_expires_at = Some expiresAt\<rparr>)\<rparr>)
            | Some row \<Rightarrow>
                (None, st\<lparr>st_sessions := (st_sessions st)(SessionKey_String key \<mapsto>
                   row\<lparr>sr_workdir := workdir, sr_updated_at := now,
                       sr_expires_at := Some expiresAt\<rparr>)\<rparr>)))"

definition SessionWorkdir :: "Store \<Rightarrow> SessionKey \<Rightarrow> error + string" where
  "SessionWorkdir st key =
     (if st_down st then Inl (Error ''get session workdir'')
      else (case st_sessions st (SessionKey_String key) of
              None \<Rightarrow> Inr []
            | Some row \<Rightarrow> Inr (sr_workdir row)))"

definition CreateJob :: "Store \<Rightarrow> Job \<Rightarrow> error option \<times> Store" where
  "CreateJob st job =
     (if st_down st \<or> st_jobs st (job_ID job) \<noteq> None then (Some (Error ''create job''), st)
      else (None, st\<lparr>st_jobs := (st_jobs st)(job_ID job \<mapsto>
              \<lparr>jr_session_key = SessionKey_String (job_SessionKey job),
               jr_executor = job_Executor job, jr_prompt = job_Prompt job,
               jr_workdir = job_Workdir job, jr_status = job_Status job,
               jr_created_at = job_CreatedAt job, jr_started_at = None, jr_finished_at = None,
               jr_error_message = job_ErrorMessage job\<rparr>)\<rparr>))"

definition UpdateJobStatus ::
  "Store \<Rightarrow> string \<Rightarrow> JobStatus \<Rightarrow> nat option \<Rightarrow> nat option \<Rightarrow> string \<Rightarrow> error option \<times> Store"
where
  "UpdateJobStatus st jobID status startedAt finishedAt errMsg =
     (if st_down st then (Some (Error ''update job status''), st)
      else (case st_jobs st jobID of
              None \<Rightarrow> (None, st)
            | Some row \<Rightarrow>
                (None, st\<lparr>st_jobs := (st_jobs st)(jobID \<mapsto>
                   row\<lparr>jr_status := status, jr_started_at := startedAt,
                       jr_finished_at := finishedAt, jr_error_message := errMsg\<rparr>)\<rparr>)))"

definition AppendEvent :: "Store \<Rightarrow> StreamEvent \<Rightarrow> error option \<times> Store" where
  "AppendEvent st ev =
     (if st_down st then (Some (Error ''append event''), st)
      else (None, st\<lparr>st_events := st_events st @ [ev]\<rparr>))"

definition GetExecutorSession :: "Store \<Rightarrow> string \<Rightarrow> SessionKey \<Rightarrow> string \<Rightarrow> error + string" where
  "GetExecutorSession st executor key workdir =
     (if st_down st then Inl (Error ''get executor session'')
      else (case st_executor_sessions st (executor, Platform key, ChatID key, ThreadID key, workdir) of
              None \<Rightarrow> Inr []
            | Some (sessionID, _) \<Rightarrow> Inr sessionID))"

definition UpsertExecutorSession ::
  "Store \<Rightarrow> string \<Rightarrow> SessionKey \<Rightarrow> string \<Rightarrow> string \<Rightarrow> nat \<Rightarrow> error option \<times> Store"
where
  "UpsertExecutorSession st executor key workdir sessionID now =
     (if st_down st then (Some (Error ''upsert executor session''), st)
      else (None, st\<lparr>st_executor_sessions := (st_executor_sessions st)
              ((executor, Platform key, ChatID key, ThreadID key, workdir) \<mapsto> (sessionID, now))\<rparr>))"

text \<open>
  Reading \<open>context.mode\<close>: \<open>json.Unmarshal\<close> of the column into
  \<open>struct { Mode string `json:"mode"` }\<close>, then normalisation.
\<close>

definition Unmarshal_mode :: "string \<Rightarrow> string option" where
  "Unmarshal_mode text =
     (case parse_json text of
        Some (JObject ms) \<Rightarrow>
          decode_fields (\<lambda>k raw v mode. if k = ''mode'' then dec_string v mode else Some mode) ms []
      | Some JNull \<Rightarrow> Some []
      | _ \<Rightarrow> None)"

definition SessionPermissionMode :: "Store \<Rightarrow> SessionKey \<Rightarrow> error + string" where
  "SessionPermissionMode st key =
     (if st_down st then Inl (Error ''get session permission mode'')
      else (case st_sessions st (SessionKey_String key) of
              None \<Rightarrow> Inr PermissionModeSandbox
            | Some row \<Rightarrow>
                (if TrimSpace (sr_context_json row) = [] then Inr PermissionModeSandbox
                 else (case Unmarshal_mode (sr_context_json row) of
                         None \<Rightarrow> Inl (Error ''decode session context_json'')
                       | Some mode \<Rightarrow> Inr (NormalizePermissionMode mode)))))"

text \<open>
  The read-modify-write of the context mapping in \<open>SetSessionPermissionMode\<close>: the
  column is decoded into \<open>payload := map[string]any{}\<close> unless it is blank, \<open>mode\<close> is
  stored under the key \<open>mode\<close>, and the map is marshalled. The text \<open>null\<close> makes
  \<open>Unmarshal\<close> set the map to nil, and the assignment to its entry then panics.
\<close>

definition set_context_mode :: "string \<Rightarrow> string \<Rightarrow> error + string" where
  "set_context_mode contextJSON mode =
     (if TrimSpace contextJSON = [] then Inr (Marshal (JObject (map_put ''mode'' ([], JString mode) [])))
      else (case parse_json contextJSON of
              Some (JObject ms) \<Rightarrow>
                (case to_any (JObject ms) of
                   JObject payload \<Rightarrow> Inr (Marshal (JObject (map_put ''mode'' ([], JString mode) payload)))
                 | _ \<Rightarrow> Inl (Error ''decode session context_json''))
            | Some JNull \<Rightarrow> Inl (Panic ''assignment to entry in nil map'')
            | _ \<Rightarrow> Inl (Error ''decode session context_json'')))"

definition SetSessionPermissionMode ::
  "Store \<Rightarrow> SessionKey \<Rightarrow> string \<Rightarrow> nat \<Rightarrow> nat \<Rightarrow> error option \<times> Store"
where
  "SetSessionPermissionMode st key mode0 expiresAt now =
     (let mode = NormalizePermissionMode mode0 in
      if st_down st then (Some (Error ''load session for permission mode update''), st)
      else (let old = st_sessions st (SessionKey_String key);
                workdir = (case old of None \<Rightarrow> [] | Some row \<Rightarrow> sr_workdir row);
                contextJSON = (case old of None \<Rightarrow> [] | Some row \<Rightarrow> sr_context_json row)
            in case set_context_mode contextJSON mode of
                 Inl e \<Rightarrow> (Some e, st)
               | Inr contextBytes \<Rightarrow>
                   (case old of
                      None \<Rightarrow>
                        (None, st\<lparr>st_sessions := (st_sessions st)(SessionKey_String key \<mapsto>
                           \<lparr>sr_platform = Platform key, sr_chat_id = ChatID key,
                            sr_thread_id = ThreadID key, sr_workdir = workdir,
                            sr_context_json = contextBytes, sr_updated_at = now,
                            sr_expires_at = Some expiresAt\<rparr>)\<rparr>)
                    | Some row \<Rightarrow>
                        (None, st\<lparr>st_sessions := (st_sessions st)(SessionKey_String key \<mapsto>
                           row\<lparr>sr_context_json := contextBytes, sr_updated_at := now,
                               sr_expires_at := Some expiresAt\<rparr>)\<rparr>))))"

section \<open>Session manager (internal/session/manager.go)\<close>

text \<open>
  The manager's maps are keyed by \<open>SessionKey.String()\<close>. The store is shared, so each
  operation takes the store and returns it; the mutex makes each map access atomic.
\<close>

record Manager =
  m_retention :: nat
  m_workdirs :: "string \<rightharpoonup> string"
  m_executors :: "string \<rightharpoonup> string"
  m_modes :: "string \<rightharpoonup> string"
  m_pending :: "string \<rightharpoonup> string"

definition NewManager :: "nat \<Rightarrow> Manager" where
  "NewManager retention =
     \<lparr>m_retention = retention, m_workdirs = Map.empty, m_executors = Map.empty,
      m_modes = Map.empty, m_pending = Map.empty\<rparr>"

definition SetWorkdir :: "Manager \<Rightarrow> Store \<Rightarrow> SessionKey \<Rightarrow> string \<Rightarrow> nat \<Rightarrow> error option \<times> Manager \<times> Store" where
  "SetWorkdir m st key workdir now =
     (let m' = m\<lparr>m_workdirs := (m_workdirs m)(SessionKey_String key \<mapsto> workdir)\<rparr>;
          (e, st') = UpsertSession st key workdir (now + m_retention m) now
      in (e, m', st'))"

definition Workdir :: "Manager \<Rightarrow> Store \<Rightarrow> SessionKey \<Rightarrow> (error + string) \<times> Manager" where
  "Workdir m st key =
     (case m_workdirs m (SessionKey_String key) of
        Some wd \<Rightarrow> (Inr wd, m)
      | None \<Rightarrow>
          (case SessionWorkdir st key of
             Inl e \<Rightarrow> (Inl e, m)
           | Inr wd \<Rightarrow>
               (Inr wd, if wd \<noteq> [] then m\<lparr>m_workdirs := (m_workdirs m)(SessionKey_String key \<mapsto> wd)\<rparr>
                        else m)))"

definition Reset :: "Manager \<Rightarrow> SessionKey \<Rightarrow> Manager" where
  "Reset m key =
     m\<lparr>m_workdirs := (m_workdirs m)(SessionKey_String key := None),
       m_executors := (m_executors m)(SessionKey_String key := None),
       m_modes := (m_modes m)(SessionKey_String key := None),
       m_pending := (m_pending m)(SessionKey_String key := None)\<rparr>"

definition SetDefaultExecutor :: "Manager \<Rightarrow> SessionKey \<Rightarrow> string \<Rightarrow> Manager" where
  "SetDefaultExecutor m key executor =
     m\<lparr>m_executors := (m_executors m)(SessionKey_String key \<mapsto> executor)\<rparr>"

definition DefaultExecutor :: "Manager \<Rightarrow> SessionKey \<Rightarrow> string" where
  "DefaultExecutor m key = (case m_executors m (SessionKey_String key) of None \<Rightarrow> [] | Some e \<Rightarrow> e)"

definition SetPermissionMode :: "Manager \<Rightarrow> Store \<Rightarrow> SessionKey \<Rightarrow> string \<Rightarrow> nat \<Rightarrow> error option \<times> Manager \<times> Store" where
  "SetPermissionMode m st key mode0 now =
     (let mode = NormalizePermissionMode mode0;
          m' = m\<lparr>m_modes := (m_modes m)(SessionKey_String key \<mapsto> mode)\<rparr>;
          (e, st') = SetSessionPermissionMode st key mode (now + m_retention m) now
      in (e, m', st'))"

definition PermissionMode :: "Manager \<Rightarrow> Store \<Rightarrow> SessionKey \<Rightarrow> (error + string) \<times> Manager" where
  "PermissionMode m st key =
     (case m_modes m (SessionKey_String key) of
        Some mode \<Rightarrow> (Inr mode, m)
      | None \<Rightarrow>
          (case SessionPermissionMode st key of
             Inl e \<Rightarrow> (Inl e, m)
           | Inr mode0 \<Rightarrow>
               (let mode = NormalizePermissionMode mode0
                in (Inr mode, m\<lparr>m_modes := (m_modes m)(SessionKey_String key \<mapsto> mode)\<rparr>))))"

definition SetPendingInput :: "Manager \<Rightarrow> SessionKey \<Rightarrow> string \<Rightarrow> Manager" where
  "SetPendingInput m key action =
     m\<lparr>m_pending := (m_pending m)(SessionKey_String key \<mapsto> action)\<rparr>"

definition TakePendingInput :: "Manager \<Rightarrow> SessionKey \<Rightarrow> string \<times> Manager" where
  "TakePendingInput m key =
     ((case m_pending m (SessionKey_String key) of None \<Rightarrow> [] | Some a \<Rightarrow> a),
      m\<lparr>m_pending := (m_pending m)(SessionKey_String key := None)\<rparr>)"

subsection \<open>Claude adapter (claude.go)\<close>

record claudeJSONContentBlock =
  blk_Type :: string
  blk_Text :: string
  blk_Name :: string
  blk_Input :: string

record claudeJSONMessage =
  clm_Content :: "claudeJSONContentBlock list"

record claudeJSONEvent =
  cl_Type :: string
  cl_Subtype :: string
  cl_SessionID :: string
  cl_Message :: "claudeJSONMessage option"
  cl_Error :: string

definition zero_block :: claudeJSONContentBlock where
  "zero_block = \<lparr>blk_Type = [], blk_Text = [], blk_Name = [], blk_Input = []\<rparr>"

definition decode_block :: "(string \<times> string \<times> json) list \<Rightarrow> claudeJSONContentBlock \<Rightarrow> claudeJSONContentBlock option" where
  "decode_block = decode_fields (\<lambda>k raw v b.
     if k = ''type'' then map_option (\<lambda>t. b\<lparr>blk_Type := t\<rparr>) (dec_string v (blk_Type b))
     else if k = ''text'' then map_option (\<lambda>t. b\<lparr>blk_Text := t\<rparr>) (dec_string v (blk_Text b))
     else if k = ''name'' then map_option (\<lambda>t. b\<lparr>blk_Name := t\<rparr>) (dec_string v (blk_Name b))
     else if k = ''input'' then Some (b\<lparr>blk_Input := raw\<rparr>)
     else Some b)"

text \<open>
  A field of type slice of structs: \<open>null\<close> gives the nil slice, an array gives one
  struct per element (an element that is \<open>null\<close> stays a zero struct).
\<close>

definition decode_blocks :: "json \<Rightarrow> claudeJSONContentBlock list option" where
  "decode_blocks v =
     (case v of
        JNull \<Rightarrow> Some []
      | JArray vs \<Rightarrow>
          all_some (map (\<lambda>e. case e of
                                JObject ms \<Rightarrow> decode_block ms zero_block
                              | JNull \<Rightarrow> Some zero_block
                              | _ \<Rightarrow> None) vs)
      | _ \<Rightarrow> None)"

definition decode_claudeJSONMessage :: "(string \<times> string \<times> json) list \<Rightarrow> claudeJSONMessage \<Rightarrow> claudeJSONMessage option" where
  "decode_claudeJSONMessage = decode_fields (\<lambda>k raw v m.
     if k = ''content'' then map_option (\<lambda>bs. m\<lparr>clm_Content := bs\<rparr>) (decode_blocks v)
     else Some m)"

definition zero_claudeJSONEvent :: claudeJSONEvent where
  "zero_claudeJSONEvent =
     \<lparr>cl_Type = [], cl_Subtype = [], cl_SessionID = [], cl_Message = None, cl_Error = []\<rparr>"

definition decode_claudeJSONEvent :: "(string \<times> string \<times> json) list \<Rightarrow> claudeJSONEvent \<Rightarrow> claudeJSONEvent option" where
  "decode_claudeJSONEvent = decode_fields (\<lambda>k raw v e.
     if k = ''type'' then map_option (\<lambda>t. e\<lparr>cl_Type := t\<rparr>) (dec_string v (cl_Type e))
     else if k = ''subtype'' then map_option (\<lambda>t. e\<lparr>cl_Subtype := t\<rparr>) (dec_string v (cl_Subtype e))
     else if k = ''session_id'' then map_option (\<lambda>t. e\<lparr>cl_SessionID := t\<rparr>) (dec_string v (cl_SessionID e))
     else if k = ''message'' then
       map_option (\<lambda>p. e\<lparr>cl_Message := p\<rparr>)
         (dec_struct_ptr \<lparr>clm_Content = []\<rparr> decode_claudeJSONMessage v (cl_Message e))
     else if k = ''error'' then map_option (\<lambda>t. e\<lparr>cl_Error := t\<rparr>) (dec_string v (cl_Error e))
     else Some e)"

definition Unmarshal_claudeJSONEvent :: "string \<Rightarrow> claudeJSONEvent option" where
  "Unmarshal_claudeJSONEvent line =
     (case parse_json line of
        Some (JObject ms) \<Rightarrow> decode_claudeJSONEvent ms zero_claudeJSONEvent
      | Some JNull \<Rightarrow> Some zero_claudeJSONEvent
      | _ \<Rightarrow> None)"

definition formatClaudeToolUse :: "string \<Rightarrow> string \<Rightarrow> string" where
  "formatClaudeToolUse name0 input =
     (let name = TrimSpace name0
      in if name = [] then []
         else (let inputStr = TrimSpace input
               in ''<b>'' @ EscapeString name @ ''</b>''
                  @ (if inputStr \<noteq> [] \<and> inputStr \<noteq> ''null'' \<and> inputStr \<noteq> ''{}''
                     then [CHR 0x0A] @ ''<code>'' @ EscapeString (truncateCommandForDisplay inputStr)
                          @ ''</code>''
                     else [])
                  @ [CHR 0x0A]))"

definition extractClaudeMessageText :: "claudeJSONMessage \<Rightarrow> string \<times> string" where
  "extractClaudeMessageText msg =
     (let hasHTML = list_ex (\<lambda>block. blk_Type block = ''tool_use'') (clm_Content msg);
          parts = concat (map (\<lambda>block.
                    if blk_Type block = ''text'' then
                      (let t = TrimSpace (blk_Text block)
                       in if t \<noteq> [] then [if hasHTML then EscapeString t else t] else [])
                    else if blk_Type block = ''tool_use'' then
                      (let s = formatClaudeToolUse (blk_Name block) (blk_Input block)
                       in if s \<noteq> [] then [s] else [])
                    else []) (clm_Content msg));
          result = join_with [CHR 0x0A] parts;
          result = (if result \<noteq> [] \<and> \<not> HasSuffix result [CHR 0x0A] then result @ [CHR 0x0A]
                    else result)
      in if hasHTML then (result, ''html'') else (result, []))"

definition parseClaudeJSONEvent :: "string \<Rightarrow> (string \<times> string \<times> string) option" where
  "parseClaudeJSONEvent chunk =
     (let line = TrimSpace chunk
      in if \<not> HasPrefix line ''{'' then None
         else (case Unmarshal_claudeJSONEvent line of
                 None \<Rightarrow> None
               | Some ev \<Rightarrow>
                   (if cl_Type ev = ''system'' \<and> cl_Subtype ev = ''init''
                    then Some (cl_SessionID ev, [], [])
                    else if cl_Type ev = ''result'' then
                      (if cl_Subtype ev = ''error'' \<and> cl_Error ev \<noteq> []
                       then Some (cl_SessionID ev, cl_Error ev @ [CHR 0x0A], [])
                       else Some (cl_SessionID ev, [], []))
                    else if cl_Type ev = ''assistant'' then
                      (case cl_Message ev of
                         Some msg \<Rightarrow>
                           (let (text, format) = extractClaudeMessageText msg
                            in Some ([], text, format))
                       | None \<Rightarrow> Some ([], [], []))
                    else Some ([], [], []))))"

definition Claude_HandleEvent :: "StreamEvent \<Rightarrow> string \<times> StreamEvent" where
  "Claude_HandleEvent ev =
     (if ev_Stream ev \<noteq> ''stdout'' then ([], ev)
      else (case parseClaudeJSONEvent (ev_Chunk ev) of
              None \<Rightarrow> ([], ev\<lparr>ev_Chunk := []\<rparr>)
            | Some (sessionID, text, format) \<Rightarrow>
                (sessionID, ev\<lparr>ev_Chunk := text, ev_Format := format\<rparr>)))"

text \<open>
  \<open>IsSuccessExitCode\<close>, with the comment of the source: it treats exit code 1 as
  non-fatal; Claude CLI in stream-json mode exits with 1 when a tool call fails although
  a valid result event was already emitted; exit code 2 is still fatal.
\<close>

definition Claude_IsSuccessExitCode :: "int \<Rightarrow> bool" where
  "Claude_IsSuccessExitCode code = (code = 0 \<or> code = 1)"

definition Claude_BuildCommand :: "string \<Rightarrow> Job \<Rightarrow> error + string list" where
  "Claude_BuildCommand binary job =
     (if binary = [] then Inl (Error ''claude binary is empty'')
      else (let sandboxMode = ''bypassPermissions''
            in if job_Session job \<noteq> [] then
                 Inr [binary, ''--output-format'', ''stream-json'', ''--verbose'',
                      ''--permission-mode'', sandboxMode, ''--resume'', job_Session job,
                      ''-p'', job_Prompt job]
               else Inr [binary, ''--output-format'', ''stream-json'', ''--verbose'',
                         ''--permission-mode'', sandboxMode, ''-p'', job_Prompt job]))"

definition Codex_BuildCommand :: "string \<Rightarrow> Job \<Rightarrow> error + string list" where
  "Codex_BuildCommand binary job =
     (if binary = [] then Inl (Error ''codex binary is empty'')
      else (let sandboxMode =
                  (if NormalizePermissionMode (job_PermissionMode job) = PermissionModeFullAccess
                   then ''danger-full-access'' else ''workspace-write'')
            in if job_Session job \<noteq> [] then
                 Inr [binary, ''--full-auto'', ''--sandbox'', sandboxMode, ''exec'', ''--json'',
                      ''--skip-git-repo-check'', ''resume'', job_Session job, job_Prompt job]
               else Inr [binary, ''--full-auto'', ''--sandbox'', sandboxMode, ''exec'', ''--json'',
                         ''--skip-git-repo-check'', job_Prompt job]))"

subsection \<open>The executor interfaces (interface.go)\<close>

text \<open>
  An \<open>Executor\<close> is a value with methods; \<open>SessionAware\<close> and \<open>ExitCodeAware\<close> are the
  optional interfaces the orchestrator probes with a type assertion. The comment on
  \<open>ExitCodeAware\<close> in the source: executors that use stream-json output may exit with
  non-zero codes even when the task completed successfully; implementing this interface
  lets an executor declare which exit codes are non-fatal.
  \<open>with_store\<close> says whether the adapter's \<open>SessionStore\<close> field is set (it is the
  shared store) or nil.
\<close>

record SessionAware =
  LoadSession :: "Store \<Rightarrow> Job \<Rightarrow> error + string"
  SaveSession :: "Store \<Rightarrow> Job \<Rightarrow> string \<Rightarrow> nat \<Rightarrow> error option \<times> Store"
  HandleEvent :: "StreamEvent \<Rightarrow> string \<times> StreamEvent"

record Executor =
  ex_Name :: string
  ex_BuildCommand :: "Job \<Rightarrow> error + string list"
  ex_SessionAware :: "SessionAware option"
  ex_ExitCodeAware :: "(int \<Rightarrow> bool) option"

definition adapter_LoadSession :: "string \<Rightarrow> bool \<Rightarrow> Store \<Rightarrow> Job \<Rightarrow> error + string" where
  "adapter_LoadSession name with_store st job =
     (if \<not> with_store then Inl (Error (name @ '' session store is required''))
      else GetExecutorSession st name (job_SessionKey job) (job_Workdir job))"

definition adapter_SaveSession ::
  "string \<Rightarrow> bool \<Rightarrow> Store \<Rightarrow> Job \<Rightarrow> string \<Rightarrow> nat \<Rightarrow> error option \<times> Store"
where
  "adapter_SaveSession name with_store st job sessionID now =
     (if TrimSpace sessionID = [] then (None, st)
      else if \<not> with_store then (Some (Error (name @ '' session store is required'')), st)
      else UpsertExecutorSession st name (job_SessionKey job) (job_Workdir job) sessionID now)"

definition CodexExecutor :: "string \<Rightarrow> bool \<Rightarrow> Executor" where
  "CodexExecutor binary with_store =
     \<lparr>ex_Name = ''codex'',
      ex_BuildCommand = Codex_BuildCommand binary,
      ex_SessionAware = Some \<lparr>LoadSession = adapter_LoadSession ''codex'' with_store,
                              SaveSession = adapter_SaveSession ''codex'' with_store,
                              HandleEvent = Codex_HandleEvent\<rparr>,
      ex_ExitCodeAware = None\<rparr>"

definition ClaudeExecutor :: "string \<Rightarrow> bool \<Rightarrow> Executor" where
  "ClaudeExecutor binary with_store =
     \<lparr>ex_Name = ''claude'',
      ex_BuildCommand = Claude_BuildCommand binary,
      ex_SessionAware = Some \<lparr>LoadSession = adapter_LoadSession ''claude'' with_store,
                              SaveSession = adapter_SaveSession ''claude'' with_store,
                              HandleEvent = Claude_HandleEvent\<rparr>,
      ex_ExitCodeAware = Some Claude_IsSuccessExitCode\<rparr>"

section \<open>Dispatcher (internal/queue/dispatcher.go)\<close>

text \<open>
  The dispatcher is shared by the goroutines that call \<open>Enqueue\<close> and by one \<open>consume\<close>
  goroutine per session queue. Its model is a machine over their atomic actions:
  \<^item> \<open>Lookup job\<close>: the critical section of \<open>Enqueue\<close>: the queue of the job's key is
    looked up; if there is none, a channel is made and its \<open>consume\<close> goroutine started.
    The caller then holds the channel and the job.
  \<^item> \<open>SendJob i\<close>: the caller number \<open>i\<close> among those holding a job completes
    \<open>q <- job\<close>; possible only while the channel holds fewer than \<open>buffer\<close> jobs.
  \<^item> \<open>Receive k\<close>: the worker of key \<open>k\<close>, waiting in \<open>select\<close>, receives the job at
    the head of its channel.
  \<^item> \<open>Quit k\<close>: the worker, waiting in \<open>select\<close>, takes \<open>ctx.Done()\<close> and returns.
  \<^item> \<open>Acquire k\<close>: the worker completes \<open>d.sem <- struct{}{}\<close>, possible only while
    the semaphore channel holds fewer than \<open>maxConcurrent\<close> tokens, and calls the worker
    function on its job.
  \<^item> \<open>Return k\<close>: the worker function returns.
  \<^item> \<open>Release k\<close>: the worker completes \<open><-d.sem\<close> and goes back to \<open>select\<close>.
  \<open>d_trace\<close> is not program state: it records, in order, each completed channel send
  of a job, each call of the worker function and each return from it.
\<close>

datatype worker = Selecting | Acquiring Job | Running Job | Releasing | Exited

datatype obs = Sent Job | Started Job | Returned Job

record Dispatcher =
  d_queue :: "string \<rightharpoonup> Job list"
  d_worker :: "string \<rightharpoonup> worker"
  d_sem :: nat
  d_maxConcurrent :: nat
  d_buffer :: nat
  d_sending :: "Job list"
  d_trace :: "obs list"

definition NewDispatcher :: "int \<Rightarrow> int \<Rightarrow> Dispatcher" where
  "NewDispatcher maxConcurrent perSessionBuffer =
     (let maxConcurrent = (if maxConcurrent \<le> 0 then 8 else maxConcurrent);
          perSessionBuffer = (if perSessionBuffer \<le> 0 then 64 else perSessionBuffer)
      in \<lparr>d_queue = Map.empty, d_worker = Map.empty, d_sem = 0,
          d_maxConcurrent = nat maxConcurrent, d_buffer = nat perSessionBuffer,
          d_sending = [], d_trace = []\<rparr>)"

definition job_key :: "Job \<Rightarrow> string" where
  "job_key job = SessionKey_String (job_SessionKey job)"

datatype d_action =
    Lookup Job | SendJob nat | Receive string | Quit string
  | Acquire string | Return string | Release string

definition d_step :: "d_action \<Rightarrow> Dispatcher \<Rightarrow> Dispatcher option" where
  "d_step a d =
     (case a of
        Lookup job \<Rightarrow>
          (let key = job_key job;
               d1 = (case d_queue d key of
                       Some q \<Rightarrow> d
                     | None \<Rightarrow> d\<lparr>d_queue := (d_queue d)(key \<mapsto> []),
                                 d_worker := (d_worker d)(key \<mapsto> Selecting)\<rparr>)
           in Some (d1\<lparr>d_sending := d_sending d1 @ [job]\<rparr>))
      | SendJob i \<Rightarrow>
          (if i < length (d_sending d) then
             (let job = d_sending d ! i in
              case d_queue d (job_key job) of
                None \<Rightarrow> None
              | Some q \<Rightarrow>
                  (if length q < d_buffer d then
                     Some (d\<lparr>d_queue := (d_queue d)(job_key job \<mapsto> q @ [job]),
                             d_sending := take i (d_sending d) @ drop (Suc i) (d_sending d),
                             d_trace := d_trace d @ [Sent job]\<rparr>)
                   else None))
           else None)
      | Receive k \<Rightarrow>
          (case (d_worker d k, d_queue d k) of
             (Some Selecting, Some (job # q)) \<Rightarrow>
               Some (d\<lparr>d_queue := (d_queue d)(k \<mapsto> q),
                       d_worker := (d_worker d)(k \<mapsto> Acquiring job)\<rparr>)
           | _ \<Rightarrow> None)
      | Quit k \<Rightarrow>
          (case d_worker d k of
             Some Selecting \<Rightarrow> Some (d\<lparr>d_worker := (d_worker d)(k \<mapsto> Exited)\<rparr>)
           | _ \<Rightarrow> None)
      | Acquire k \<Rightarrow>
          (case d_worker d k of
             Some (Acquiring job) \<Rightarrow>
               (if d_sem d < d_maxConcurrent d then
                  Some (d\<lparr>d_sem := d_sem d + 1,
                          d_worker := (d_worker d)(k \<mapsto> Running job),
                          d_trace := d_trace d @ [Started job]\<rparr>)
                else None)
           | _ \<Rightarrow> None)
      | Return k \<Rightarrow>
          (case d_worker d k of
             Some (Running job) \<Rightarrow>
               Some (d\<lparr>d_worker := (d_worker d)(k \<mapsto> Releasing),
                       d_trace := d_trace d @ [Returned job]\<rparr>)
           | _ \<Rightarrow> None)
      | Release k \<Rightarrow>
          (case d_worker d k of
             Some Releasing \<Rightarrow>
               Some (d\<lparr>d_sem := d_sem d - 1, d_worker := (d_worker d)(k \<mapsto> Selecting)\<rparr>)
           | _ \<Rightarrow> None))"

fun d_run :: "d_action list \<Rightarrow> Dispatcher \<Rightarrow> Dispatcher option" where
  "d_run [] d = Some d"
| "d_run (a # as) d = (case d_step a d of None \<Rightarrow> None | Some d' \<Rightarrow> d_run as d')"

text \<open>
  One call of \<open>Enqueue\<close> with no other caller in between: the lookup, then the send.
  \<open>None\<close> means that the call does not return in this state: the channel is full and the
  send blocks until the worker receives.
\<close>

definition Enqueue :: "Dispatcher \<Rightarrow> Job \<Rightarrow> Dispatcher option" where
  "Enqueue d job =
     (case d_step (Lookup job) d of
        None \<Rightarrow> None
      | Some d1 \<Rightarrow> d_step (SendJob (length (d_sending d1) - 1)) d1)"

section \<open>Security policy (internal/security/policy.go)\<close>

record Policy =
  allowlist :: "string set"
  roots :: "string list"

definition New :: "string list \<Rightarrow> string list \<Rightarrow> Policy" where
  "New allow rs =
     \<lparr>allowlist = set (map TrimSpace allow),
      roots = map Clean (filter (\<lambda>r. r \<noteq> []) rs)\<rparr>"

definition ValidateExecutor :: "Policy \<Rightarrow> string \<Rightarrow> error option" where
  "ValidateExecutor p name =
     (if name \<in> allowlist p then None
      else Some (Error (''executor '' @ Quote name @ '' is not allowed'')))"

definition ValidateWorkdir :: "Policy \<Rightarrow> string \<Rightarrow> error option" where
  "ValidateWorkdir p workdir =
     (if workdir = [] then Some (Error ''workdir cannot be empty'')
      else let wd = Clean workdir
           in if list_ex (\<lambda>root. wd = root \<or> prefix (root @ ''/'') wd) (roots p) then None
              else Some (Error (''workdir '' @ Quote wd @ '' is outside allowed roots'')))"

definition PrimaryRoot :: "Policy \<Rightarrow> string" where
  "PrimaryRoot p = (if roots p = [] then [] else hd (roots p))"

section \<open>Runner.RunJob as a whole\<close>

text \<open>\<open>strconv.Itoa\<close>\<close>

function digits :: "nat \<Rightarrow> string" where
  "digits n =
     (if n < 10 then [chr_of_byte (48 + n)]
      else digits (n div 10) @ [chr_of_byte (48 + n mod 10)])"
  by pat_completeness auto
termination
  by (relation "measure id") auto

declare digits.simps [simp del]

definition Itoa :: "int \<Rightarrow> string" where
  "Itoa i = (if i < 0 then CHR ''-'' # digits (nat (- i)) else digits (nat i))"

text \<open>
  What the operating system does with the command is not decided by the program:
  opening a pipe or starting the child may fail; otherwise the child writes lines on its
  two streams and \<open>cmd.Wait()\<close> reports how it ended. \<open>Exit n\<close> is a child that exited
  with status \<open>n\<close> (\<open>Wait\<close> returns nil only for 0); \<open>WaitError\<close> is any other failure of
  \<open>Wait\<close> (the child killed by the timeout or by \<open>/stop\<close>, a copy error).
\<close>

datatype wait_result = Exit int | WaitError string

datatype child =
    StdoutPipeFails string
  | StderrPipeFails string
  | StartFails string
  | Runs "string list" "string list" wait_result

definition wait_error :: "wait_result \<Rightarrow> string option" where
  "wait_error w =
     (case w of
        Exit n \<Rightarrow> (if n = 0 then None else Some (''exit status '' @ Itoa n))
      | WaitError msg \<Rightarrow> Some msg)"

text \<open>
  \<open>RunJob\<close>: the error it returns and the events it delivered to the sink, in order, for
  a schedule \<open>sched\<close> of the two readers. The result is \<open>None\<close> when \<open>sched\<close> is not a
  complete run of the readers for this child. The sink's own errors are ignored by
  \<open>RunJob\<close> (\<open>_ = sink.OnEvent(...)\<close>). The timeout acts through the child's fate.
\<close>

definition RunJob :: "Executor \<Rightarrow> Job \<Rightarrow> child \<Rightarrow> action list \<Rightarrow> (error option \<times> StreamEvent list) option" where
  "RunJob ex job ch sched =
     (case ex_BuildCommand ex job of
        Inl err \<Rightarrow> Some (Some err, [])
      | Inr args \<Rightarrow>
          (if args = [] then Some (Some (Error (''empty command for executor '' @ ex_Name ex)), [])
           else (case ch of
                   StdoutPipeFails msg \<Rightarrow> Some (Some (Error (''stdout pipe: '' @ msg)), [])
                 | StderrPipeFails msg \<Rightarrow> Some (Some (Error (''stderr pipe: '' @ msg)), [])
                 | StartFails msg \<Rightarrow> Some (Some (Error (''start command: '' @ msg)), [])
                 | Runs outs errs w \<Rightarrow>
                     (case run (job_ID job) (wait_error w = None) sched (started outs errs) of
                        None \<Rightarrow> None
                      | Some s \<Rightarrow>
                          (if \<not> rs_final s then None
                           else (case wait_error w of
                                   Some msg \<Rightarrow> Some (Some (Error (''command failed: '' @ msg)), rs_sink s)
                                 | None \<Rightarrow> Some (None, rs_sink s)))))))"

section \<open>Orchestrator (internal/service/orchestrator.go)\<close>

text \<open>
  The orchestrator's fields. The transports are the senders of their platforms; \<open>o_jobs\<close>
  holds the ids that have a cancel function in the \<open>jobs\<close> map.
\<close>

record Orchestrator =
  o_store :: Store
  o_sessions :: Manager
  o_policy :: Policy
  o_executors :: "string \<rightharpoonup> Executor"
  o_transport :: "string \<rightharpoonup> Sender"
  o_dispatcher :: Dispatcher
  o_jobs :: "string set"
  o_batchInterval :: int
  o_maxChunkBytes :: int

definition err_text :: "error \<Rightarrow> string" where
  "err_text e = (case e of Error msg \<Rightarrow> msg | Panic msg \<Rightarrow> msg)"

definition reply :: "Orchestrator \<Rightarrow> SessionKey \<Rightarrow> string \<Rightarrow> error option \<times> Orchestrator" where
  "reply orc key text =
     (case o_transport orc (Platform key) of
        None \<Rightarrow> (None, orc)
      | Some t \<Rightarrow>
          (let (e, t') = Send t (text_message key text)
           in (e, orc\<lparr>o_transport := (o_transport orc)(Platform key \<mapsto> t')\<rparr>)))"

definition Validate :: "Policy \<Rightarrow> Job \<Rightarrow> error option" where
  "Validate p job =
     (case ValidateExecutor p (job_Executor job) of
        Some err \<Rightarrow> Some err
      | None \<Rightarrow> ValidateWorkdir p (job_Workdir job))"

text \<open>
  \<open>enqueueJob\<close>, in two parts. \<open>jobID\<close> is the value of \<open>newJobID()\<close> and \<open>now\<close> the clock.
  The first part runs up to the call of \<open>Policy.Validate\<close>: it either returns early
  (\<open>Inl\<close>, with the function's result) or has built the job (\<open>Inr\<close>). A failed
  \<open>LoadSession\<close> is only logged.
\<close>

definition enqueueJob_build ::
  "Orchestrator \<Rightarrow> SessionKey \<Rightarrow> string \<Rightarrow> string \<Rightarrow> string \<Rightarrow> nat
     \<Rightarrow> (error option \<times> Orchestrator) + (Orchestrator \<times> Job)"
where
  "enqueueJob_build orc key exName prompt jobID now =
     (if prompt = [] then Inl (reply orc key ''prompt cannot be empty'')
      else (case Workdir (o_sessions orc) (o_store orc) key of
              (Inl err, m1) \<Rightarrow> Inl (Some err, orc\<lparr>o_sessions := m1\<rparr>)
            | (Inr wd, m1) \<Rightarrow>
                (let orc1 = orc\<lparr>o_sessions := m1\<rparr>
                 in if wd = [] then
                      Inl (reply orc1 key ''workdir is not set, use /cd <project_dir> first'')
                    else
                      (let job = \<lparr>job_ID = jobID, job_SessionKey = key, job_Executor = exName,
                                  job_Session = [], job_Prompt = prompt, job_Workdir = wd,
                                  job_PermissionMode = [], job_Status = JobPending,
                                  job_CreatedAt = now, job_StartedAt = None,
                                  job_FinishedAt = None, job_ErrorMessage = []\<rparr>
                       in case PermissionMode m1 (o_store orc) key of
                            (Inl err, m2) \<Rightarrow> Inl (Some err, orc\<lparr>o_sessions := m2\<rparr>)
                          | (Inr mode, m2) \<Rightarrow>
                              (let orc2 = orc\<lparr>o_sessions := m2\<rparr>;
                                   job = job\<lparr>job_PermissionMode := mode\<rparr>
                               in case o_executors orc exName of
                                    None \<Rightarrow> Inl (reply orc2 key (''unknown executor: '' @ exName))
                                  | Some ex \<Rightarrow>
                                      Inr (orc2,
                                           (case ex_SessionAware ex of
                                              None \<Rightarrow> job
                                            | Some sessionAware \<Rightarrow>
                                                (case LoadSession sessionAware (o_store orc) job of
                                                   Inl err \<Rightarrow> job
                                                 | Inr sessionID \<Rightarrow>
                                                     (if sessionID \<noteq> []
                                                      then job\<lparr>job_Session := sessionID\<rparr>
                                                      else job)))))))))"

text \<open>
  The second part: validation, \<open>Store.CreateJob\<close>, \<open>Dispatcher.Enqueue\<close> and the reply.
  The result of \<open>enqueueJob\<close> is \<open>None\<close> when the call does not return because
  \<open>Dispatcher.Enqueue\<close> blocks.
\<close>

definition enqueueJob ::
  "Orchestrator \<Rightarrow> SessionKey \<Rightarrow> string \<Rightarrow> string \<Rightarrow> string \<Rightarrow> nat \<Rightarrow> (error option \<times> Orchestrator) option"
where
  "enqueueJob orc key exName prompt jobID now =
     (case enqueueJob_build orc key exName prompt jobID now of
        Inl returned \<Rightarrow> Some returned
      | Inr (orc2, job) \<Rightarrow>
          (case Validate (o_policy orc2) job of
             Some err \<Rightarrow> Some (reply orc2 key (''job rejected: '' @ err_text err))
           | None \<Rightarrow>
               (case CreateJob (o_store orc2) job of
                  (Some err, st') \<Rightarrow> Some (Some err, orc2\<lparr>o_store := st'\<rparr>)
                | (None, st') \<Rightarrow>
                    (case Enqueue (o_dispatcher orc2) job of
                       None \<Rightarrow> None
                     | Some d' \<Rightarrow>
                         Some (reply (orc2\<lparr>o_store := st', o_dispatcher := d'\<rparr>)
                                 key (''job queued: '' @ jobID))))))"

text \<open>\<open>strings.Contains\<close>\<close>

fun Contains :: "string \<Rightarrow> string \<Rightarrow> bool" where
  "Contains [] sub = (sub = [])"
| "Contains (c # cs) sub = (prefix sub (c # cs) \<or> Contains cs sub)"

text \<open>
  \<open>persistSink.OnEvent\<close>: the adapter's \<open>HandleEvent\<close>, then \<open>Store.AppendEvent\<close>, then the
  batcher, which is skipped when the store fails. The state of the sink is the store,
  the sender and the session id captured last.
\<close>

definition persistSink_OnEvent ::
  "Executor \<Rightarrow> Batcher \<Rightarrow> StreamEvent \<Rightarrow> Store \<times> Sender \<times> string \<Rightarrow> Store \<times> Sender \<times> string"
where
  "persistSink_OnEvent ex batcher ev0 acc =
     (case acc of (st, t, sessionID) \<Rightarrow>
        (let (sid, ev) = (case ex_SessionAware ex of
                            None \<Rightarrow> ([], ev0)
                          | Some sessionAware \<Rightarrow> HandleEvent sessionAware ev0);
             sessionID = (if sid \<noteq> [] then sid else sessionID)
         in case AppendEvent st ev of
              (Some err, st') \<Rightarrow> (st', t, sessionID)
            | (None, st') \<Rightarrow> (st', snd (Batcher_OnEvent batcher ev t), sessionID)))"

text \<open>
  \<open>runJob\<close>, the dispatcher's worker function. \<open>ch\<close> and \<open>sched\<close> are the child and the
  readers' schedule of this run; \<open>started_at\<close>, \<open>saved_at\<close> and \<open>finished_at\<close> are clock
  readings. Errors of the store and of the transport are dropped (\<open>_ =\<close>) as in the source.
  The job's cancel function is put into \<open>jobs\<close> and removed again when \<open>runJob\<close>
  returns, so \<open>o_jobs\<close> is the same after the call as before it.
\<close>

definition runJob ::
  "Orchestrator \<Rightarrow> Job \<Rightarrow> child \<Rightarrow> action list \<Rightarrow> nat \<Rightarrow> nat \<Rightarrow> nat \<Rightarrow> Orchestrator option"
where
  "runJob orc job ch sched started_at saved_at finished_at =
     (case o_executors orc (job_Executor job) of
        None \<Rightarrow> Some (snd (reply orc (job_SessionKey job) (''unknown executor: '' @ job_Executor job)))
      | Some ex \<Rightarrow>
          (let st1 = snd (UpdateJobStatus (o_store orc) (job_ID job) JobRunning (Some started_at) None []);
               orc1 = orc\<lparr>o_store := st1\<rparr>
           in case o_transport orc (Platform (job_SessionKey job)) of
                None \<Rightarrow> Some (snd (reply orc1 (job_SessionKey job) ''transport missing for platform''))
              | Some transport \<Rightarrow>
                  (let batcher = NewBatcher (o_batchInterval orc) (o_maxChunkBytes orc) (job_SessionKey job)
                   in case RunJob ex job ch sched of
                        None \<Rightarrow> None
                      | Some (err, events) \<Rightarrow>
                          (let (st2, t2, sessionID) =
                                 foldl (\<lambda>acc ev. persistSink_OnEvent ex batcher ev acc)
                                   (st1, transport, []) events;
                               t3 = snd (Batcher_Flush batcher t2);
                               st3 = (case ex_SessionAware ex of
                                        None \<Rightarrow> st2
                                      | Some sessionAware \<Rightarrow>
                                          (if sessionID \<noteq> []
                                           then snd (SaveSession sessionAware st2 job sessionID saved_at)
                                           else st2));
                               orc3 = orc\<lparr>o_transport := (o_transport orc)(Platform (job_SessionKey job) \<mapsto> t3)\<rparr>
                           in case err of
                                Some e \<Rightarrow>
                                  Some (snd (reply
                                    (orc3\<lparr>o_store := snd (UpdateJobStatus st3 (job_ID job) JobFailed
                                                           (Some started_at) (Some finished_at) (err_text e))\<rparr>)
                                    (job_SessionKey job) (''job failed: '' @ err_text e)))
                              | None \<Rightarrow>
                                  Some (snd (reply
                                    (orc3\<lparr>o_store := snd (UpdateJobStatus st3 (job_ID job) JobDone
                                                           (Some started_at) (Some finished_at) [])\<rparr>)
                                    (job_SessionKey job) (''job done: '' @ job_ID job)))))))"

section \<open>Session keys: serialisation\<close>

lemma takeWhile_upto_colon:
  "colon_free p \<Longrightarrow> takeWhile (\<lambda>c. c \<noteq> CHR '':'') (p @ CHR '':'' # r) = p"
  by (induction p) (auto simp: colon_free_def)

lemma split_first_colon:
  assumes "colon_free p" "colon_free q" "p @ CHR '':'' # r = q @ CHR '':'' # s"
  shows "p = q \<and> r = s"
proof -
  have "takeWhile (\<lambda>c. c \<noteq> CHR '':'') (p @ CHR '':'' # r) = p"
    using assms(1) by (rule takeWhile_upto_colon)
  moreover have "takeWhile (\<lambda>c. c \<noteq> CHR '':'') (q @ CHR '':'' # s) = q"
    using assms(2) by (rule takeWhile_upto_colon)
  ultimately have "p = q" using assms(3) by simp
  with assms(3) show ?thesis by simp
qed

text \<open>
  C10 (as stated): \<open>SessionKey.String\<close> is injective on all session keys. It is not: a
  colon inside the chat id is indistinguishable from the separator before the thread id.
\<close>

theorem C10_String_collision:
  "SessionKey_String \<lparr>Platform = ''telegram'', ChatID = ''1:2'', ThreadID = ''''\<rparr>
     = SessionKey_String \<lparr>Platform = ''telegram'', ChatID = ''1'', ThreadID = ''2''\<rparr>
   \<and> \<lparr>Platform = ''telegram'', ChatID = ''1:2'', ThreadID = ''''\<rparr>
     \<noteq> \<lparr>Platform = ''telegram'', ChatID = ''1'', ThreadID = ''2''\<rparr>"
  by (simp add: SessionKey_String_def)

text \<open>
  C10 (amended): on session keys whose platform and chat id contain no colon, two keys
  with the same serialisation are equal, whatever the thread ids are.
\<close>

theorem C10_String_injective:
  assumes "colon_free (Platform a)" "colon_free (ChatID a)"
    and "colon_free (Platform b)" "colon_free (ChatID b)"
    and eq: "SessionKey_String a = SessionKey_String b"
  shows "a = (b :: SessionKey)"
proof -
  have shape: "\<And>k. SessionKey_String k = Platform k @ CHR '':'' #
      (if ThreadID k = [] then ChatID k else ChatID k @ CHR '':'' # ThreadID k)"
    by (simp add: SessionKey_String_def)
  let ?ra = "if ThreadID a = [] then ChatID a else ChatID a @ CHR '':'' # ThreadID a"
  let ?rb = "if ThreadID b = [] then ChatID b else ChatID b @ CHR '':'' # ThreadID b"
  from eq have "Platform a @ CHR '':'' # ?ra = Platform b @ CHR '':'' # ?rb"
    by (simp only: shape)
  from split_first_colon [OF assms(1) assms(3) this]
  have p: "Platform a = Platform b" and r: "?ra = ?rb" by simp_all
  have "ChatID a = ChatID b \<and> ThreadID a = ThreadID b"
  proof (cases "ThreadID a = []")
    case ta: True
    show ?thesis
    proof (cases "ThreadID b = []")
      case True
      with ta r show ?thesis by simp
    next
      case False
      with ta r have "ChatID a = ChatID b @ CHR '':'' # ThreadID b" by simp
      with assms(2) show ?thesis by (simp add: colon_free_def)
    qed
  next
    case ta: False
    show ?thesis
    proof (cases "ThreadID b = []")
      case True
      with ta r have "ChatID b = ChatID a @ CHR '':'' # ThreadID a" by simp
      with assms(4) show ?thesis by (simp add: colon_free_def)
    next
      case False
      with ta r have "ChatID a @ CHR '':'' # ThreadID a = ChatID b @ CHR '':'' # ThreadID b"
        by simp
      from split_first_colon [OF assms(2) assms(4) this] show ?thesis by simp
    qed
  qed
  with p show ?thesis by simp
qed

theorem C10_String_injective_witness:
  "colon_free ''telegram'' \<and> colon_free ''42''
   \<and> SessionKey_String \<lparr>Platform = ''telegram'', ChatID = ''42'', ThreadID = ''7:1''\<rparr>
      = ''telegram:42:7:1''"
  using C10_String_injective
    [of "\<lparr>Platform = ''telegram'', ChatID = ''42'', ThreadID = ''7:1''\<rparr>"
        "\<lparr>Platform = ''telegram'', ChatID = ''42'', ThreadID = ''7:1''\<rparr>"]
  by (simp add: colon_free_def SessionKey_String_def)

section \<open>Stream batcher: what one event sends\<close>

lemma send_sent:
  "sent (snd (Send s m)) = sent s @ [m]" "fault (snd (Send s m)) = fault s"
  "fst (Send s m) = fault s (length (sent s))"
  by (simp_all add: Send_def)

lemma send_loop_log:
  assumes "0 < mc"
  shows "\<exists>ps. sent (snd (send_loop mc key msg s)) = sent s @ map (text_message key) ps
            \<and> prefix (concat ps) msg
            \<and> (\<forall>p \<in> set ps. p \<noteq> [] \<and> int (length p) \<le> mc)
            \<and> fault (snd (send_loop mc key msg s)) = fault s
            \<and> ((\<forall>i. fault s i = None) \<longrightarrow> concat ps = msg \<and> fst (send_loop mc key msg s) = None)"
  using assms
proof (induction mc key msg s rule: send_loop.induct)
  case (1 mc key msg s)
  show ?case
  proof (cases "mc < int (length msg)")
    case long: True
    let ?m = "text_message key (take (nat mc) msg)"
    let ?s1 = "s\<lparr>sent := sent s @ [?m]\<rparr>"
    show ?thesis
    proof (cases "fault s (length (sent s))")
      case None
      then have S: "Send s ?m = (None, ?s1)" by (simp add: Send_def)
      have unf: "send_loop mc key msg s = send_loop mc key (drop (nat mc) msg) ?s1"
        using long "1.prems" by (subst send_loop.simps) (simp add: S)
      from "1.IH" [OF _ S [symmetric] _ "1.prems"] long "1.prems"
      obtain ps where ps: "sent (snd (send_loop mc key (drop (nat mc) msg) ?s1))
            = sent ?s1 @ map (text_message key) ps"
          "prefix (concat ps) (drop (nat mc) msg)"
          "\<forall>p \<in> set ps. p \<noteq> [] \<and> int (length p) \<le> mc"
          "fault (snd (send_loop mc key (drop (nat mc) msg) ?s1)) = fault ?s1"
          "(\<forall>i. fault ?s1 i = None) \<longrightarrow> concat ps = drop (nat mc) msg
              \<and> fst (send_loop mc key (drop (nat mc) msg) ?s1) = None"
        by auto
      have pre: "prefix (concat (take (nat mc) msg # ps)) msg"
      proof -
        have "prefix (take (nat mc) msg @ concat ps) (take (nat mc) msg @ drop (nat mc) msg)"
          using ps(2) by (simp only: same_prefix_prefix)
        then show ?thesis by (simp only: append_take_drop_id concat.simps)
      qed
      show ?thesis
        apply (rule exI [where x = "take (nat mc) msg # ps"])
        using ps pre long "1.prems" unf
        by (auto simp: send_sent)
    next
      case (Some e)
      then have S: "Send s ?m = (Some e, ?s1)" by (simp add: Send_def)
      have unf: "send_loop mc key msg s = (Some e, ?s1)"
        using long "1.prems" by (subst send_loop.simps) (simp add: S)
      show ?thesis
        apply (rule exI [where x = "[take (nat mc) msg]"])
        using unf long "1.prems" Some
        by (auto simp: send_sent take_is_prefix)
    qed
  next
    case short: False
    show ?thesis
    proof (cases "msg = []")
      case True
      then have "send_loop mc key msg s = (None, s)"
        by (subst send_loop.simps) auto
      with True show ?thesis by (intro exI [where x = "[]"]) simp
    next
      case False
      then have unf: "send_loop mc key msg s = Send s (text_message key msg)"
        using short by (subst send_loop.simps) simp
      show ?thesis
        apply (rule exI [where x = "[msg]"])
        using unf short False
        by (auto simp: send_sent)
    qed
  qed
qed


lemma send_loop_plain:
  "\<exists>ps. sent (snd (send_loop mc key msg s)) = sent s @ map (text_message key) ps"
proof (induction mc key msg s rule: send_loop.induct)
  case (1 mc key msg s)
  let ?m = "text_message key (take (nat mc) msg)"
  let ?s1 = "s\<lparr>sent := sent s @ [?m]\<rparr>"
  show ?case
  proof (cases "0 < mc \<and> mc < int (length msg)")
    case loop: True
    show ?thesis
    proof (cases "fault s (length (sent s))")
      case None
      then have S: "Send s ?m = (None, ?s1)" by (simp add: Send_def)
      have unf: "send_loop mc key msg s = send_loop mc key (drop (nat mc) msg) ?s1"
        using loop by (subst send_loop.simps) (simp add: S)
      from "1.IH" [OF loop S [symmetric] refl]
      obtain ps where "sent (snd (send_loop mc key (drop (nat mc) msg) ?s1))
            = sent ?s1 @ map (text_message key) ps" by blast
      then have "sent (snd (send_loop mc key msg s))
            = sent s @ map (text_message key) (take (nat mc) msg # ps)"
        by (simp add: unf)
      then show ?thesis by blast
    next
      case (Some e)
      then have S: "Send s ?m = (Some e, ?s1)" by (simp add: Send_def)
      have "send_loop mc key msg s = (Some e, ?s1)"
        using loop by (subst send_loop.simps) (simp add: S)
      then have "sent (snd (send_loop mc key msg s))
            = sent s @ map (text_message key) [take (nat mc) msg]" by simp
      then show ?thesis by blast
    qed
  next
    case stop: False
    show ?thesis
    proof (cases "msg = []")
      case True
      then have "send_loop mc key msg s = (None, s)"
        using stop by (subst send_loop.simps) auto
      then have "sent (snd (send_loop mc key msg s)) = sent s @ map (text_message key) []"
        by simp
      then show ?thesis by blast
    next
      case False
      then have "send_loop mc key msg s = Send s (text_message key msg)"
        using stop by (subst send_loop.simps) auto
      then have "sent (snd (send_loop mc key msg s)) = sent s @ map (text_message key) [msg]"
        by (simp add: send_sent)
      then show ?thesis by blast
    qed
  qed
qed

lemma OnEvent_plain:
  "\<exists>ps. sent (snd (Batcher_OnEvent b ev s)) = sent s @ map (text_message (b_key b)) ps"
proof -
  have a: "sent s = sent s @ map (text_message (b_key b)) []" by simp
  have c: "sent (snd (Send s (text_message (b_key b) (ev_Chunk ev))))
        = sent s @ map (text_message (b_key b)) [ev_Chunk ev]"
    by (simp add: send_sent)
  show ?thesis
    unfolding Batcher_OnEvent_def sendLocked_def
    using a c send_loop_plain [of "b_maxChunk b" "b_key b" "ev_Chunk ev" s]
    by (auto simp del: map_append list.map)
qed

lemma payload_plain: "Bot_Send_payload (text_message key p) ''parse_mode'' = None"
  by (simp add: Bot_Send_payload_def buildSendPayload_def text_message_def Let_def
      split: option.split)

text \<open>
  C9: every message the Batcher hands to the transport for a stream event has an empty
  \<open>Format\<close> (and the batcher's session key), whatever the event's own format is, so
  the Telegram payload built for it carries no \<open>parse_mode\<close>.
\<close>

theorem C9_batcher_drops_format:
  "\<forall>m \<in> set (sent_since s (snd (Batcher_OnEvent b ev s))).
      om_Format m = [] \<and> om_SessionKey m = b_key b
      \<and> Bot_Send_payload m ''parse_mode'' = None"
proof -
  obtain ps where "sent (snd (Batcher_OnEvent b ev s)) = sent s @ map (text_message (b_key b)) ps"
    using OnEvent_plain by blast
  then have "sent_since s (snd (Batcher_OnEvent b ev s)) = map (text_message (b_key b)) ps"
    by (simp add: sent_since_def)
  then show ?thesis
    by (auto simp: payload_plain) (simp_all add: text_message_def)
qed


lemma NewBatcher_fields:
  "b_maxChunk (NewBatcher iv N key) = (if N \<le> 0 then 3500 else N)"
  "b_key (NewBatcher iv N key) = key"
  by (simp_all add: NewBatcher_def Let_def)

lemma OnEvent_log:
  assumes "0 < b_maxChunk b"
  shows "\<exists>ps. sent (snd (Batcher_OnEvent b ev s)) = sent s @ map (text_message (b_key b)) ps
            \<and> prefix (concat ps) (ev_Chunk ev)
            \<and> (\<forall>p \<in> set ps. p \<noteq> [] \<and> int (length p) \<le> b_maxChunk b)
            \<and> ((\<forall>i. fault s i = None) \<longrightarrow>
                  concat ps = ev_Chunk ev \<and> fst (Batcher_OnEvent b ev s) = None)"
proof (cases "ev_Chunk ev = []")
  case True
  then show ?thesis
    by (intro exI [where x = "[]"]) (simp add: Batcher_OnEvent_def)
next
  case ne: False
  show ?thesis
  proof (cases "int (length (ev_Chunk ev)) \<le> b_maxChunk b")
    case True
    with ne assms have "Batcher_OnEvent b ev s = Send s (text_message (b_key b) (ev_Chunk ev))"
      by (simp add: Batcher_OnEvent_def sendLocked_def)
    with ne True show ?thesis
      by (intro exI [where x = "[ev_Chunk ev]"]) (simp add: send_sent)
  next
    case False
    with ne assms have "Batcher_OnEvent b ev s
        = send_loop (b_maxChunk b) (b_key b) (ev_Chunk ev) s"
      by (simp add: Batcher_OnEvent_def sendLocked_def)
    with send_loop_log [OF assms, of "b_key b" "ev_Chunk ev" s] show ?thesis
      by auto
  qed
qed

lemma OnEvent_one_over:
  assumes N: "1 \<le> N" and len: "int (length msg) = N + 1" and ok: "\<forall>i. fault s i = None"
  shows "sent (snd (send_loop N key msg s))
         = sent s @ [text_message key (take (nat N) msg), text_message key (drop (nat N) msg)]"
proof -
  let ?s1 = "s\<lparr>sent := sent s @ [text_message key (take (nat N) msg)]\<rparr>"
  have S: "Send s (text_message key (take (nat N) msg)) = (None, ?s1)"
    using ok by (simp add: Send_def)
  have one: "send_loop N key msg s = send_loop N key (drop (nat N) msg) ?s1"
    using N len by (subst send_loop.simps) (simp add: S)
  have rest: "length (drop (nat N) msg) = 1" using N len by simp
  then have "drop (nat N) msg \<noteq> []" by auto
  then have two: "send_loop N key (drop (nat N) msg) ?s1
        = Send ?s1 (text_message key (drop (nat N) msg))"
    using N rest by (subst send_loop.simps) simp
  show ?thesis by (simp add: one two send_sent)
qed

text \<open>
  C7: for \<open>maxChunk = N \<ge> 1\<close>, the texts sent for one event are non-empty pieces of
  at most \<open>N\<close> bytes whose concatenation is a prefix of the chunk; an empty chunk sends
  nothing; and when no send fails, the call returns nil, the pieces concatenate to the
  whole chunk, and a chunk of \<open>N + 1\<close> bytes is sent as exactly two messages, of \<open>N\<close>
  bytes and then 1 byte.
\<close>

theorem C7_batcher_split:
  assumes N: "1 \<le> N"
  shows "let b = NewBatcher interval N key;
             s' = snd (Batcher_OnEvent b ev s);
             texts = map om_Text (sent_since s s')
         in sent s' = sent s @ sent_since s s'
          \<and> (\<forall>t \<in> set texts. t \<noteq> [] \<and> int (length t) \<le> N)
          \<and> prefix (concat texts) (ev_Chunk ev)
          \<and> (ev_Chunk ev = [] \<longrightarrow> texts = [])
          \<and> ((\<forall>i. fault s i = None) \<longrightarrow>
                fst (Batcher_OnEvent b ev s) = None
              \<and> concat texts = ev_Chunk ev
              \<and> (int (length (ev_Chunk ev)) = N + 1 \<longrightarrow>
                    texts = [take (nat N) (ev_Chunk ev), drop (nat N) (ev_Chunk ev)]
                  \<and> map length texts = [nat N, 1]))"
proof -
  define b where "b = NewBatcher interval N key"
  define s' where "s' = snd (Batcher_OnEvent b ev s)"
  have mc: "b_maxChunk b = N" and k: "b_key b = key"
    using N by (simp_all add: b_def NewBatcher_fields)
  then have pos: "0 < b_maxChunk b" using N by simp
  from OnEvent_log [OF pos, of ev s] obtain ps where
    ps: "sent s' = sent s @ map (text_message key) ps"
      "prefix (concat ps) (ev_Chunk ev)"
      "\<forall>p \<in> set ps. p \<noteq> [] \<and> int (length p) \<le> N"
      "(\<forall>i. fault s i = None) \<longrightarrow> concat ps = ev_Chunk ev \<and> fst (Batcher_OnEvent b ev s) = None"
    unfolding s'_def mc k by blast
  have since: "sent_since s s' = map (text_message key) ps"
    using ps(1) by (simp add: sent_since_def)
  have texts: "map om_Text (sent_since s s') = ps"
    by (simp add: since text_message_def comp_def)
  have empty: "ev_Chunk ev = [] \<longrightarrow> ps = []"
  proof
    assume "ev_Chunk ev = []"
    with ps(2) have "concat ps = []" by simp
    with ps(3) show "ps = []" by (cases ps) auto
  qed
  have over: "(\<forall>i. fault s i = None) \<longrightarrow> int (length (ev_Chunk ev)) = N + 1 \<longrightarrow>
      ps = [take (nat N) (ev_Chunk ev), drop (nat N) (ev_Chunk ev)]
      \<and> map length ps = [nat N, 1]"
  proof (intro impI)
    assume ok: "\<forall>i. fault s i = None" and len: "int (length (ev_Chunk ev)) = N + 1"
    then have "ev_Chunk ev \<noteq> []" using N by auto
    with len N mc k have "Batcher_OnEvent b ev s = send_loop N key (ev_Chunk ev) s"
      by (simp add: Batcher_OnEvent_def sendLocked_def)
    with OnEvent_one_over [OF N len ok, of key] ps(1)
    have "map (text_message key) ps = map (text_message key)
        [take (nat N) (ev_Chunk ev), drop (nat N) (ev_Chunk ev)]"
      by (simp add: s'_def)
    then have "map om_Text (map (text_message key) ps) = map om_Text (map (text_message key)
        [take (nat N) (ev_Chunk ev), drop (nat N) (ev_Chunk ev)])" by (rule arg_cong)
    then have "ps = [take (nat N) (ev_Chunk ev), drop (nat N) (ev_Chunk ev)]"
      by (simp add: text_message_def comp_def)
    with len N show "ps = [take (nat N) (ev_Chunk ev), drop (nat N) (ev_Chunk ev)]
      \<and> map length ps = [nat N, 1]" by auto
  qed
  show ?thesis
    unfolding Let_def b_def [symmetric] s'_def [symmetric] texts
    using ps since empty over by auto
qed

theorem C7_batcher_split_witness:
  "(1::int) \<le> 3
   \<and> map om_Text (sent (snd (Batcher_OnEvent
        (NewBatcher 400000000 3 \<lparr>Platform = ''telegram'', ChatID = ''1'', ThreadID = []\<rparr>)
        \<lparr>ev_JobID = ''j'', ev_Seq = 1, ev_Chunk = ''abcd'', ev_IsFinal = False, ev_TS = 0,
          ev_Stream = ''stdout'', ev_ExitCode = None, ev_Format = []\<rparr>
        \<lparr>sent = [], fault = (\<lambda>_. None)\<rparr>))) = [''abc'', ''d'']"
  using C7_batcher_split [of 3 400000000
        "\<lparr>Platform = ''telegram'', ChatID = ''1'', ThreadID = []\<rparr>"
        "\<lparr>ev_JobID = ''j'', ev_Seq = 1, ev_Chunk = ''abcd'', ev_IsFinal = False, ev_TS = 0,
          ev_Stream = ''stdout'', ev_ExitCode = None, ev_Format = []\<rparr>"
        "\<lparr>sent = [], fault = (\<lambda>_. None)\<rparr>"]
  by (simp add: Let_def sent_since_def)

theorem C9_batcher_drops_format_witness:
  "sent_since \<lparr>sent = [], fault = (\<lambda>_. None)\<rparr> (snd (Batcher_OnEvent
        (NewBatcher 400000000 3500 \<lparr>Platform = ''telegram'', ChatID = ''1'', ThreadID = []\<rparr>)
        \<lparr>ev_JobID = ''j'', ev_Seq = 1, ev_Chunk = ''<b>x</b>'', ev_IsFinal = False, ev_TS = 0,
          ev_Stream = ''stdout'', ev_ExitCode = None, ev_Format = ''html''\<rparr>
        \<lparr>sent = [], fault = (\<lambda>_. None)\<rparr>))
     = [\<lparr>om_SessionKey = \<lparr>Platform = ''telegram'', ChatID = ''1'', ThreadID = []\<rparr>,
         om_Text = ''<b>x</b>'', om_Format = [], om_Meta = Map.empty\<rparr>]
   \<and> Bot_Send_payload
        \<lparr>om_SessionKey = \<lparr>Platform = ''telegram'', ChatID = ''1'', ThreadID = []\<rparr>,
         om_Text = ''<b>x</b>'', om_Format = [], om_Meta = Map.empty\<rparr> ''parse_mode'' = None"
  using C9_batcher_drops_format [of "\<lparr>sent = [], fault = (\<lambda>_. None)\<rparr>"
        "NewBatcher 400000000 3500 \<lparr>Platform = ''telegram'', ChatID = ''1'', ThreadID = []\<rparr>"
        "\<lparr>ev_JobID = ''j'', ev_Seq = 1, ev_Chunk = ''<b>x</b>'', ev_IsFinal = False, ev_TS = 0,
          ev_Stream = ''stdout'', ev_ExitCode = None, ev_Format = ''html''\<rparr>"]
  by (simp add: sent_since_def Batcher_OnEvent_def sendLocked_def NewBatcher_def Send_def
      text_message_def)

section \<open>Security policy: which workdirs are accepted\<close>

definition good_elems :: "string list \<Rightarrow> bool" where
  "good_elems out = (\<forall>e \<in> set out. e \<noteq> [] \<and> CHR ''/'' \<notin> set e)"

lemma split_on_no_sep: "\<forall>w \<in> set (split_on c s). c \<notin> set w"
  by (induction s) (auto split: list.splits)

lemma clean_elem_good:
  "good_elems out \<Longrightarrow> CHR ''/'' \<notin> set e \<Longrightarrow> good_elems (clean_elem rooted out e)"
  by (auto simp: good_elems_def clean_elem_def dest: in_set_butlastD)

lemma foldl_clean_good:
  "good_elems out \<Longrightarrow> \<forall>e \<in> set es. CHR ''/'' \<notin> set e
     \<Longrightarrow> good_elems (foldl (clean_elem rooted) out es)"
  by (induction es arbitrary: out) (auto simp: clean_elem_good)

lemma join_good:
  "good_elems out \<Longrightarrow> out \<noteq> []
     \<Longrightarrow> join_with ''/'' out \<noteq> [] \<and> last (join_with ''/'' out) \<noteq> CHR ''/''"
proof (induction "''/''" out rule: join_with.induct)
  case 1
  then show ?case by simp
next
  case (2 x)
  then show ?case by (cases x rule: rev_cases) (auto simp: good_elems_def)
next
  case (3 x y ys)
  then have "good_elems (y # ys)" by (simp add: good_elems_def)
  with 3 show ?case by simp
qed

lemma Clean_nonempty: "Clean p \<noteq> []"
  by (simp add: Clean_def Let_def)

lemma Clean_no_trailing_sep:
  assumes "Clean p = r @ ''/''"
  shows "r = []"
proof (cases "p = []")
  case True
  with assms show ?thesis by (cases r) (simp_all add: Clean_def)
next
  case False
  define rooted where "rooted = (hd p = CHR ''/'')"
  define out where "out = foldl (clean_elem rooted) [] (split_on CHR ''/'' p)"
  have good: "good_elems out"
    unfolding out_def
    by (rule foldl_clean_good) (simp_all add: good_elems_def split_on_no_sep)
  have C: "Clean p = (if rooted then CHR ''/'' # join_with ''/'' out
                      else if join_with ''/'' out = [] then ''.'' else join_with ''/'' out)"
    using False by (simp add: Clean_def Let_def rooted_def out_def)
  show ?thesis
  proof (cases "out = []")
    case True
    with C assms show ?thesis by (cases r) (auto split: if_splits)
  next
    case ne: False
    from join_good [OF good ne] have j: "join_with ''/'' out \<noteq> []"
      "last (join_with ''/'' out) \<noteq> CHR ''/''" by simp_all
    have "last (Clean p) = last (join_with ''/'' out)" using C j by simp
    with j(2) assms show ?thesis by simp
  qed
qed

lemma prefix_root_sep:
  assumes "root \<noteq> []"
  shows "prefix (root @ ''/'') (Clean wd)
         = (\<exists>rest. rest \<noteq> [] \<and> Clean wd = root @ ''/'' @ rest)"
proof
  assume "prefix (root @ ''/'') (Clean wd)"
  then obtain rest where r: "Clean wd = (root @ ''/'') @ rest" by (auto simp: prefix_def)
  have "rest \<noteq> []"
  proof
    assume "rest = []"
    with r have "Clean wd = root @ ''/''" by simp
    from Clean_no_trailing_sep [OF this] assms show False by simp
  qed
  with r show "\<exists>rest. rest \<noteq> [] \<and> Clean wd = root @ ''/'' @ rest" by auto
next
  assume "\<exists>rest. rest \<noteq> [] \<and> Clean wd = root @ ''/'' @ rest"
  then show "prefix (root @ ''/'') (Clean wd)" by (auto simp: prefix_def)
qed

lemma New_roots: "roots (New allow rs) = map Clean (filter (\<lambda>r. r \<noteq> []) rs)"
  by (simp add: New_def)

text \<open>
  What the test of the source accepts, as a test on strings: \<open>ValidateWorkdir\<close> rejects
  the empty string; the policy's roots are the cleaned non-empty roots it was built from;
  and a non-empty workdir is accepted exactly when its cleaned path is one of these roots
  or is a root followed by a separator and a non-empty remainder. With the root \<open>/repo\<close>,
  \<open>/repo-evil\<close> is rejected and \<open>/repo\<close> and \<open>/repo/app\<close> are accepted.
\<close>

lemma ValidateWorkdir_accepts_iff:
  "ValidateWorkdir (New allow rs) [] = Some (Error ''workdir cannot be empty'')
   \<and> roots (New allow rs) = map Clean (filter (\<lambda>r. r \<noteq> []) rs)
   \<and> (wd \<noteq> [] \<longrightarrow>
        (ValidateWorkdir (New allow rs) wd = None)
        = (\<exists>root \<in> set (roots (New allow rs)).
              Clean wd = root \<or> (\<exists>rest. rest \<noteq> [] \<and> Clean wd = root @ ''/'' @ rest)))
   \<and> ValidateWorkdir (New allow [''/repo'']) ''/repo-evil''
        = Some (Error (''workdir '' @ Quote ''/repo-evil'' @ '' is outside allowed roots''))
   \<and> ValidateWorkdir (New allow [''/repo'']) ''/repo'' = None
   \<and> ValidateWorkdir (New allow [''/repo'']) ''/repo/app'' = None"
proof -
  have ne: "\<forall>root \<in> set (roots (New allow rs)). root \<noteq> []"
    by (auto simp: New_roots Clean_nonempty)
  have gen: "wd \<noteq> [] \<longrightarrow>
        (ValidateWorkdir (New allow rs) wd = None)
        = (\<exists>root \<in> set (roots (New allow rs)).
              Clean wd = root \<or> (\<exists>rest. rest \<noteq> [] \<and> Clean wd = root @ ''/'' @ rest))"
  proof
    assume wd: "wd \<noteq> []"
    have "(ValidateWorkdir (New allow rs) wd = None)
        = (\<exists>root \<in> set (roots (New allow rs)).
              Clean wd = root \<or> prefix (root @ ''/'') (Clean wd))"
      using wd by (simp add: ValidateWorkdir_def Let_def list_ex_iff)
    also have "\<dots> = (\<exists>root \<in> set (roots (New allow rs)).
              Clean wd = root \<or> (\<exists>rest. rest \<noteq> [] \<and> Clean wd = root @ ''/'' @ rest))"
      using ne by (metis prefix_root_sep)
    finally show "(ValidateWorkdir (New allow rs) wd = None)
        = (\<exists>root \<in> set (roots (New allow rs)).
              Clean wd = root \<or> (\<exists>rest. rest \<noteq> [] \<and> Clean wd = root @ ''/'' @ rest))" .
  qed
  have c1: "Clean ''/repo'' = ''/repo''" by (simp add: Clean_def clean_elem_def)
  have c2: "Clean ''/repo-evil'' = ''/repo-evil''" by (simp add: Clean_def clean_elem_def)
  have c3: "Clean ''/repo/app'' = ''/repo/app''" by (simp add: Clean_def clean_elem_def)
  have e1: "ValidateWorkdir (New allow [''/repo'']) ''/repo-evil''
        = Some (Error (''workdir '' @ Quote ''/repo-evil'' @ '' is outside allowed roots''))"
    by (simp add: ValidateWorkdir_def New_roots c1 c2)
  have e2: "ValidateWorkdir (New allow [''/repo'']) ''/repo'' = None"
    by (simp add: ValidateWorkdir_def New_roots c1)
  have e3: "ValidateWorkdir (New allow [''/repo'']) ''/repo/app'' = None"
    by (simp add: ValidateWorkdir_def New_roots c1 c3)
  show ?thesis
    using gen e1 e2 e3 by (simp add: New_roots ValidateWorkdir_def)
qed

lemma ValidateWorkdir_accepts_example:
  "''/repo/./app/../web'' \<noteq> [] \<and> Clean ''/repo/./app/../web'' = ''/repo'' @ ''/'' @ ''web''
   \<and> ValidateWorkdir (New [''codex''] [''/repo/'']) ''/repo/./app/../web'' = None"
proof -
  have c: "Clean ''/repo/./app/../web'' = ''/repo'' @ ''/'' @ ''web''"
    by (simp add: Clean_def clean_elem_def)
  have r: "''/repo'' \<in> set (roots (New [''codex''] [''/repo/'']))"
    by (simp add: New_def Clean_def clean_elem_def)
  from ValidateWorkdir_accepts_iff [of "[''codex'']" "[''/repo/'']" "''/repo/./app/../web''"] r c
  have "ValidateWorkdir (New [''codex''] [''/repo/'']) ''/repo/./app/../web'' = None"
    by blast
  with c show ?thesis by simp
qed

text \<open>
  C4: a workdir that lies strictly below a configured root is to be accepted. The test
  \<open>HasPrefix(wd, root + "/")\<close> misses the roots that already end the path they name: for
  the root \<open>/\<close> the prefix tested is \<open>//\<close>, which no cleaned path has, and for the root
  \<open>.\<close> it is \<open>./\<close>. So with the root \<open>/\<close> the directory \<open>/etc\<close>, which is below it, is
  rejected, and only \<open>/\<close> itself is accepted; with the root \<open>.\<close> the directory \<open>app\<close> is
  rejected. The rest of the specified behaviour holds: the empty workdir is an error, and
  with the root \<open>/repo\<close> the workdir \<open>/repo-evil\<close> is rejected while \<open>/repo\<close> and
  \<open>/repo/app\<close> are accepted.
\<close>

theorem C4_root_slash_rejects_subdirectory:
  "roots (New [''codex''] [''/'']) = [''/'']
   \<and> Clean ''/etc'' = ''/etc''
   \<and> ValidateWorkdir (New [''codex''] [''/'']) ''/etc''
        = Some (Error (''workdir '' @ Quote ''/etc'' @ '' is outside allowed roots''))
   \<and> ValidateWorkdir (New [''codex''] [''/'']) ''/'' = None
   \<and> roots (New [''codex''] [''.'']) = [''.'']
   \<and> Clean ''app'' = ''app''
   \<and> ValidateWorkdir (New [''codex''] [''.'']) ''app''
        = Some (Error (''workdir '' @ Quote ''app'' @ '' is outside allowed roots''))
   \<and> ValidateWorkdir (New [''codex''] [''/repo'']) [] = Some (Error ''workdir cannot be empty'')
   \<and> ValidateWorkdir (New [''codex''] [''/repo'']) ''/repo-evil''
        = Some (Error (''workdir '' @ Quote ''/repo-evil'' @ '' is outside allowed roots''))
   \<and> ValidateWorkdir (New [''codex''] [''/repo'']) ''/repo'' = None
   \<and> ValidateWorkdir (New [''codex''] [''/repo'']) ''/repo/app'' = None"
  by (simp add: ValidateWorkdir_def New_def Clean_def clean_elem_def)

section \<open>Codex adapter: rendering a command execution\<close>

definition command_execution_line :: string where
  \<open>command_execution_line =
     ''{"type":"item.completed","item":{"type":"command_execution","aggregated_output":"line1''
     @ [CHR 0x5C] @ ''nline2'' @ [CHR 0x5C] @ ''n"}}''\<close>

lemma TrimSpace_Nil: "TrimSpace [] = []"
  by (simp add: TrimSpace_def)

lemma command_execution_parse:
  \<open>Unmarshal_codexJSONEvent command_execution_line =
     Some (zero_codexJSONEvent\<lparr>cx_Type := ''item.completed'',
        cx_Item := Some \<lparr>item_ID = [], item_Type = ''command_execution'', item_Text = [],
          item_Command = [], item_AggregatedOutput = ''line1\<newline>line2\<newline>''\<rparr>\<rparr>)\<close>
  by (simp add: command_execution_line_def Unmarshal_codexJSONEvent_def parse_json_def skip_ws_def
      is_ws_def byte_def chr_of_byte_def unescape_def decode_codexJSONEvent_def
      decode_codexJSONItem_def dec_struct_ptr_def dec_string_def zero_codexJSONEvent_def)

lemma command_execution_trim:
  \<open>TrimSpace command_execution_line = command_execution_line\<close>
  \<open>TrimSpace (command_execution_line @ ''\<newline>'') = command_execution_line\<close>
  by (simp_all add: command_execution_line_def TrimSpace_def space_len_def space_len_back_def byte_def)

lemma command_execution_html:
  \<open>formatCommandExecutionHTML [] ''line1\<newline>line2\<newline>''
     = ''<b>command_execution</b>\<newline><pre>line1\<newline>line2</pre>\<newline>''\<close>
  by (simp add: formatCommandExecutionHTML_def TrimSpace_def space_len_def space_len_back_def
      byte_def truncateCommandForDisplay_def commandTruncateLimit_def EscapeString_def)

lemma command_execution_brace: \<open>HasPrefix command_execution_line ''{''\<close>
  by (simp add: HasPrefix_def command_execution_line_def)

lemma command_execution_event:
  \<open>parseCodexJSONEvent command_execution_line
     = Some ([], ''<b>command_execution</b>\<newline><pre>line1\<newline>line2</pre>\<newline>'', ''html'')\<close>
  \<open>parseCodexJSONEvent (command_execution_line @ ''\<newline>'')
     = Some ([], ''<b>command_execution</b>\<newline><pre>line1\<newline>line2</pre>\<newline>'', ''html'')\<close>
  by (simp_all add: parseCodexJSONEvent_def command_execution_trim command_execution_brace
      command_execution_parse extractCodexSessionID_def extractCodexEventText_def
      zero_codexJSONEvent_def command_execution_html HasSuffix_def Let_def TrimSpace_Nil)

lemma no_thread_id:
  \<open>extractSessionIDByRegex ''<b>command_execution</b>\<newline><pre>line1\<newline>line2</pre>\<newline>''
      codexThreadIDRegex = []\<close>
  by (simp add: extractSessionIDByRegex_def all_matches.simps codexThreadIDRegex_def
      lower_ascii_def byte_def chr_of_byte_def)

text \<open>
  C8: for the Codex stdout line
  \<open>{"type":"item.completed","item":{"type":"command_execution","aggregated_output":"line1\nline2\n"}}\<close>
  (with or without the newline the Runner appends), \<open>HandleEvent\<close> rewrites the
  chunk to \<open><b>command_execution</b>\<close>, newline, \<open><pre>line1\<close>, newline,
  \<open>line2</pre>\<close>, newline, sets the format to \<open>html\<close>, and returns no session id.
\<close>

theorem C8_codex_command_execution:
  \<open>Codex_HandleEvent (ev\<lparr>ev_Chunk := command_execution_line\<rparr>)
     = ([], ev\<lparr>ev_Chunk := ''<b>command_execution</b>'' @ ''\<newline>'' @ ''<pre>line1'' @ ''\<newline>''
                              @ ''line2</pre>'' @ ''\<newline>'',
               ev_Format := ''html''\<rparr>)
   \<and> Codex_HandleEvent (ev\<lparr>ev_Chunk := command_execution_line @ ''\<newline>''\<rparr>)
     = ([], ev\<lparr>ev_Chunk := ''<b>command_execution</b>'' @ ''\<newline>'' @ ''<pre>line1'' @ ''\<newline>''
                              @ ''line2</pre>'' @ ''\<newline>'',
               ev_Format := ''html''\<rparr>)
   \<and> command_execution_line
     = ''{"type":"item.completed","item":{"type":"command_execution","aggregated_output":"line1''
       @ [CHR 0x5C] @ ''nline2'' @ [CHR 0x5C] @ ''n"}}''\<close>
  by (simp add: Codex_HandleEvent_def command_execution_event no_thread_id)
    (simp add: command_execution_line_def)

section \<open>Runner: the events of one run\<close>

lemma get_set_reader [simp]:
  "get_reader r (set_reader r' rd s) = (if r = r' then rd else get_reader r s)"
  "rs_sink (set_reader r' rd s) = rs_sink s"
  "rs_seq (set_reader r' rd s) = rs_seq s"
  "rs_final (set_reader r' rd s) = rs_final s"
  by (cases r; cases r'; simp add: get_reader_def set_reader_def)+

lemma get_reader_upd [simp]:
  "get_reader r (s\<lparr>rs_seq := n\<rparr>) = get_reader r s"
  "get_reader r (s\<lparr>rs_sink := es\<rparr>) = get_reader r s"
  "get_reader r (s\<lparr>rs_final := b\<rparr>) = get_reader r s"
  by (cases r; simp add: get_reader_def)+

lemma step_cases:
  assumes "step jobID waitOK a s = Some s'"
  obtains
    (scan_eof) r t where "a = Scan r t" "\<not> rd_done (get_reader r s)"
      "rd_pending (get_reader r s) = None" "\<not> rs_final s" "rd_rest (get_reader r s) = []"
      "s' = set_reader r ((get_reader r s)\<lparr>rd_done := True\<rparr>) s"
  | (scan_line) r t line rest where "a = Scan r t" "\<not> rd_done (get_reader r s)"
      "rd_pending (get_reader r s) = None" "\<not> rs_final s" "rd_rest (get_reader r s) = line # rest"
      "s' = set_reader r ((get_reader r s)\<lparr>rd_rest := rest,
              rd_pending := Some (line_event jobID (rs_seq s + 1) line r t)\<rparr>)
            (s\<lparr>rs_seq := rs_seq s + 1\<rparr>)"
  | (deliver) r ev where "a = Deliver r" "rd_pending (get_reader r s) = Some ev"
      "s' = set_reader r ((get_reader r s)\<lparr>rd_pending := None\<rparr>) (s\<lparr>rs_sink := rs_sink s @ [ev]\<rparr>)"
  | (stop) r where "a = Stop r" "\<not> rd_done (get_reader r s)"
      "rd_pending (get_reader r s) = None" "\<not> rs_final s"
      "s' = set_reader r ((get_reader r s)\<lparr>rd_rest := [], rd_done := True\<rparr>) s"
  | (finish) t where "a = Finish t" "rd_done (get_reader Stdout s)" "rd_done (get_reader Stderr s)"
      "\<not> rs_final s"
      "s' = s\<lparr>rs_seq := rs_seq s + 1,
              rs_sink := rs_sink s @ [final_event jobID (rs_seq s + 1) waitOK t],
              rs_final := True\<rparr>"
proof (cases a)
  case (Scan r t)
  show ?thesis
  proof (cases "rd_rest (get_reader r s)")
    case Nil
    with Scan assms scan_eof [of r t] show ?thesis
      by (simp add: step_def Let_def split: if_splits)
  next
    case (Cons line rest)
    with Scan assms scan_line [of r t line rest] show ?thesis
      by (simp add: step_def Let_def split: if_splits)
  qed
next
  case (Deliver r)
  with assms deliver [of r] show ?thesis
    by (simp add: step_def Let_def split: option.splits)
next
  case (Stop r)
  with assms stop [of r] show ?thesis
    by (simp add: step_def Let_def split: if_splits)
next
  case (Finish t)
  with assms finish [of t] show ?thesis
    by (simp add: step_def Let_def get_reader_def split: if_splits)
qed

definition pend :: "reader \<Rightarrow> StreamEvent list" where
  "pend rd = (case rd_pending rd of None \<Rightarrow> [] | Some e \<Rightarrow> [e])"

text \<open>The events built so far: delivered to the sink, or still in a reader's hands.\<close>

definition built :: "run_state \<Rightarrow> StreamEvent multiset" where
  "built s = mset (rs_sink s) + mset (pend (get_reader Stdout s)) + mset (pend (get_reader Stderr s))"

lemma pend_simps [simp]:
  "pend (rd\<lparr>rd_done := b\<rparr>) = pend rd"
  "pend (rd\<lparr>rd_rest := ls\<rparr>) = pend rd"
  "pend (rd\<lparr>rd_pending := None\<rparr>) = []"
  "pend (rd\<lparr>rd_pending := Some e\<rparr>) = [e]"
  by (simp_all add: pend_def)

lemma pend_None: "rd_pending rd = None \<Longrightarrow> pend rd = []"
  and pend_Some: "rd_pending rd = Some e \<Longrightarrow> pend rd = [e]"
  by (simp_all add: pend_def)

lemma built_step:
  assumes "step jobID waitOK a s = Some s'"
  shows "built s' = built s
       \<or> (\<exists>r t line. \<not> rs_final s \<and> rs_seq s' = rs_seq s + 1
             \<and> built s' = built s + {#line_event jobID (rs_seq s + 1) line r t#})
       \<or> (\<exists>t. rs_seq s' = rs_seq s + 1
             \<and> built s' = built s + {#final_event jobID (rs_seq s + 1) waitOK t#})"
  using assms
proof (cases rule: step_cases)
  case (scan_eof r t)
  then have "built s' = built s" by (cases r) (simp_all add: built_def)
  then show ?thesis by simp
next
  case (scan_line r t line rest)
  then have "built s' = built s + {#line_event jobID (rs_seq s + 1) line r t#}"
    by (cases r) (simp_all add: built_def pend_None)
  with scan_line show ?thesis by auto
next
  case (deliver r ev)
  then have "built s' = built s" by (cases r) (simp_all add: built_def pend_Some)
  then show ?thesis by simp
next
  case (stop r)
  then have "built s' = built s" by (cases r) (simp_all add: built_def)
  then show ?thesis by simp
next
  case (finish t)
  then have "built s' = built s + {#final_event jobID (rs_seq s + 1) waitOK t#}"
    by (simp add: built_def)
  with finish show ?thesis by auto
qed

lemma seq_step:
  assumes "step jobID waitOK a s = Some s'"
  shows "rs_seq s' = rs_seq s \<and> built s' = built s
       \<or> rs_seq s' = rs_seq s + 1 \<and> (\<exists>e. ev_Seq e = rs_seq s + 1 \<and> built s' = built s + {#e#})"
  using assms
proof (cases rule: step_cases)
  case (scan_eof r t)
  then show ?thesis by (cases r) (simp_all add: built_def)
next
  case (scan_line r t line rest)
  then have "built s' = built s + {#line_event jobID (rs_seq s + 1) line r t#}"
    by (cases r) (simp_all add: built_def pend_None)
  moreover have "ev_Seq (line_event jobID (rs_seq s + 1) line r t) = rs_seq s + 1"
    by (simp add: line_event_def)
  moreover have "rs_seq s' = rs_seq s + 1" using scan_line by simp
  ultimately show ?thesis by blast
next
  case (deliver r ev)
  then show ?thesis by (cases r) (simp_all add: built_def pend_Some)
next
  case (stop r)
  then show ?thesis by (cases r) (simp_all add: built_def)
next
  case (finish t)
  then have "built s' = built s + {#final_event jobID (rs_seq s + 1) waitOK t#}"
    by (simp add: built_def)
  moreover have "ev_Seq (final_event jobID (rs_seq s + 1) waitOK t) = rs_seq s + 1"
    by (simp add: final_event_def)
  moreover have "rs_seq s' = rs_seq s + 1" using finish by simp
  ultimately show ?thesis by blast
qed

definition seq_inv :: "run_state \<Rightarrow> bool" where
  "seq_inv s = (0 \<le> rs_seq s \<and> image_mset ev_Seq (built s) = mset [1 .. rs_seq s])"

lemma mset_upto_Suc: "0 \<le> n \<Longrightarrow> mset [1 .. n + 1] = mset [1 .. (n::int)] + {#n + 1#}"
  by (simp add: upto_rec2)

lemma seq_inv_step:
  assumes "seq_inv s" "step jobID waitOK a s = Some s'"
  shows "seq_inv s'"
  using seq_step [OF assms(2)] assms(1)
  by (auto simp: seq_inv_def mset_upto_Suc)

lemma seq_inv_started: "seq_inv (started outs errs)"
  by (simp add: seq_inv_def started_def built_def get_reader_def pend_def)

definition done_inv :: "run_state \<Rightarrow> bool" where
  "done_inv s = (\<forall>r. rd_done (get_reader r s) \<longrightarrow> rd_pending (get_reader r s) = None)"

definition flag_inv :: "bool \<Rightarrow> run_state \<Rightarrow> bool" where
  "flag_inv waitOK s =
     (if rs_final s
      then rd_done (get_reader Stdout s) \<and> rd_done (get_reader Stderr s) \<and> rs_sink s \<noteq> []
         \<and> ev_IsFinal (last (rs_sink s)) \<and> ev_Seq (last (rs_sink s)) = rs_seq s
         \<and> ev_Stream (last (rs_sink s)) = ''meta''
         \<and> ev_ExitCode (last (rs_sink s)) = Some (if waitOK then 0 else 1)
         \<and> (\<forall>e \<in> set (butlast (rs_sink s)). \<not> ev_IsFinal e)
      else (\<forall>e. e \<in># built s \<longrightarrow> \<not> ev_IsFinal e))"

lemma done_inv_step:
  assumes "done_inv s" "step jobID waitOK a s = Some s'"
  shows "done_inv s'"
  using assms(2)
proof (cases rule: step_cases)
  case (scan_eof r t)
  with assms(1) show ?thesis by (simp add: done_inv_def)
next
  case (scan_line r t line rest)
  with assms(1) show ?thesis by (simp add: done_inv_def)
next
  case (deliver r ev)
  with assms(1) show ?thesis by (simp add: done_inv_def)
next
  case (stop r)
  with assms(1) show ?thesis by (simp add: done_inv_def)
next
  case (finish t)
  with assms(1) show ?thesis by (simp add: done_inv_def)
qed

lemma final_no_step:
  assumes "done_inv s" "flag_inv waitOK s" "rs_final s"
  shows "step jobID waitOK a s = None"
proof (rule ccontr)
  assume "step jobID waitOK a s \<noteq> None"
  then obtain s' where "step jobID waitOK a s = Some s'" by auto
  then show False
  proof (cases rule: step_cases)
    case (deliver r ev)
    from assms(2,3) have "rd_done (get_reader r s)"
      by (cases r) (simp_all add: flag_inv_def)
    with assms(1) deliver show False by (simp add: done_inv_def)
  qed (use assms(3) in simp_all)
qed

lemma flag_inv_step:
  assumes "done_inv s" "flag_inv waitOK s" "step jobID waitOK a s = Some s'"
  shows "flag_inv waitOK s'"
proof -
  have nf: "\<not> rs_final s"
    using final_no_step [OF assms(1,2)] assms(3) by fastforce
  with assms(2) have clean: "\<forall>e. e \<in># built s \<longrightarrow> \<not> ev_IsFinal e"
    by (simp add: flag_inv_def)
  from assms(3) show ?thesis
  proof (cases rule: step_cases)
    case (scan_eof r t)
    then have "built s' = built s" by (cases r) (simp_all add: built_def)
    with scan_eof nf clean show ?thesis by (simp add: flag_inv_def)
  next
    case (scan_line r t line rest)
    then have "built s' = built s + {#line_event jobID (rs_seq s + 1) line r t#}"
      by (cases r) (simp_all add: built_def pend_None)
    with scan_line nf clean show ?thesis by (auto simp: flag_inv_def line_event_def)
  next
    case (deliver r ev)
    then have "built s' = built s" by (cases r) (simp_all add: built_def pend_Some)
    with deliver nf clean show ?thesis by (simp add: flag_inv_def)
  next
    case (stop r)
    then have "built s' = built s" by (cases r) (simp_all add: built_def)
    with stop nf clean show ?thesis by (simp add: flag_inv_def)
  next
    case (finish t)
    from clean have "\<forall>e \<in> set (rs_sink s). \<not> ev_IsFinal e" by (simp add: built_def)
    with finish show ?thesis by (simp add: flag_inv_def final_event_def)
  qed
qed

definition run_inv :: "bool \<Rightarrow> run_state \<Rightarrow> bool" where
  "run_inv waitOK s = (seq_inv s \<and> done_inv s \<and> flag_inv waitOK s)"

lemma run_inv_started: "run_inv waitOK (started outs errs)"
proof -
  have "done_inv (started outs errs)"
    by (simp add: done_inv_def started_def get_reader_def split: stream_id.split)
  moreover have "flag_inv waitOK (started outs errs)"
    by (simp add: flag_inv_def started_def built_def get_reader_def pend_def)
  ultimately show ?thesis by (simp add: run_inv_def seq_inv_started)
qed

lemma run_inv_step:
  "run_inv waitOK s \<Longrightarrow> step jobID waitOK a s = Some s' \<Longrightarrow> run_inv waitOK s'"
  unfolding run_inv_def using seq_inv_step done_inv_step flag_inv_step by blast

lemma run_inv_run:
  "run_inv waitOK s \<Longrightarrow> run jobID waitOK acts s = Some s' \<Longrightarrow> run_inv waitOK s'"
proof (induction acts arbitrary: s)
  case Nil
  then show ?case by simp
next
  case (Cons a acts)
  then obtain s1 where 1: "step jobID waitOK a s = Some s1"
      and 2: "run jobID waitOK acts s1 = Some s'"
    by (auto split: option.splits)
  from Cons.IH [OF run_inv_step [OF Cons.prems(1) 1] 2] show ?case .
qed

definition reader_size :: "reader \<Rightarrow> nat" where
  "reader_size rd =
     2 * length (rd_rest rd) + (if rd_pending rd = None then 0 else 1) + (if rd_done rd then 0 else 1)"

definition run_size :: "run_state \<Rightarrow> nat" where
  "run_size s = reader_size (get_reader Stdout s) + reader_size (get_reader Stderr s)
     + (if rs_final s then 0 else 1)"

lemma run_size_step:
  assumes "step jobID waitOK a s = Some s'"
  shows "run_size s' < run_size s"
  using assms
proof (cases rule: step_cases)
  case (scan_eof r t)
  then show ?thesis by (cases r) (simp_all add: run_size_def reader_size_def)
next
  case (scan_line r t line rest)
  then show ?thesis by (cases r) (simp_all add: run_size_def reader_size_def)
next
  case (deliver r ev)
  then show ?thesis by (cases r) (simp_all add: run_size_def reader_size_def)
next
  case (stop r)
  then show ?thesis by (cases r) (simp_all add: run_size_def reader_size_def)
next
  case (finish t)
  then show ?thesis by (simp add: run_size_def reader_size_def)
qed

lemma run_size_run:
  "run jobID waitOK acts s = Some s' \<Longrightarrow> length acts + run_size s' \<le> run_size s"
proof (induction acts arbitrary: s)
  case Nil
  then show ?case by simp
next
  case (Cons a acts)
  then obtain s1 where 1: "step jobID waitOK a s = Some s1"
      and 2: "run jobID waitOK acts s1 = Some s'"
    by (auto split: option.splits)
  from Cons.IH [OF 2] run_size_step [OF 1] show ?case by simp
qed

lemma run_size_started: "run_size (started outs errs) = 2 * (length outs + length errs) + 3"
  by (simp add: run_size_def reader_size_def started_def get_reader_def)

lemma run_progress:
  assumes "\<not> rs_final s"
  shows "\<exists>a s'. step jobID waitOK a s = Some s'"
proof (cases "rd_done (rs_out s) \<and> rd_done (rs_err s)")
  case True
  with assms have "step jobID waitOK (Finish 0) s \<noteq> None"
    by (simp add: step_def Let_def)
  then show ?thesis by blast
next
  case False
  then obtain r where r: "\<not> rd_done (get_reader r s)"
    by (metis get_reader_def stream_id.simps(3,4))
  show ?thesis
  proof (cases "rd_pending (get_reader r s)")
    case None
    with r assms have "step jobID waitOK (Stop r) s \<noteq> None"
      by (simp add: step_def Let_def)
    then show ?thesis by blast
  next
    case (Some ev)
    then have "step jobID waitOK (Deliver r) s \<noteq> None"
      by (simp add: step_def Let_def)
    then show ?thesis by blast
  qed
qed

lemma final_sink:
  assumes "run_inv waitOK s" "rs_final s"
  shows "rs_sink s \<noteq> []"
    and "mset (map ev_Seq (rs_sink s)) = mset [1 .. int (length (rs_sink s))]"
    and "filter ev_IsFinal (rs_sink s) = [last (rs_sink s)]"
    and "ev_Seq (last (rs_sink s)) = int (length (rs_sink s))"
    and "ev_Stream (last (rs_sink s)) = ''meta''"
    and "ev_ExitCode (last (rs_sink s)) = Some (if waitOK then 0 else 1)"
    and "rd_done (rs_out s) \<and> rd_pending (rs_out s) = None"
    and "rd_done (rs_err s) \<and> rd_pending (rs_err s) = None"
proof -
  from assms have f: "rd_done (get_reader Stdout s)" "rd_done (get_reader Stderr s)"
      "rs_sink s \<noteq> []" "ev_IsFinal (last (rs_sink s))" "ev_Seq (last (rs_sink s)) = rs_seq s"
      "ev_Stream (last (rs_sink s)) = ''meta''"
      "ev_ExitCode (last (rs_sink s)) = Some (if waitOK then 0 else 1)"
      "\<forall>e \<in> set (butlast (rs_sink s)). \<not> ev_IsFinal e"
    by (simp_all add: run_inv_def flag_inv_def)
  from assms(1) have d: "done_inv s" and q: "seq_inv s" by (simp_all add: run_inv_def)
  from d f(1,2) have p: "rd_pending (get_reader Stdout s) = None"
      "rd_pending (get_reader Stderr s) = None"
    by (simp_all add: done_inv_def)
  then have "built s = mset (rs_sink s)" by (simp add: built_def pend_None)
  with q have m: "mset (map ev_Seq (rs_sink s)) = mset [1 .. rs_seq s]" and nn: "0 \<le> rs_seq s"
    by (simp_all add: seq_inv_def)
  from m have "length (map ev_Seq (rs_sink s)) = length [1 .. rs_seq s]"
    by (rule mset_eq_length)
  with nn have len: "int (length (rs_sink s)) = rs_seq s" by simp
  show "rs_sink s \<noteq> []" by (rule f(3))
  show "mset (map ev_Seq (rs_sink s)) = mset [1 .. int (length (rs_sink s))]"
    using m len by simp
  show "ev_Seq (last (rs_sink s)) = int (length (rs_sink s))" using f(5) len by simp
  show "ev_Stream (last (rs_sink s)) = ''meta''" by (rule f(6))
  show "ev_ExitCode (last (rs_sink s)) = Some (if waitOK then 0 else 1)" by (rule f(7))
  show "rd_done (rs_out s) \<and> rd_pending (rs_out s) = None"
    using f(1) p(1) by (simp add: get_reader_def)
  show "rd_done (rs_err s) \<and> rd_pending (rs_err s) = None"
    using f(2) p(2) by (simp add: get_reader_def)
  have "rs_sink s = butlast (rs_sink s) @ [last (rs_sink s)]" using f(3) by simp
  then have "filter ev_IsFinal (rs_sink s)
      = filter ev_IsFinal (butlast (rs_sink s)) @ filter ev_IsFinal [last (rs_sink s)]"
    by (metis filter_append)
  with f(4,8) show "filter ev_IsFinal (rs_sink s) = [last (rs_sink s)]" by simp
qed

text \<open>
  C2: take any schedule \<open>acts\<close> that \<open>RunJob\<close> can follow after the child was started,
  for any lines on the two streams and either outcome of \<open>Wait\<close>. If the terminal event
  has been emitted, the events delivered to the sink carry exactly the sequence numbers
  \<open>1..N\<close>, each once, where \<open>N\<close> is their number; exactly one of them is final; it is
  the last one delivered, has sequence number \<open>N\<close>, stream \<open>meta\<close> and exit code 0 if
  \<open>Wait\<close> succeeded and 1 otherwise; both readers are done with nothing left in their
  hands; and no further action is possible. If it has not been emitted, some action is
  possible; and no schedule is longer than \<open>2 * (lines) + 3\<close>, so every run reaches
  the terminal event.
\<close>

theorem C2_RunJob_events:
  assumes "run jobID waitOK acts (started outs errs) = Some s"
  shows "(rs_final s \<longrightarrow>
            rs_sink s \<noteq> []
          \<and> set (map ev_Seq (rs_sink s)) = {1 .. int (length (rs_sink s))}
          \<and> distinct (map ev_Seq (rs_sink s))
          \<and> filter ev_IsFinal (rs_sink s) = [last (rs_sink s)]
          \<and> ev_Seq (last (rs_sink s)) = int (length (rs_sink s))
          \<and> ev_Stream (last (rs_sink s)) = ''meta''
          \<and> ev_ExitCode (last (rs_sink s)) = Some (if waitOK then 0 else 1)
          \<and> rd_done (rs_out s) \<and> rd_pending (rs_out s) = None
          \<and> rd_done (rs_err s) \<and> rd_pending (rs_err s) = None
          \<and> (\<forall>a. step jobID waitOK a s = None))
       \<and> (\<not> rs_final s \<longrightarrow> (\<exists>a s'. step jobID waitOK a s = Some s'))
       \<and> length acts \<le> 2 * (length outs + length errs) + 3"
proof -
  have inv: "run_inv waitOK s"
    by (rule run_inv_run [OF run_inv_started assms])
  have bound: "length acts \<le> 2 * (length outs + length errs) + 3"
    using run_size_run [OF assms] by (simp add: run_size_started)
  have fin: "rs_final s \<longrightarrow>
            rs_sink s \<noteq> []
          \<and> set (map ev_Seq (rs_sink s)) = {1 .. int (length (rs_sink s))}
          \<and> distinct (map ev_Seq (rs_sink s))
          \<and> filter ev_IsFinal (rs_sink s) = [last (rs_sink s)]
          \<and> ev_Seq (last (rs_sink s)) = int (length (rs_sink s))
          \<and> ev_Stream (last (rs_sink s)) = ''meta''
          \<and> ev_ExitCode (last (rs_sink s)) = Some (if waitOK then 0 else 1)
          \<and> rd_done (rs_out s) \<and> rd_pending (rs_out s) = None
          \<and> rd_done (rs_err s) \<and> rd_pending (rs_err s) = None
          \<and> (\<forall>a. step jobID waitOK a s = None)"
  proof
    assume f: "rs_final s"
    note fs = final_sink [OF inv f]
    from fs(2) have "set (map ev_Seq (rs_sink s)) = set [1 .. int (length (rs_sink s))]"
      by (rule mset_eq_setD)
    then have st: "set (map ev_Seq (rs_sink s)) = {1 .. int (length (rs_sink s))}" by simp
    have "distinct [1 .. int (length (rs_sink s))]" by simp
    with fs(2) have di: "distinct (map ev_Seq (rs_sink s))"
      by (metis mset_eq_imp_distinct_iff)
    have ns: "\<forall>a. step jobID waitOK a s = None"
      using final_no_step [of s waitOK] inv f by (simp add: run_inv_def)
    from fs st di ns show "rs_sink s \<noteq> []
          \<and> set (map ev_Seq (rs_sink s)) = {1 .. int (length (rs_sink s))}
          \<and> distinct (map ev_Seq (rs_sink s))
          \<and> filter ev_IsFinal (rs_sink s) = [last (rs_sink s)]
          \<and> ev_Seq (last (rs_sink s)) = int (length (rs_sink s))
          \<and> ev_Stream (last (rs_sink s)) = ''meta''
          \<and> ev_ExitCode (last (rs_sink s)) = Some (if waitOK then 0 else 1)
          \<and> rd_done (rs_out s) \<and> rd_pending (rs_out s) = None
          \<and> rd_done (rs_err s) \<and> rd_pending (rs_err s) = None
          \<and> (\<forall>a. step jobID waitOK a s = None)"
      by blast
  qed
  from fin run_progress bound show ?thesis by blast
qed

definition two_line_schedule :: "action list" where
  "two_line_schedule =
     [Scan Stdout 0, Scan Stderr 1, Deliver Stderr, Deliver Stdout,
      Scan Stderr 2, Scan Stdout 3, Finish 4]"

lemma two_line_run:
  "run ''j'' False two_line_schedule (started [''a''] [''b'']) =
     Some \<lparr>rs_seq = 3,
           rs_out = \<lparr>rd_rest = [], rd_pending = None, rd_done = True\<rparr>,
           rs_err = \<lparr>rd_rest = [], rd_pending = None, rd_done = True\<rparr>,
           rs_sink = [line_event ''j'' 2 ''b'' Stderr 1, line_event ''j'' 1 ''a'' Stdout 0,
                      final_event ''j'' 3 False 4],
           rs_final = True\<rparr>"
  by (simp add: two_line_schedule_def started_def step_def get_reader_def set_reader_def Let_def)

theorem C2_RunJob_events_witness:
  "run ''j'' False two_line_schedule (started [''a''] [''b'']) =
     Some \<lparr>rs_seq = 3,
           rs_out = \<lparr>rd_rest = [], rd_pending = None, rd_done = True\<rparr>,
           rs_err = \<lparr>rd_rest = [], rd_pending = None, rd_done = True\<rparr>,
           rs_sink = [line_event ''j'' 2 ''b'' Stderr 1, line_event ''j'' 1 ''a'' Stdout 0,
                      final_event ''j'' 3 False 4],
           rs_final = True\<rparr>
   \<and> map ev_Seq [line_event ''j'' 2 ''b'' Stderr 1, line_event ''j'' 1 ''a'' Stdout 0,
                  final_event ''j'' 3 False 4] = [2, 1, 3]
   \<and> ev_ExitCode (final_event ''j'' 3 False 4) = Some 1"
  using C2_RunJob_events [OF two_line_run] two_line_run
  by (simp add: line_event_def final_event_def)

section \<open>Session permission mode: round trip through the store\<close>

definition ctx_empty :: string where \<open>ctx_empty = ''{}''\<close>
definition ctx_sandbox :: string where \<open>ctx_sandbox = ''{"mode":"sandbox"}''\<close>
definition ctx_full :: string where \<open>ctx_full = ''{"mode":"full-access"}''\<close>

definition ctx_of_mode :: "string \<Rightarrow> string" where
  "ctx_of_mode mode = (if mode = ''full-access'' then ctx_full else ctx_sandbox)"

lemmas eval_json = parse_json_def skip_ws_def is_ws_def byte_def unescape_def
  chr_of_byte_def TrimSpace_def space_len_def space_len_back_def marshal_string_def
  dec_string_def

lemma set_context_sandbox:
  \<open>set_context_mode [] ''sandbox'' = Inr ctx_sandbox\<close>
  \<open>set_context_mode ctx_empty ''sandbox'' = Inr ctx_sandbox\<close>
  \<open>set_context_mode ctx_sandbox ''sandbox'' = Inr ctx_sandbox\<close>
  \<open>set_context_mode ctx_full ''sandbox'' = Inr ctx_sandbox\<close>
  by (simp_all add: set_context_mode_def ctx_empty_def ctx_sandbox_def ctx_full_def eval_json)

lemma set_context_full:
  \<open>set_context_mode [] ''full-access'' = Inr ctx_full\<close>
  \<open>set_context_mode ctx_empty ''full-access'' = Inr ctx_full\<close>
  \<open>set_context_mode ctx_sandbox ''full-access'' = Inr ctx_full\<close>
  \<open>set_context_mode ctx_full ''full-access'' = Inr ctx_full\<close>
  by (simp_all add: set_context_mode_def ctx_empty_def ctx_sandbox_def ctx_full_def eval_json)

lemma read_context:
  \<open>TrimSpace ctx_empty \<noteq> []\<close> \<open>Unmarshal_mode ctx_empty = Some []\<close>
  \<open>TrimSpace ctx_sandbox \<noteq> []\<close> \<open>Unmarshal_mode ctx_sandbox = Some ''sandbox''\<close>
  \<open>TrimSpace ctx_full \<noteq> []\<close> \<open>Unmarshal_mode ctx_full = Some ''full-access''\<close>
  by (simp_all add: Unmarshal_mode_def ctx_empty_def ctx_sandbox_def ctx_full_def eval_json)

text \<open>
  The stores the program can produce: from the migrated empty database, by the store's
  operations (successful or not), with the driver going down or coming back at any time.
\<close>

inductive reachable :: "Store \<Rightarrow> bool" where
  init: "reachable NewSQLiteStore"
| driver: "reachable st \<Longrightarrow> reachable (st\<lparr>st_down := b\<rparr>)"
| upsert_session: "reachable st \<Longrightarrow> reachable (snd (UpsertSession st key workdir expiresAt now))"
| set_mode: "reachable st \<Longrightarrow> reachable (snd (SetSessionPermissionMode st key mode expiresAt now))"
| create_job: "reachable st \<Longrightarrow> reachable (snd (CreateJob st job))"
| update_job:
    "reachable st \<Longrightarrow> reachable (snd (UpdateJobStatus st jobID status startedAt finishedAt errMsg))"
| append_event: "reachable st \<Longrightarrow> reachable (snd (AppendEvent st ev))"
| upsert_executor_session:
    "reachable st \<Longrightarrow> reachable (snd (UpsertExecutorSession st executor key workdir sessionID now))"

definition ctx_inv :: "Store \<Rightarrow> bool" where
  "ctx_inv st =
     (\<forall>k row. st_sessions st k = Some row \<longrightarrow>
        sr_context_json row = ctx_empty \<or> sr_context_json row = ctx_sandbox
        \<or> sr_context_json row = ctx_full)"

lemma Normalize_cases:
  "NormalizePermissionMode mode = ''sandbox'' \<or> NormalizePermissionMode mode = ''full-access''"
  by (simp add: NormalizePermissionMode_def PermissionModeSandbox_def PermissionModeFullAccess_def)

lemma Normalize_fix:
  "NormalizePermissionMode ''sandbox'' = ''sandbox''"
  "NormalizePermissionMode ''full-access'' = ''full-access''"
  "NormalizePermissionMode [] = ''sandbox''"
  by (simp_all add: NormalizePermissionMode_def PermissionModeSandbox_def PermissionModeFullAccess_def)

lemma set_context_known:
  assumes "c = [] \<or> c = ctx_empty \<or> c = ctx_sandbox \<or> c = ctx_full"
    and "mode = ''sandbox'' \<or> mode = ''full-access''"
  shows "set_context_mode c mode = Inr (ctx_of_mode mode)"
  using assms by (auto simp: set_context_sandbox set_context_full ctx_of_mode_def)

lemma SetSessionPermissionMode_known:
  assumes "ctx_inv st" "\<not> st_down st"
  shows "\<exists>row. SetSessionPermissionMode st key mode expiresAt now
           = (None, st\<lparr>st_sessions := (st_sessions st)(SessionKey_String key \<mapsto> row)\<rparr>)
         \<and> sr_context_json row = ctx_of_mode (NormalizePermissionMode mode)"
proof -
  let ?mode = "NormalizePermissionMode mode"
  have m: "?mode = ''sandbox'' \<or> ?mode = ''full-access''" by (rule Normalize_cases)
  show ?thesis
  proof (cases "st_sessions st (SessionKey_String key)")
    case None
    have "set_context_mode [] ?mode = Inr (ctx_of_mode ?mode)"
      using m by (intro set_context_known) simp_all
    with None assms(2) show ?thesis
      by (intro exI [where x = "\<lparr>sr_platform = Platform key, sr_chat_id = ChatID key,
            sr_thread_id = ThreadID key, sr_workdir = [],
            sr_context_json = ctx_of_mode ?mode, sr_updated_at = now,
            sr_expires_at = Some expiresAt\<rparr>"])
        (simp add: SetSessionPermissionMode_def Let_def)
  next
    case (Some row)
    with assms(1) have "sr_context_json row = ctx_empty \<or> sr_context_json row = ctx_sandbox
        \<or> sr_context_json row = ctx_full"
      by (simp add: ctx_inv_def)
    then have "set_context_mode (sr_context_json row) ?mode = Inr (ctx_of_mode ?mode)"
      using m by (intro set_context_known) auto
    with Some assms(2) show ?thesis
      by (intro exI [where x = "row\<lparr>sr_context_json := ctx_of_mode ?mode, sr_updated_at := now,
            sr_expires_at := Some expiresAt\<rparr>"])
        (simp add: SetSessionPermissionMode_def Let_def)
  qed
qed

lemma ctx_of_mode_known:
  "ctx_of_mode mode = ctx_sandbox \<or> ctx_of_mode mode = ctx_full"
  by (simp add: ctx_of_mode_def)

lemma ctx_inv_set_mode:
  assumes "ctx_inv st"
  shows "ctx_inv (snd (SetSessionPermissionMode st key mode expiresAt now))"
proof (cases "st_down st")
  case True
  with assms show ?thesis by (simp add: SetSessionPermissionMode_def Let_def)
next
  case False
  from SetSessionPermissionMode_known [OF assms False, of key mode expiresAt now]
  obtain row where "SetSessionPermissionMode st key mode expiresAt now
           = (None, st\<lparr>st_sessions := (st_sessions st)(SessionKey_String key \<mapsto> row)\<rparr>)"
     and "sr_context_json row = ctx_of_mode (NormalizePermissionMode mode)" by blast
  with assms ctx_of_mode_known [of "NormalizePermissionMode mode"] show ?thesis
    by (auto simp: ctx_inv_def)
qed

lemma ctx_inv_upsert_session:
  assumes "ctx_inv st"
  shows "ctx_inv (snd (UpsertSession st key workdir expiresAt now))"
  using assms
  by (cases "st_sessions st (SessionKey_String key)")
    (auto simp: UpsertSession_def ctx_inv_def ctx_empty_def)

lemma reachable_ctx_inv: "reachable st \<Longrightarrow> ctx_inv st"
proof (induction rule: reachable.induct)
  case init
  show ?case by (simp add: ctx_inv_def NewSQLiteStore_def)
next
  case (driver st b)
  then show ?case by (simp add: ctx_inv_def)
next
  case (upsert_session st key workdir expiresAt now)
  from upsert_session.IH show ?case by (rule ctx_inv_upsert_session)
next
  case (set_mode st key mode expiresAt now)
  from set_mode.IH show ?case by (rule ctx_inv_set_mode)
next
  case (create_job st job)
  then show ?case by (simp add: ctx_inv_def CreateJob_def)
next
  case (update_job st jobID status startedAt finishedAt errMsg)
  then show ?case by (simp add: ctx_inv_def UpdateJobStatus_def split: option.split)
next
  case (append_event st ev)
  then show ?case by (simp add: ctx_inv_def AppendEvent_def)
next
  case (upsert_executor_session st executor key workdir sessionID now)
  then show ?case by (simp add: ctx_inv_def UpsertExecutorSession_def)
qed

text \<open>A context that is blank, or a JSON object none of whose keys names the \<open>mode\<close> field.\<close>

definition no_mode_field :: "string \<Rightarrow> bool" where
  "no_mode_field ctx =
     (TrimSpace ctx = []
      \<or> (case parse_json ctx of
            Some (JObject ms) \<Rightarrow> list_all (\<lambda>m. fold_key (fst m) \<noteq> ''mode'') ms
          | _ \<Rightarrow> False))"

lemma decode_no_mode:
  "list_all (\<lambda>m. fold_key (fst m) \<noteq> ''mode'') ms \<Longrightarrow>
   decode_fields (\<lambda>k raw v mode. if k = ''mode'' then dec_string v mode else Some mode) ms a = Some a"
  by (induction ms arbitrary: a) auto

lemma read_no_mode_field:
  assumes "no_mode_field ctx" "TrimSpace ctx \<noteq> []"
  shows "Unmarshal_mode ctx = Some []"
proof -
  from assms obtain ms where "parse_json ctx = Some (JObject ms)"
      and "list_all (\<lambda>m. fold_key (fst m) \<noteq> ''mode'') ms"
    by (auto simp: no_mode_field_def split: option.splits json.splits)
  then show ?thesis by (simp add: Unmarshal_mode_def decode_no_mode)
qed

lemma PermissionMode_fresh:
  "fst (PermissionMode (NewManager r) st key)
     = (case SessionPermissionMode st key of
          Inl e \<Rightarrow> Inl e
        | Inr mode \<Rightarrow> Inr (NormalizePermissionMode mode))"
  by (simp add: PermissionMode_def NewManager_def Let_def split: sum.split)

lemma SessionPermissionMode_ctx_of_mode:
  assumes "\<not> st_down st" "st_sessions st (SessionKey_String key) = Some row"
    and "sr_context_json row = ctx_of_mode mode" "mode = ''sandbox'' \<or> mode = ''full-access''"
  shows "SessionPermissionMode st key = Inr mode"
  using assms
  by (auto simp: SessionPermissionMode_def ctx_of_mode_def read_context Normalize_fix)

text \<open>
  C6: on a store the program can have produced, with the database answering, and for
  \<open>m\<close> one of \<open>sandbox\<close> and \<open>full-access\<close>: \<open>SetPermissionMode(k, m)\<close> on any manager
  returns no error, and afterwards \<open>PermissionMode(k)\<close> of a freshly constructed manager
  over the same store returns \<open>m\<close>. On any store that answers, a fresh manager returns
  \<open>sandbox\<close> (and no error) for a key without a session row, and for a row whose
  \<open>context_json\<close> is blank or an object without a \<open>mode\<close> member.
\<close>

theorem C6_permission_mode_roundtrip:
  assumes up: "\<not> st_down st"
  shows "(reachable st \<and> (mode = ''sandbox'' \<or> mode = ''full-access'') \<longrightarrow>
            fst (SetPermissionMode m st key mode now) = None
          \<and> fst (PermissionMode (NewManager r)
                   (snd (snd (SetPermissionMode m st key mode now))) key) = Inr mode)
       \<and> (st_sessions st (SessionKey_String key) = None \<longrightarrow>
            fst (PermissionMode (NewManager r) st key) = Inr ''sandbox'')
       \<and> (\<forall>row. st_sessions st (SessionKey_String key) = Some row
                  \<and> no_mode_field (sr_context_json row) \<longrightarrow>
            fst (PermissionMode (NewManager r) st key) = Inr ''sandbox'')"
proof (intro conjI impI allI)
  assume a: "reachable st \<and> (mode = ''sandbox'' \<or> mode = ''full-access'')"
  then have inv: "ctx_inv st" and md: "mode = ''sandbox'' \<or> mode = ''full-access''"
    by (simp_all add: reachable_ctx_inv)
  from md have nm: "NormalizePermissionMode mode = mode" by (auto simp: Normalize_fix)
  from SetSessionPermissionMode_known [OF inv up, of key mode "now + m_retention m" now]
  obtain row where
    S: "SetSessionPermissionMode st key mode (now + m_retention m) now
           = (None, st\<lparr>st_sessions := (st_sessions st)(SessionKey_String key \<mapsto> row)\<rparr>)"
    and c: "sr_context_json row = ctx_of_mode mode"
    by (auto simp: nm)
  let ?st' = "st\<lparr>st_sessions := (st_sessions st)(SessionKey_String key \<mapsto> row)\<rparr>"
  have M: "SetPermissionMode m st key mode now
      = (None, m\<lparr>m_modes := (m_modes m)(SessionKey_String key \<mapsto> mode)\<rparr>, ?st')"
    by (simp add: SetPermissionMode_def Let_def nm S)
  show "fst (SetPermissionMode m st key mode now) = None" by (simp add: M)
  have "SessionPermissionMode ?st' key = Inr mode"
    using up c md by (intro SessionPermissionMode_ctx_of_mode [where row = row]) simp_all
  then show "fst (PermissionMode (NewManager r)
                   (snd (snd (SetPermissionMode m st key mode now))) key) = Inr mode"
    by (simp add: M PermissionMode_fresh nm)
next
  assume "st_sessions st (SessionKey_String key) = None"
  with up show "fst (PermissionMode (NewManager r) st key) = Inr ''sandbox''"
    by (simp add: PermissionMode_fresh SessionPermissionMode_def PermissionModeSandbox_def
        Normalize_fix)
next
  fix row
  assume r: "st_sessions st (SessionKey_String key) = Some row
      \<and> no_mode_field (sr_context_json row)"
  show "fst (PermissionMode (NewManager r) st key) = Inr ''sandbox''"
  proof (cases "TrimSpace (sr_context_json row) = []")
    case True
    with up r show ?thesis
      by (simp add: PermissionMode_fresh SessionPermissionMode_def PermissionModeSandbox_def
          Normalize_fix)
  next
    case False
    with r have "Unmarshal_mode (sr_context_json row) = Some []"
      by (simp add: read_no_mode_field)
    with up r False show ?thesis
      by (simp add: PermissionMode_fresh SessionPermissionMode_def Normalize_fix)
  qed
qed

theorem C6_permission_mode_roundtrip_witness:
  "\<not> st_down NewSQLiteStore \<and> reachable NewSQLiteStore
   \<and> fst (PermissionMode (NewManager 3600)
        (snd (snd (SetPermissionMode (NewManager 3600) NewSQLiteStore
           \<lparr>Platform = ''telegram'', ChatID = ''1'', ThreadID = []\<rparr> ''full-access'' 0)))
        \<lparr>Platform = ''telegram'', ChatID = ''1'', ThreadID = []\<rparr>) = Inr ''full-access''
   \<and> fst (PermissionMode (NewManager 3600) NewSQLiteStore
        \<lparr>Platform = ''telegram'', ChatID = ''1'', ThreadID = []\<rparr>) = Inr ''sandbox''"
proof -
  have up: "\<not> st_down NewSQLiteStore" by (simp add: NewSQLiteStore_def)
  have none: "st_sessions NewSQLiteStore
      (SessionKey_String \<lparr>Platform = ''telegram'', ChatID = ''1'', ThreadID = []\<rparr>) = None"
    by (simp add: NewSQLiteStore_def)
  from C6_permission_mode_roundtrip [OF up, of "''full-access''" "NewManager 3600"
      "\<lparr>Platform = ''telegram'', ChatID = ''1'', ThreadID = []\<rparr>" 0 3600]
    up none reachable.init
  show ?thesis by simp
qed

section \<open>Orchestrator: a job the policy rejects\<close>

text \<open>
  A running service as \<open>main\<close> wires it: both adapters registered, the Telegram transport,
  and a policy built from the configured allowlist and project root. The session of
  \<open>chat\<close> has had its workdir set to \<open>wd\<close> at time 0.
\<close>

definition chat :: SessionKey where
  "chat = \<lparr>Platform = ''telegram'', ChatID = ''42'', ThreadID = []\<rparr>"

definition quiet :: Sender where
  "quiet = \<lparr>sent = [], fault = (\<lambda>n. None)\<rparr>"

definition configured :: "string list \<Rightarrow> string \<Rightarrow> string \<Rightarrow> Orchestrator" where
  "configured allow root wd =
     (let (e, m, st) = SetWorkdir (NewManager 0) NewSQLiteStore chat wd 0
      in \<lparr>o_store = st, o_sessions = m, o_policy = New allow [root],
          o_executors = [''codex'' \<mapsto> CodexExecutor ''codex'' True,
                         ''claude'' \<mapsto> ClaudeExecutor ''claude'' True],
          o_transport = [''telegram'' \<mapsto> quiet],
          o_dispatcher = NewDispatcher 8 64, o_jobs = {},
          o_batchInterval = 1, o_maxChunkBytes = 3500\<rparr>)"

lemma Contains_append: "prefix sub s \<Longrightarrow> Contains (a @ s) sub"
  by (induction a) (cases s; auto)+

lemma build_Inr:
  assumes "enqueueJob_build orc key exName prompt jobID now = Inr (orc2, job)"
  shows "o_store orc2 = o_store orc" "o_dispatcher orc2 = o_dispatcher orc"
    "o_policy orc2 = o_policy orc" "o_transport orc2 = o_transport orc"
    "o_executors orc2 = o_executors orc" "o_jobs orc2 = o_jobs orc"
    "job_Executor job = exName" "job_Workdir job \<noteq> []" "job_ID job = jobID"
    "job_SessionKey job = key" "job_Prompt job = prompt" "prompt \<noteq> []"
    "o_executors orc exName \<noteq> None"
  using assms
  by (auto simp: enqueueJob_build_def Let_def reply_def split: if_splits prod.splits sum.splits option.splits)

lemma reply_effect:
  "reply orc key msg = (e, orc') \<Longrightarrow>
     o_store orc' = o_store orc \<and> o_dispatcher orc' = o_dispatcher orc
     \<and> (case o_transport orc (Platform key) of
           None \<Rightarrow> e = None \<and> o_transport orc' = o_transport orc
         | Some t \<Rightarrow> e = fault t (length (sent t))
                     \<and> o_transport orc' = (o_transport orc)
                          (Platform key \<mapsto> t\<lparr>sent := sent t @ [text_message key msg]\<rparr>))"
  by (auto simp: reply_def Send_def split: option.splits)

text \<open>
  C5: a rejection by \<open>Policy.Validate\<close> need not mention the workdir. Both adapters are
  always registered, and the allowlist comes from the configuration; with the allowlist
  \<open>codex\<close>, the root \<open>/repo\<close> and the session's workdir \<open>/repo/app\<close>, which the policy
  accepts, the message \<open>/claude hi\<close> is rejected for its executor: the reply is
  \<open>job rejected: executor "claude" is not allowed\<close>, which contains neither \<open>workdir\<close>
  nor \<open>outside\<close>. No job row is written and nothing is enqueued.
\<close>

theorem C5_executor_rejection_reply:
  \<open>(case enqueueJob (configured [''codex''] ''/repo'' ''/repo/app'') chat ''claude'' ''hi'' ''0123456789abcdef'' 1 of
      None \<Rightarrow> False
    | Some (e, orc') \<Rightarrow>
        e = None
        \<and> map_option sent (o_transport orc' ''telegram'')
            = Some [text_message chat ''job rejected: executor "claude" is not allowed'']
        \<and> st_jobs (o_store orc') = Map.empty
        \<and> o_dispatcher orc' = NewDispatcher 8 64)
   \<and> ValidateWorkdir (o_policy (configured [''codex''] ''/repo'' ''/repo/app'')) ''/repo/app'' = None
   \<and> \<not> Contains ''job rejected: executor "claude" is not allowed'' ''workdir''
   \<and> \<not> Contains ''job rejected: executor "claude" is not allowed'' ''outside''\<close>
proof -
  let ?orc = "configured [''codex''] ''/repo'' ''/repo/app''"
  let ?job = "\<lparr>job_ID = ''0123456789abcdef'', job_SessionKey = chat, job_Executor = ''claude'',
             job_Session = [], job_Prompt = ''hi'', job_Workdir = ''/repo/app'',
             job_PermissionMode = ''sandbox'', job_Status = JobPending, job_CreatedAt = 1,
             job_StartedAt = None, job_FinishedAt = None, job_ErrorMessage = []\<rparr>"
  have build: "enqueueJob_build ?orc chat ''claude'' ''hi'' ''0123456789abcdef'' 1
     = Inr (?orc\<lparr>o_sessions := (o_sessions ?orc)\<lparr>m_modes := [''telegram:42'' \<mapsto> ''sandbox'']\<rparr>\<rparr>, ?job)"
    by (simp add: enqueueJob_build_def configured_def SetWorkdir_def NewManager_def
        NewSQLiteStore_def UpsertSession_def chat_def SessionKey_String_def Workdir_def
        PermissionMode_def SessionPermissionMode_def read_context [unfolded ctx_empty_def]
        Normalize_fix ClaudeExecutor_def adapter_LoadSession_def GetExecutorSession_def Let_def)
  have pol: "o_policy ?orc = New [''codex''] [''/repo'']"
    by (simp add: configured_def SetWorkdir_def NewManager_def NewSQLiteStore_def
        UpsertSession_def Let_def)
  have trim: "TrimSpace ''codex'' = ''codex''"
    by (simp add: TrimSpace_def space_len_def space_len_back_def byte_def)
  have rej: "Validate (o_policy ?orc) ?job
       = Some (Error (''executor '' @ Quote ''claude'' @ '' is not allowed''))"
    by (simp add: pol Validate_def ValidateExecutor_def New_def trim)
  have q: \<open>''job rejected: '' @ ''executor '' @ Quote ''claude'' @ '' is not allowed''
             = ''job rejected: executor "claude" is not allowed''\<close>
    by (simp add: Quote_def quote_byte_def byte_def)
  have st: "st_jobs (o_store ?orc) = Map.empty" "o_dispatcher ?orc = NewDispatcher 8 64"
    "o_transport ?orc ''telegram'' = Some quiet"  "Platform chat = ''telegram''"
    by (simp_all add: configured_def SetWorkdir_def NewManager_def NewSQLiteStore_def
        UpsertSession_def Let_def chat_def)
  have run: \<open>enqueueJob ?orc chat ''claude'' ''hi'' ''0123456789abcdef'' 1
      = Some (reply (?orc\<lparr>o_sessions := (o_sessions ?orc)\<lparr>m_modes := [''telegram:42'' \<mapsto> ''sandbox'']\<rparr>\<rparr>)
                chat ''job rejected: executor "claude" is not allowed'')\<close>
    unfolding enqueueJob_def build using rej q by (simp add: err_text_def)
  have wd: "ValidateWorkdir (o_policy ?orc) ''/repo/app'' = None"
    by (simp add: pol ValidateWorkdir_def New_def Clean_def clean_elem_def)
  have no: \<open>\<not> Contains ''job rejected: executor "claude" is not allowed'' ''workdir''\<close>
    \<open>\<not> Contains ''job rejected: executor "claude" is not allowed'' ''outside''\<close>
    by simp_all
  show ?thesis
    unfolding run by (simp add: reply_def Send_def st quiet_def wd no del: Contains.simps)
qed

text \<open>
  C5 (amended): when \<open>enqueueJob\<close> reaches \<open>Policy.Validate\<close> with the job it has built
  and the policy rejects it, the call returns after one reply and nothing else: the store
  (so the table of jobs) and the dispatcher are as before the call, and the transport of
  the session's platform, if there is one, has been handed exactly one more message, with
  the text \<open>job rejected: \<close> followed by the policy's error. If the executor is on the
  allowlist, the rejection is the one of \<open>ValidateWorkdir\<close> for a path outside the roots
  (the workdir of a built job is never empty) and the text contains \<open>workdir\<close> and
  \<open>outside\<close>; if it is not, the text names the executor that is not allowed.
\<close>

theorem C5_policy_rejection:
  assumes "enqueueJob_build orc key exName prompt jobID now = Inr (orc2, job)"
    and "Validate (o_policy orc) job = Some err"
  shows "\<exists>e orc'. enqueueJob orc key exName prompt jobID now = Some (e, orc')
           \<and> o_store orc' = o_store orc
           \<and> o_dispatcher orc' = o_dispatcher orc
           \<and> (case o_transport orc (Platform key) of
                 None \<Rightarrow> e = None \<and> o_transport orc' = o_transport orc
               | Some t \<Rightarrow>
                   e = fault t (length (sent t))
                   \<and> o_transport orc' = (o_transport orc)
                        (Platform key \<mapsto>
                           t\<lparr>sent := sent t @ [text_message key (''job rejected: '' @ err_text err)]\<rparr>))
           \<and> (if exName \<in> allowlist (o_policy orc)
               then err = Error (''workdir '' @ Quote (Clean (job_Workdir job)) @ '' is outside allowed roots'')
                    \<and> Contains (''job rejected: '' @ err_text err) ''workdir''
                    \<and> Contains (''job rejected: '' @ err_text err) ''outside''
               else err = Error (''executor '' @ Quote exName @ '' is not allowed''))"
proof -
  note b = build_Inr [OF assms(1)]
  obtain e orc' where r: "reply orc2 key (''job rejected: '' @ err_text err) = (e, orc')"
    by (cases "reply orc2 key (''job rejected: '' @ err_text err)")
  have run: "enqueueJob orc key exName prompt jobID now = Some (e, orc')"
    using assms r by (simp add: enqueueJob_def b)
  have eff: "o_store orc' = o_store orc" "o_dispatcher orc' = o_dispatcher orc"
    "(case o_transport orc (Platform key) of
        None \<Rightarrow> e = None \<and> o_transport orc' = o_transport orc
      | Some t \<Rightarrow>
          e = fault t (length (sent t))
          \<and> o_transport orc' = (o_transport orc)
               (Platform key \<mapsto>
                  t\<lparr>sent := sent t @ [text_message key (''job rejected: '' @ err_text err)]\<rparr>))"
    using reply_effect [OF r] by (simp_all add: b split: option.splits)
  have msg: "if exName \<in> allowlist (o_policy orc)
      then err = Error (''workdir '' @ Quote (Clean (job_Workdir job)) @ '' is outside allowed roots'')
           \<and> Contains (''job rejected: '' @ err_text err) ''workdir''
           \<and> Contains (''job rejected: '' @ err_text err) ''outside''
      else err = Error (''executor '' @ Quote exName @ '' is not allowed'')"
  proof (cases "exName \<in> allowlist (o_policy orc)")
    case True
    with assms(2) b(7,8)
    have e: "err = Error (''workdir '' @ Quote (Clean (job_Workdir job)) @ '' is outside allowed roots'')"
      by (auto simp: Validate_def ValidateExecutor_def ValidateWorkdir_def Let_def split: if_splits)
    have "Contains (''job rejected: '' @ (''workdir '' @ Quote (Clean (job_Workdir job)) @ '' is outside allowed roots'')) ''workdir''"
      by (rule Contains_append) simp
    moreover have "Contains ((''job rejected: workdir '' @ Quote (Clean (job_Workdir job)) @ '' is '') @ ''outside allowed roots'') ''outside''"
      by (rule Contains_append) simp
    ultimately show ?thesis using True e by (simp add: err_text_def)
  next
    case False
    with assms(2) b(7) show ?thesis
      by (auto simp: Validate_def ValidateExecutor_def split: if_splits)
  qed
  from run eff msg show ?thesis by blast
qed

theorem C5_policy_rejection_witness:
  "enqueueJob_build (configured [''codex''] ''/repo'' ''/etc'') chat ''codex'' ''hi'' ''0123456789abcdef'' 1
     = Inr ((configured [''codex''] ''/repo'' ''/etc'')
              \<lparr>o_sessions := (o_sessions (configured [''codex''] ''/repo'' ''/etc''))
                   \<lparr>m_modes := [''telegram:42'' \<mapsto> ''sandbox'']\<rparr>\<rparr>,
            \<lparr>job_ID = ''0123456789abcdef'', job_SessionKey = chat, job_Executor = ''codex'',
             job_Session = [], job_Prompt = ''hi'', job_Workdir = ''/etc'',
             job_PermissionMode = ''sandbox'', job_Status = JobPending, job_CreatedAt = 1,
             job_StartedAt = None, job_FinishedAt = None, job_ErrorMessage = []\<rparr>)
   \<and> Validate (o_policy (configured [''codex''] ''/repo'' ''/etc''))
         \<lparr>job_ID = ''0123456789abcdef'', job_SessionKey = chat, job_Executor = ''codex'',
          job_Session = [], job_Prompt = ''hi'', job_Workdir = ''/etc'',
          job_PermissionMode = ''sandbox'', job_Status = JobPending, job_CreatedAt = 1,
          job_StartedAt = None, job_FinishedAt = None, job_ErrorMessage = []\<rparr>
       = Some (Error (''workdir '' @ Quote ''/etc'' @ '' is outside allowed roots''))
   \<and> (\<exists>e orc'. enqueueJob (configured [''codex''] ''/repo'' ''/etc'') chat ''codex'' ''hi'' ''0123456789abcdef'' 1
                    = Some (e, orc')
         \<and> e = None
         \<and> st_jobs (o_store orc') = Map.empty
         \<and> o_dispatcher orc' = NewDispatcher 8 64
         \<and> o_transport orc' ''telegram''
             = Some (quiet\<lparr>sent := [text_message chat
                  (''job rejected: workdir '' @ Quote ''/etc'' @ '' is outside allowed roots'')]\<rparr>)
         \<and> Contains (''job rejected: workdir '' @ Quote ''/etc'' @ '' is outside allowed roots'') ''workdir''
         \<and> Contains (''job rejected: workdir '' @ Quote ''/etc'' @ '' is outside allowed roots'') ''outside'')"
proof -
  let ?orc = "configured [''codex''] ''/repo'' ''/etc''"
  let ?job = "\<lparr>job_ID = ''0123456789abcdef'', job_SessionKey = chat, job_Executor = ''codex'',
             job_Session = [], job_Prompt = ''hi'', job_Workdir = ''/etc'',
             job_PermissionMode = ''sandbox'', job_Status = JobPending, job_CreatedAt = 1,
             job_StartedAt = None, job_FinishedAt = None, job_ErrorMessage = []\<rparr>"
  have build: "enqueueJob_build ?orc chat ''codex'' ''hi'' ''0123456789abcdef'' 1
     = Inr (?orc\<lparr>o_sessions := (o_sessions ?orc)\<lparr>m_modes := [''telegram:42'' \<mapsto> ''sandbox'']\<rparr>\<rparr>, ?job)"
    by (simp add: enqueueJob_build_def configured_def SetWorkdir_def NewManager_def
        NewSQLiteStore_def UpsertSession_def chat_def SessionKey_String_def Workdir_def
        PermissionMode_def SessionPermissionMode_def read_context [unfolded ctx_empty_def]
        Normalize_fix CodexExecutor_def adapter_LoadSession_def GetExecutorSession_def Let_def)
  have allowed: "''codex'' \<in> allowlist (o_policy ?orc)"
    by (simp add: configured_def SetWorkdir_def NewManager_def NewSQLiteStore_def
        UpsertSession_def Let_def New_def TrimSpace_def space_len_def space_len_back_def byte_def)
  have rej: "Validate (o_policy ?orc) ?job
       = Some (Error (''workdir '' @ Quote ''/etc'' @ '' is outside allowed roots''))"
    using allowed
    by (simp add: Validate_def ValidateExecutor_def ValidateWorkdir_def)
       (simp add: configured_def SetWorkdir_def NewManager_def NewSQLiteStore_def
        UpsertSession_def Let_def New_def Clean_def clean_elem_def)
  have st: "st_jobs (o_store ?orc) = Map.empty" "o_dispatcher ?orc = NewDispatcher 8 64"
    "o_transport ?orc (Platform chat) = Some quiet"  "Platform chat = ''telegram''"
    by (simp_all add: configured_def SetWorkdir_def NewManager_def NewSQLiteStore_def
        UpsertSession_def Let_def chat_def)
  from C5_policy_rejection [OF build rej] allowed st build rej
  show ?thesis
    by (auto simp: err_text_def quiet_def)
qed

section \<open>Orchestrator: the exit code of a Claude job\<close>

lemma persistSink_store:
  "persistSink_OnEvent ex b ev (st, t, sid) = (st', t', sid')
     \<Longrightarrow> st_jobs st' = st_jobs st \<and> st_down st' = st_down st"
  by (auto simp: persistSink_OnEvent_def AppendEvent_def Let_def
      split: prod.splits option.splits if_splits)

lemma persistSink_fold_store:
  "foldl (\<lambda>acc ev. persistSink_OnEvent ex b ev acc) (st, t, sid) events = (st', t', sid')
     \<Longrightarrow> st_jobs st' = st_jobs st \<and> st_down st' = st_down st"
proof (induction events arbitrary: st t sid)
  case Nil
  then show ?case by simp
next
  case (Cons ev events)
  obtain st1 t1 sid1 where s: "persistSink_OnEvent ex b ev (st, t, sid) = (st1, t1, sid1)"
    by (cases "persistSink_OnEvent ex b ev (st, t, sid)") auto
  from Cons.prems s
  have "foldl (\<lambda>acc ev. persistSink_OnEvent ex b ev acc) (st1, t1, sid1) events = (st', t', sid')"
    by simp
  from Cons.IH [OF this] persistSink_store [OF s] show ?case by simp
qed

lemma adapter_SaveSession_store:
  "st_jobs (snd (adapter_SaveSession name ws st job sid now)) = st_jobs st"
  "st_down (snd (adapter_SaveSession name ws st job sid now)) = st_down st"
  by (simp_all add: adapter_SaveSession_def UpsertExecutorSession_def)

lemma UpdateJobStatus_row:
  assumes "\<not> st_down st" "st_jobs st jobID = Some row"
  shows "\<not> st_down (snd (UpdateJobStatus st jobID status s f msg))"
    and "st_jobs (snd (UpdateJobStatus st jobID status s f msg)) jobID
           = Some (row\<lparr>jr_status := status, jr_started_at := s, jr_finished_at := f,
                       jr_error_message := msg\<rparr>)"
  using assms by (simp_all add: UpdateJobStatus_def)

lemma RunJob_nonzero_exit:
  assumes "RunJob ex job (Runs outs errs (Exit n)) sched = Some (err, events)" "n \<noteq> 0"
  shows "\<exists>e. err = Some e"
    and "\<And>args. ex_BuildCommand ex job = Inr args \<Longrightarrow> args \<noteq> [] \<Longrightarrow>
           err = Some (Error (''command failed: exit status '' @ Itoa n))"
  using assms
  by (auto simp: RunJob_def wait_error_def split: sum.splits if_splits option.splits)

text \<open>
  C1: the Claude adapter implements \<open>ExitCodeAware\<close> and declares exit code 1 a success
  and exit code 2 a failure, but neither \<open>Runner.RunJob\<close> nor \<open>Orchestrator.runJob\<close>
  asks it: \<open>RunJob\<close> returns an error for every non-nil result of \<open>cmd.Wait()\<close>, and
  \<open>runJob\<close> marks the job failed for every error of \<open>RunJob\<close>. So for a Claude job whose
  row is in the store (the driver answering) and whose child exits with any status other
  than 0, whatever it has printed and however the readers are scheduled, \<open>runJob\<close> returns
  with the job's status \<open>failed\<close>; the error message is \<open>command failed: exit status n\<close>.
  For exit code 2 this is the specified outcome; for exit code 1 after a \<open>result\<close> event
  the specified status is \<open>done\<close> and the code gives \<open>failed\<close>.
\<close>

theorem C1_claude_exit_code:
  assumes "o_executors orc (job_Executor job) = Some (ClaudeExecutor binary ws)"
    and "o_transport orc (Platform (job_SessionKey job)) = Some t"
    and "\<not> st_down (o_store orc)"
    and "st_jobs (o_store orc) (job_ID job) = Some row"
    and "RunJob (ClaudeExecutor binary ws) job (Runs outs errs (Exit n)) sched = Some (err, events)"
    and "n \<noteq> 0"
  shows "\<exists>orc' e. runJob orc job (Runs outs errs (Exit n)) sched t1 t2 t3 = Some orc'
           \<and> err = Some e
           \<and> st_jobs (o_store orc') (job_ID job)
               = Some (row\<lparr>jr_status := JobFailed, jr_started_at := Some t1,
                           jr_finished_at := Some t3, jr_error_message := err_text e\<rparr>)
           \<and> (if binary = [] then e = Error ''claude binary is empty''
               else e = Error (''command failed: exit status '' @ Itoa n))
           \<and> ex_ExitCodeAware (ClaudeExecutor binary ws) = Some Claude_IsSuccessExitCode
           \<and> Claude_IsSuccessExitCode 1 \<and> \<not> Claude_IsSuccessExitCode 2"
proof -
  let ?ex = "ClaudeExecutor binary ws"
  let ?key = "job_SessionKey job"
  let ?st1 = "snd (UpdateJobStatus (o_store orc) (job_ID job) JobRunning (Some t1) None [])"
  let ?b = "NewBatcher (o_batchInterval orc) (o_maxChunkBytes orc) ?key"
  let ?row1 = "row\<lparr>jr_status := JobRunning, jr_started_at := Some t1, jr_finished_at := None,
                    jr_error_message := []\<rparr>"
  obtain st2 tr2 sid
    where f: "foldl (\<lambda>acc ev. persistSink_OnEvent ?ex ?b ev acc) (?st1, t, []) events = (st2, tr2, sid)"
    by (metis prod_cases3)
  have st1: "\<not> st_down ?st1" "st_jobs ?st1 (job_ID job) = Some ?row1"
    using UpdateJobStatus_row [OF assms(3,4)] by simp_all
  from persistSink_fold_store [OF f] st1
  have st2: "\<not> st_down st2" "st_jobs st2 (job_ID job) = Some ?row1" by simp_all
  define st3 where
    "st3 = (if sid \<noteq> [] then snd (adapter_SaveSession ''claude'' ws st2 job sid t2) else st2)"
  have st3: "\<not> st_down st3" "st_jobs st3 (job_ID job) = Some ?row1"
    using st2 by (simp_all add: st3_def adapter_SaveSession_store)
  from RunJob_nonzero_exit(1) [OF assms(5,6)] obtain e where e: "err = Some e" by blast
  let ?orc3 = "orc\<lparr>o_transport := (o_transport orc)(Platform ?key \<mapsto> snd (Batcher_Flush ?b tr2))\<rparr>"
  let ?orc' = "snd (reply (?orc3\<lparr>o_store := snd (UpdateJobStatus st3 (job_ID job) JobFailed
                       (Some t1) (Some t3) (err_text e))\<rparr>) ?key (''job failed: '' @ err_text e))"
  have run: "runJob orc job (Runs outs errs (Exit n)) sched t1 t2 t3 = Some ?orc'"
    unfolding runJob_def
    by (simp add: assms(1,2,5) e f Let_def st3_def ClaudeExecutor_def [symmetric])
       (simp add: ClaudeExecutor_def)
  have store: "o_store ?orc' = snd (UpdateJobStatus st3 (job_ID job) JobFailed
                       (Some t1) (Some t3) (err_text e))"
    by (simp add: reply_def Send_def split: option.splits prod.splits)
  have status: "st_jobs (o_store ?orc') (job_ID job)
      = Some (row\<lparr>jr_status := JobFailed, jr_started_at := Some t1,
                  jr_finished_at := Some t3, jr_error_message := err_text e\<rparr>)"
    unfolding store using UpdateJobStatus_row(2) [OF st3] by simp
  have msg: "if binary = [] then e = Error ''claude binary is empty''
             else e = Error (''command failed: exit status '' @ Itoa n)"
  proof (cases "binary = []")
    case True
    with assms(5) e show ?thesis
      by (simp add: RunJob_def ClaudeExecutor_def Claude_BuildCommand_def)
  next
    case False
    then have "\<exists>args. ex_BuildCommand ?ex job = Inr args \<and> args \<noteq> []"
      by (simp add: ClaudeExecutor_def Claude_BuildCommand_def Let_def)
    then obtain args where "ex_BuildCommand ?ex job = Inr args" "args \<noteq> []"
      by blast
    from RunJob_nonzero_exit(2) [OF assms(5,6) this] e False show ?thesis by simp
  qed
  have aware: "ex_ExitCodeAware ?ex = Some Claude_IsSuccessExitCode"
    "Claude_IsSuccessExitCode 1" "\<not> Claude_IsSuccessExitCode 2"
    by (simp_all add: ClaudeExecutor_def Claude_IsSuccessExitCode_def)
  from run e status msg aware show ?thesis by blast
qed


text \<open>
  The run in question: the child prints one \<open>result\<close> event on its standard
  output and exits with status 1. \<open>queued\<close> is the service after \<open>enqueueJob\<close> has written
  the job's row.
\<close>

definition result_line :: string where
  \<open>result_line = ''{"type":"result","subtype":"success","session_id":"s1"}''\<close>

definition claude_job :: Job where
  "claude_job =
     \<lparr>job_ID = ''0123456789abcdef'', job_SessionKey = chat, job_Executor = ''claude'',
      job_Session = [], job_Prompt = ''hi'', job_Workdir = ''/repo/app'',
      job_PermissionMode = ''sandbox'', job_Status = JobPending, job_CreatedAt = 1,
      job_StartedAt = None, job_FinishedAt = None, job_ErrorMessage = []\<rparr>"

definition queued :: Orchestrator where
  "queued =
     (let orc = configured [''codex'', ''claude''] ''/repo'' ''/repo/app''
      in orc\<lparr>o_store := snd (CreateJob (o_store orc) claude_job)\<rparr>)"

definition result_schedule :: "action list" where
  "result_schedule = [Scan Stdout 2, Scan Stderr 3, Deliver Stdout, Scan Stdout 4, Finish 5]"

lemma result_line_event:
  "map_option cl_Type (Unmarshal_claudeJSONEvent result_line) = Some ''result''"
  by (simp add: result_line_def Unmarshal_claudeJSONEvent_def parse_json_def skip_ws_def
      is_ws_def byte_def chr_of_byte_def unescape_def decode_claudeJSONEvent_def
      dec_struct_ptr_def dec_string_def zero_claudeJSONEvent_def)

lemma Itoa_1: "Itoa 1 = ''1''"
  by (simp add: Itoa_def digits.simps chr_of_byte_def)

lemma result_RunJob:
  "RunJob (ClaudeExecutor ''claude'' True) claude_job (Runs [result_line] [] (Exit 1)) result_schedule
     = Some (Some (Error ''command failed: exit status 1''),
             [line_event ''0123456789abcdef'' 1 result_line Stdout 2,
              final_event ''0123456789abcdef'' 2 False 5])"
  by (simp add: RunJob_def ClaudeExecutor_def Claude_BuildCommand_def claude_job_def
      wait_error_def Itoa_1 result_schedule_def started_def step_def get_reader_def
      set_reader_def Let_def)

theorem C1_claude_exit_code_witness:
  "o_executors queued (job_Executor claude_job) = Some (ClaudeExecutor ''claude'' True)
   \<and> map_option sent (o_transport queued (Platform (job_SessionKey claude_job))) = Some []
   \<and> st_down (o_store queued) = False
   \<and> map_option jr_status (st_jobs (o_store queued) (job_ID claude_job)) = Some JobPending
   \<and> RunJob (ClaudeExecutor ''claude'' True) claude_job (Runs [result_line] [] (Exit 1)) result_schedule
       = Some (Some (Error ''command failed: exit status 1''),
               [line_event ''0123456789abcdef'' 1 result_line Stdout 2,
                final_event ''0123456789abcdef'' 2 False 5])
   \<and> map_option cl_Type (Unmarshal_claudeJSONEvent result_line) = Some ''result''
   \<and> (\<exists>orc'. runJob queued claude_job (Runs [result_line] [] (Exit 1)) result_schedule 6 7 8 = Some orc'
          \<and> map_option jr_status (st_jobs (o_store orc') ''0123456789abcdef'') = Some JobFailed
          \<and> map_option jr_error_message (st_jobs (o_store orc') ''0123456789abcdef'')
              = Some ''command failed: exit status 1'')"
proof -
  let ?row = "\<lparr>jr_session_key = ''telegram:42'', jr_executor = ''claude'', jr_prompt = ''hi'',
      jr_workdir = ''/repo/app'', jr_status = JobPending, jr_created_at = 1,
      jr_started_at = None, jr_finished_at = None, jr_error_message = []\<rparr>"
  have ex: "o_executors queued (job_Executor claude_job) = Some (ClaudeExecutor ''claude'' True)"
    by (simp add: queued_def configured_def SetWorkdir_def NewManager_def NewSQLiteStore_def
        UpsertSession_def Let_def claude_job_def)
  have tr: "o_transport queued (Platform (job_SessionKey claude_job)) = Some quiet"
    by (simp add: queued_def configured_def SetWorkdir_def NewManager_def NewSQLiteStore_def
        UpsertSession_def Let_def claude_job_def chat_def)
  have up: "\<not> st_down (o_store queued)"
    by (simp add: queued_def configured_def SetWorkdir_def NewManager_def NewSQLiteStore_def
        UpsertSession_def CreateJob_def Let_def claude_job_def)
  have row: "st_jobs (o_store queued) (job_ID claude_job) = Some ?row"
    by (simp add: queued_def configured_def SetWorkdir_def NewManager_def NewSQLiteStore_def
        UpsertSession_def CreateJob_def Let_def claude_job_def chat_def SessionKey_String_def)
  have id: "job_ID claude_job = ''0123456789abcdef''"
    by (simp add: claude_job_def)
  from C1_claude_exit_code [OF ex tr up row result_RunJob, of 6 7 8]
  have "\<exists>orc'. runJob queued claude_job (Runs [result_line] [] (Exit 1)) result_schedule 6 7 8 = Some orc'
          \<and> map_option jr_status (st_jobs (o_store orc') ''0123456789abcdef'') = Some JobFailed
          \<and> map_option jr_error_message (st_jobs (o_store orc') ''0123456789abcdef'')
              = Some ''command failed: exit status 1''"
    by (auto simp: id err_text_def)
  with ex tr up row result_RunJob result_line_event show ?thesis
    by (simp add: quiet_def)
qed

section \<open>Dispatcher: order within a session and the concurrency cap\<close>

text \<open>
  What the trace says about one session queue \<open>k\<close>: the jobs whose send on the channel
  of \<open>k\<close> completed, in that order, and the calls of the worker function for \<open>k\<close> with
  their returns, in the order they happened.
\<close>

definition sent_on :: "string \<Rightarrow> obs list \<Rightarrow> Job list" where
  "sent_on k tr =
     concat (map (\<lambda>ob. case ob of Sent j \<Rightarrow> (if job_key j = k then [j] else []) | _ \<Rightarrow> []) tr)"

definition calls_on :: "string \<Rightarrow> obs list \<Rightarrow> obs list" where
  "calls_on k tr =
     filter (\<lambda>ob. case ob of Sent j \<Rightarrow> False
                            | Started j \<Rightarrow> job_key j = k
                            | Returned j \<Rightarrow> job_key j = k) tr"

text \<open>The jobs \<open>js\<close> run one after the other: each call returns before the next call.\<close>

definition one_at_a_time :: "Job list \<Rightarrow> obs list" where
  "one_at_a_time js = concat (map (\<lambda>j. [Started j, Returned j]) js)"

text \<open>The session queues whose worker function is running.\<close>

definition running :: "Dispatcher \<Rightarrow> string set" where
  "running d = {k. \<exists>j. d_worker d k = Some (Running j)}"

lemma d_step_cases [consumes 1, case_names Lookup_new Lookup_old SendJob Receive Quit Acquire Return Release]:
  assumes "d_step a d = Some d'"
  obtains
    (Lookup_new) job where "a = Lookup job" "d_queue d (job_key job) = None"
      "d' = d\<lparr>d_queue := (d_queue d)(job_key job \<mapsto> []),
               d_worker := (d_worker d)(job_key job \<mapsto> Selecting),
               d_sending := d_sending d @ [job]\<rparr>"
  | (Lookup_old) job q where "a = Lookup job" "d_queue d (job_key job) = Some q"
      "d' = d\<lparr>d_sending := d_sending d @ [job]\<rparr>"
  | (SendJob) i q where "a = SendJob i" "i < length (d_sending d)"
      "d_queue d (job_key (d_sending d ! i)) = Some q" "length q < d_buffer d"
      "d' = d\<lparr>d_queue := (d_queue d)(job_key (d_sending d ! i) \<mapsto> q @ [d_sending d ! i]),
               d_sending := take i (d_sending d) @ drop (Suc i) (d_sending d),
               d_trace := d_trace d @ [Sent (d_sending d ! i)]\<rparr>"
  | (Receive) k job q where "a = Receive k" "d_worker d k = Some Selecting"
      "d_queue d k = Some (job # q)"
      "d' = d\<lparr>d_queue := (d_queue d)(k \<mapsto> q), d_worker := (d_worker d)(k \<mapsto> Acquiring job)\<rparr>"
  | (Quit) k where "a = Quit k" "d_worker d k = Some Selecting"
      "d' = d\<lparr>d_worker := (d_worker d)(k \<mapsto> Exited)\<rparr>"
  | (Acquire) k job where "a = Acquire k" "d_worker d k = Some (Acquiring job)"
      "d_sem d < d_maxConcurrent d"
      "d' = d\<lparr>d_sem := d_sem d + 1, d_worker := (d_worker d)(k \<mapsto> Running job),
               d_trace := d_trace d @ [Started job]\<rparr>"
  | (Return) k job where "a = Return k" "d_worker d k = Some (Running job)"
      "d' = d\<lparr>d_worker := (d_worker d)(k \<mapsto> Releasing),
               d_trace := d_trace d @ [Returned job]\<rparr>"
  | (Release) k where "a = Release k" "d_worker d k = Some Releasing"
      "d' = d\<lparr>d_sem := d_sem d - 1, d_worker := (d_worker d)(k \<mapsto> Selecting)\<rparr>"
proof (cases a)
  case (Lookup job)
  with assms show ?thesis
    by (cases "d_queue d (job_key job)")
       (auto simp: d_step_def Let_def intro: Lookup_new Lookup_old)
next
  case (SendJob i)
  with assms show ?thesis
    by (auto simp: d_step_def Let_def split: if_splits option.splits intro: that(3))
next
  case (Receive k)
  with assms show ?thesis
    by (auto simp: d_step_def split: option.splits worker.splits list.splits intro: that(4))
next
  case (Quit k)
  with assms show ?thesis
    by (auto simp: d_step_def split: option.splits worker.splits intro: that(5))
next
  case (Acquire k)
  with assms show ?thesis
    by (auto simp: d_step_def split: option.splits worker.splits if_splits intro: that(6))
next
  case (Return k)
  with assms show ?thesis
    by (auto simp: d_step_def split: option.splits worker.splits intro: that(7))
next
  case (Release k)
  with assms show ?thesis
    by (auto simp: d_step_def split: option.splits worker.splits intro: that(8))
qed


lemma sent_on_simps [simp]:
  "sent_on k [] = []"
  "sent_on k (tr @ [Sent j]) = sent_on k tr @ (if job_key j = k then [j] else [])"
  "sent_on k (tr @ [Started j]) = sent_on k tr"
  "sent_on k (tr @ [Returned j]) = sent_on k tr"
  by (simp_all add: sent_on_def)

lemma calls_on_simps [simp]:
  "calls_on k [] = []"
  "calls_on k (tr @ [Sent j]) = calls_on k tr"
  "calls_on k (tr @ [Started j]) = calls_on k tr @ (if job_key j = k then [Started j] else [])"
  "calls_on k (tr @ [Returned j]) = calls_on k tr @ (if job_key j = k then [Returned j] else [])"
  by (simp_all add: calls_on_def)

lemma one_at_a_time_simps [simp]:
  "one_at_a_time [] = []"
  "one_at_a_time (j # js) = Started j # Returned j # one_at_a_time js"
  "one_at_a_time (js @ ks) = one_at_a_time js @ one_at_a_time ks"
  by (simp_all add: one_at_a_time_def)

text \<open>
  The calls still owed to the job a worker holds, and the invariant of one session queue:
  the jobs sent on it, run one at a time, are the calls made so far, then what is owed to
  the job in hand, then the jobs waiting in the channel.
\<close>

definition owed :: "worker \<Rightarrow> obs list" where
  "owed w = (case w of Acquiring j \<Rightarrow> [Started j, Returned j] | Running j \<Rightarrow> [Returned j] | _ \<Rightarrow> [])"

definition in_hand :: "string \<Rightarrow> worker \<Rightarrow> bool" where
  "in_hand k w = (case w of Acquiring j \<Rightarrow> job_key j = k | Running j \<Rightarrow> job_key j = k | _ \<Rightarrow> True)"

definition queue_inv :: "Dispatcher \<Rightarrow> string \<Rightarrow> bool" where
  "queue_inv d k =
     (case d_worker d k of
        None \<Rightarrow> d_queue d k = None \<and> sent_on k (d_trace d) = [] \<and> calls_on k (d_trace d) = []
      | Some w \<Rightarrow>
          (case d_queue d k of
             None \<Rightarrow> False
           | Some q \<Rightarrow>
               list_all (\<lambda>j. job_key j = k) q \<and> in_hand k w
               \<and> one_at_a_time (sent_on k (d_trace d))
                   = calls_on k (d_trace d) @ owed w @ one_at_a_time q))"

lemma queue_inv_new: "queue_inv (NewDispatcher mc buf) k"
  by (simp add: queue_inv_def NewDispatcher_def Let_def)

lemma queue_inv_step:
  assumes "d_step a d = Some d'" and inv: "\<And>k. queue_inv d k"
  shows "queue_inv d' k"
  using assms(1)
proof (cases rule: d_step_cases)
  case (Lookup_new job)
  with inv [of k] inv [of "job_key job"] show ?thesis
    by (auto simp: queue_inv_def owed_def in_hand_def split: option.splits)
next
  case (Lookup_old job q)
  with inv [of k] show ?thesis
    by (auto simp: queue_inv_def split: option.splits)
next
  case (SendJob i q)
  with inv [of k] show ?thesis
    by (auto simp: queue_inv_def split: option.splits)
next
  case (Receive k' job q)
  with inv [of k] show ?thesis
    by (auto simp: queue_inv_def owed_def in_hand_def split: option.splits)
next
  case (Quit k')
  with inv [of k] show ?thesis
    by (auto simp: queue_inv_def owed_def in_hand_def split: option.splits)
next
  case (Acquire k' job)
  with inv [of k] inv [of k'] show ?thesis
    by (auto simp: queue_inv_def owed_def in_hand_def split: option.splits)
next
  case (Return k' job)
  with inv [of k] inv [of k'] show ?thesis
    by (auto simp: queue_inv_def owed_def in_hand_def split: option.splits)
next
  case (Release k')
  with inv [of k] show ?thesis
    by (auto simp: queue_inv_def owed_def in_hand_def split: option.splits)
qed

lemma queue_inv_run:
  "d_run acts d = Some d' \<Longrightarrow> (\<And>k. queue_inv d k) \<Longrightarrow> queue_inv d' k"
proof (induction acts arbitrary: d)
  case Nil
  then show ?case by simp
next
  case (Cons a acts)
  from Cons.prems(1) obtain d1 where s: "d_step a d = Some d1" and r: "d_run acts d1 = Some d'"
    by (auto split: option.splits)
  have "\<And>k. queue_inv d1 k" using queue_inv_step [OF s] Cons.prems(2) by blast
  from Cons.IH [OF r this] show ?case .
qed

lemma queue_inv_prefix:
  assumes "queue_inv d k"
  shows "prefix (calls_on k (d_trace d)) (one_at_a_time (sent_on k (d_trace d)))"
  using assms by (auto simp: queue_inv_def split: option.splits)

text \<open>The workers that hold a token of the semaphore.\<close>

definition holding :: "Dispatcher \<Rightarrow> string set" where
  "holding d = {k. d_worker d k = Some Releasing \<or> (\<exists>j. d_worker d k = Some (Running j))}"

definition sem_inv :: "Dispatcher \<Rightarrow> bool" where
  "sem_inv d = (finite (dom (d_worker d)) \<and> dom (d_worker d) = dom (d_queue d)
                \<and> d_sem d = card (holding d) \<and> d_sem d \<le> d_maxConcurrent d)"

lemma holding_finite: "finite (dom (d_worker d)) \<Longrightarrow> finite (holding d)"
  by (rule finite_subset [of _ "dom (d_worker d)"]) (auto simp: holding_def)

lemma sem_inv_finite:
  assumes "sem_inv d"
  shows "finite (holding d)"
proof -
  from assms have "finite (dom (d_worker d))" unfolding sem_inv_def by blast
  then show ?thesis by (rule holding_finite)
qed

lemma sem_inv_new: "sem_inv (NewDispatcher mc buf)"
  by (simp add: sem_inv_def NewDispatcher_def Let_def holding_def)

lemma sem_inv_step:
  assumes "d_step a d = Some d'" and inv: "sem_inv d"
  shows "sem_inv d' \<and> d_maxConcurrent d' = d_maxConcurrent d"
  using assms(1)
proof (cases rule: d_step_cases)
  case (Lookup_new job)
  from inv Lookup_new(2) have "d_worker d (job_key job) = None"
    by (auto simp: sem_inv_def)
  then have "holding d' = holding d"
    using Lookup_new by (auto simp: holding_def)
  with inv Lookup_new show ?thesis by (auto simp: sem_inv_def)
next
  case (Lookup_old job q)
  have "holding d' = holding d"
    using Lookup_old by (auto simp: holding_def)
  with inv Lookup_old show ?thesis by (auto simp: sem_inv_def)
next
  case (SendJob i q)
  have "holding d' = holding d"
    using SendJob by (auto simp: holding_def)
  with inv SendJob show ?thesis by (auto simp: sem_inv_def)
next
  case (Receive k job q)
  have "holding d' = holding d"
    using Receive by (auto simp: holding_def)
  with inv Receive show ?thesis by (auto simp: sem_inv_def)
next
  case (Quit k)
  have "holding d' = holding d"
    using Quit by (auto simp: holding_def)
  with inv Quit show ?thesis by (auto simp: sem_inv_def)
next
  case (Acquire k job)
  have h: "holding d' = insert k (holding d)" "k \<notin> holding d"
    using Acquire by (auto simp: holding_def)
  have "finite (holding d)" using inv by (rule sem_inv_finite)
  with h have "card (holding d') = Suc (card (holding d))" by simp
  with inv Acquire show ?thesis by (auto simp: sem_inv_def)
next
  case (Return k job)
  have "holding d' = holding d"
    using Return by (auto simp: holding_def)
  with inv Return show ?thesis by (auto simp: sem_inv_def)
next
  case (Release k)
  have h: "holding d' = holding d - {k}" "k \<in> holding d"
    using Release by (auto simp: holding_def)
  have "finite (holding d)" using inv by (rule sem_inv_finite)
  with h have "card (holding d') = card (holding d) - 1" by simp
  with inv Release show ?thesis by (auto simp: sem_inv_def)
qed

lemma sem_inv_run:
  "d_run acts d = Some d' \<Longrightarrow> sem_inv d \<Longrightarrow> sem_inv d' \<and> d_maxConcurrent d' = d_maxConcurrent d"
proof (induction acts arbitrary: d)
  case Nil
  then show ?case by simp
next
  case (Cons a acts)
  from Cons.prems(1) obtain d1 where s: "d_step a d = Some d1" and r: "d_run acts d1 = Some d'"
    by (auto split: option.splits)
  from sem_inv_step [OF s Cons.prems(2)] Cons.IH [OF r] show ?case by simp
qed

lemma running_le:
  assumes "sem_inv d"
  shows "finite (running d) \<and> card (running d) \<le> d_maxConcurrent d"
proof -
  have f: "finite (holding d)" using assms by (rule sem_inv_finite)
  have sub: "running d \<subseteq> holding d" by (auto simp: running_def holding_def)
  from sub f have "finite (running d)" by (rule finite_subset)
  moreover from sub f have "card (running d) \<le> card (holding d)" by (rule card_mono [rotated])
  ultimately show ?thesis using assms by (simp add: sem_inv_def)
qed


text \<open>
  C3: take any run of the dispatcher from \<open>NewDispatcher\<close>: any number of \<open>Enqueue\<close>
  calls and workers, interleaved in any way, stopped at any moment. For every session
  queue \<open>k\<close>, the calls of the worker function and their returns are, in order,
  \<open>Started j1, Returned j1, Started j2, Returned j2, ...\<close> where \<open>j1, j2, ...\<close> are the jobs
  sent on the channel of \<open>k\<close> in the order their sends completed: a job's call is made
  only after the call for every job sent before it on the same key has returned, no job
  is called twice or skipped, and no two calls for one key overlap. Jobs with the same
  \<open>SessionKey\<close> have the same key. And the number of session queues whose worker
  function is running is at most \<open>maxConcurrent\<close> (8 when the argument is not positive).
\<close>

theorem C3_dispatcher_fifo_and_cap:
  assumes "d_run acts (NewDispatcher maxConcurrent perSessionBuffer) = Some d"
  shows "prefix (calls_on k (d_trace d)) (one_at_a_time (sent_on k (d_trace d)))
         \<and> finite (running d)
         \<and> card (running d) \<le> d_maxConcurrent d
         \<and> d_maxConcurrent d = (if maxConcurrent \<le> 0 then 8 else nat maxConcurrent)"
proof -
  have "queue_inv d k"
    using queue_inv_run [OF assms] queue_inv_new by blast
  then have fifo: "prefix (calls_on k (d_trace d)) (one_at_a_time (sent_on k (d_trace d)))"
    by (rule queue_inv_prefix)
  from sem_inv_run [OF assms sem_inv_new]
  have s: "sem_inv d"
    and m: "d_maxConcurrent d = d_maxConcurrent (NewDispatcher maxConcurrent perSessionBuffer)"
    by simp_all
  have "d_maxConcurrent (NewDispatcher maxConcurrent perSessionBuffer)
          = (if maxConcurrent \<le> 0 then 8 else nat maxConcurrent)"
    by (simp add: NewDispatcher_def Let_def)
  with fifo running_le [OF s] m show ?thesis by simp
qed

text \<open>
  Two sessions and a semaphore of one token: two jobs are sent for the first session and
  one for the second; the second session's job runs between the two jobs of the first.
\<close>

definition job_for :: "string \<Rightarrow> string \<Rightarrow> Job" where
  "job_for jobID chatID =
     \<lparr>job_ID = jobID,
      job_SessionKey = \<lparr>Platform = ''telegram'', ChatID = chatID, ThreadID = []\<rparr>,
      job_Executor = ''codex'', job_Session = [], job_Prompt = ''hi'',
      job_Workdir = ''/repo/app'', job_PermissionMode = ''sandbox'', job_Status = JobPending,
      job_CreatedAt = 0, job_StartedAt = None, job_FinishedAt = None, job_ErrorMessage = []\<rparr>"

definition three_jobs :: "d_action list" where
  "three_jobs =
     [Lookup (job_for ''a1'' ''1''), SendJob 0, Lookup (job_for ''a2'' ''1''), SendJob 0,
      Lookup (job_for ''b1'' ''2''), SendJob 0,
      Receive ''telegram:1'', Receive ''telegram:2'', Acquire ''telegram:1'',
      Return ''telegram:1'', Release ''telegram:1'', Acquire ''telegram:2'',
      Receive ''telegram:1'', Return ''telegram:2'', Release ''telegram:2'',
      Acquire ''telegram:1'']"

lemma three_jobs_run:
  "\<exists>d. d_run three_jobs (NewDispatcher 1 2) = Some d
       \<and> d_trace d = [Sent (job_for ''a1'' ''1''), Sent (job_for ''a2'' ''1''),
                      Sent (job_for ''b1'' ''2''),
                      Started (job_for ''a1'' ''1''), Returned (job_for ''a1'' ''1''),
                      Started (job_for ''b1'' ''2''), Returned (job_for ''b1'' ''2''),
                      Started (job_for ''a2'' ''1'')]
       \<and> d_maxConcurrent d = 1"
  by (simp add: three_jobs_def NewDispatcher_def d_step_def job_key_def SessionKey_String_def
      job_for_def Let_def)

theorem C3_dispatcher_fifo_and_cap_witness:
  "\<exists>d. d_run three_jobs (NewDispatcher 1 2) = Some d
       \<and> d_trace d = [Sent (job_for ''a1'' ''1''), Sent (job_for ''a2'' ''1''),
                      Sent (job_for ''b1'' ''2''),
                      Started (job_for ''a1'' ''1''), Returned (job_for ''a1'' ''1''),
                      Started (job_for ''b1'' ''2''), Returned (job_for ''b1'' ''2''),
                      Started (job_for ''a2'' ''1'')]
       \<and> calls_on ''telegram:1'' (d_trace d)
           = [Started (job_for ''a1'' ''1''), Returned (job_for ''a1'' ''1''),
              Started (job_for ''a2'' ''1'')]
       \<and> sent_on ''telegram:1'' (d_trace d) = [job_for ''a1'' ''1'', job_for ''a2'' ''1'']
       \<and> prefix (calls_on ''telegram:1'' (d_trace d))
                 (one_at_a_time (sent_on ''telegram:1'' (d_trace d)))
       \<and> card (running d) \<le> 1"
proof -
  from three_jobs_run obtain d where
    r: "d_run three_jobs (NewDispatcher 1 2) = Some d"
    and t: "d_trace d = [Sent (job_for ''a1'' ''1''), Sent (job_for ''a2'' ''1''),
                      Sent (job_for ''b1'' ''2''),
                      Started (job_for ''a1'' ''1''), Returned (job_for ''a1'' ''1''),
                      Started (job_for ''b1'' ''2''), Returned (job_for ''b1'' ''2''),
                      Started (job_for ''a2'' ''1'')]"
    by blast
  have c: "calls_on ''telegram:1'' (d_trace d)
           = [Started (job_for ''a1'' ''1''), Returned (job_for ''a1'' ''1''),
              Started (job_for ''a2'' ''1'')]"
    "sent_on ''telegram:1'' (d_trace d) = [job_for ''a1'' ''1'', job_for ''a2'' ''1'']"
    unfolding t
    by (simp_all add: calls_on_def sent_on_def job_key_def SessionKey_String_def job_for_def)
  from C3_dispatcher_fifo_and_cap [OF r, of "''telegram:1''"]
  have "prefix (calls_on ''telegram:1'' (d_trace d))
                 (one_at_a_time (sent_on ''telegram:1'' (d_trace d)))"
    and "card (running d) \<le> 1"
    by simp_all
  with r t c show ?thesis by blast
qed

end
